theory Spec2Isabelle
  imports Complex_Main "HOL-Library.Sublist"
begin

section \<open>Download statuses (downloads.go, lines 35-78)\<close>

text \<open>
  \<^verbatim>\<open>type downloadStatus int\<close> with a \<^verbatim>\<open>const ( ... = iota ... )\<close> block: the
  variants are consecutive integers in declaration order. The variants are a datatype
  and \<open>iota\<close> gives each one the integer the Go compiler assigns; every comparison
  the source makes between statuses is a comparison of these integers.
\<close>

datatype downloadStatus =
    downloadSuccess
  | downloadIgnored
  | downloadSkipped
  | downloadSkippedDuplicate
  | downloadSkippedUnpermittedDomain
  | downloadSkippedUnpermittedType
  | downloadSkippedUnpermittedExtension
  | downloadSkippedDetectedDuplicate
  | downloadFailed
  | downloadFailed404
  | downloadFailedInvalidSource
  | downloadFailedInvalidPath
  | downloadFailedCreatingFolder
  | downloadFailedRequesting
  | downloadFailedDownloadingResponse
  | downloadFailedReadResponse
  | downloadFailedCreatingSubfolder
  | downloadFailedWritingFile
  | downloadFailedWritingDatabase

fun iota :: "downloadStatus \<Rightarrow> int" where
  "iota downloadSuccess = 0"
| "iota downloadIgnored = 1"
| "iota downloadSkipped = 2"
| "iota downloadSkippedDuplicate = 3"
| "iota downloadSkippedUnpermittedDomain = 4"
| "iota downloadSkippedUnpermittedType = 5"
| "iota downloadSkippedUnpermittedExtension = 6"
| "iota downloadSkippedDetectedDuplicate = 7"
| "iota downloadFailed = 8"
| "iota downloadFailed404 = 9"
| "iota downloadFailedInvalidSource = 10"
| "iota downloadFailedInvalidPath = 11"
| "iota downloadFailedCreatingFolder = 12"
| "iota downloadFailedRequesting = 13"
| "iota downloadFailedDownloadingResponse = 14"
| "iota downloadFailedReadResponse = 15"
| "iota downloadFailedCreatingSubfolder = 16"
| "iota downloadFailedWritingFile = 17"
| "iota downloadFailedWritingDatabase = 18"

text \<open>The groups of variants, by the prefix of their names in the source.\<close>

definition skippedVariants :: "downloadStatus list" where
  "skippedVariants =
     [downloadSkipped, downloadSkippedDuplicate, downloadSkippedUnpermittedDomain,
      downloadSkippedUnpermittedType, downloadSkippedUnpermittedExtension,
      downloadSkippedDetectedDuplicate]"

definition failedVariants :: "downloadStatus list" where
  "failedVariants =
     [downloadFailed, downloadFailed404, downloadFailedInvalidSource,
      downloadFailedInvalidPath, downloadFailedCreatingFolder, downloadFailedRequesting,
      downloadFailedDownloadingResponse, downloadFailedReadResponse,
      downloadFailedCreatingSubfolder, downloadFailedWritingFile,
      downloadFailedWritingDatabase]"

text \<open>A Go \<^verbatim>\<open>error\<close> is its message; \<^verbatim>\<open>nil\<close> is \<open>None\<close>.\<close>

type_synonym error = string

record downloadStatusStruct =
  Status :: downloadStatus
  Error :: "error option"

text \<open>
  \<^verbatim>\<open>mDownloadStatus(status, _error...)\<close>: the variadic errors are a list; an
  argument may itself be \<^verbatim>\<open>nil\<close>.
\<close>

fun mDownloadStatus :: "downloadStatus \<Rightarrow> error option list \<Rightarrow> downloadStatusStruct" where
  "mDownloadStatus status [] = \<lparr>Status = status, Error = None\<rparr>"
| "mDownloadStatus status (e # _) = \<lparr>Status = status, Error = e\<rparr>"

section \<open>The retry controller (startDownload, lines 422-433)\<close>

text \<open>
  Line 428, the condition under which the loop breaks:
  \<^verbatim>\<open>status.Status < downloadFailed || status.Status == downloadFailed404\<close>.
\<close>

definition retryBreaks :: "downloadStatusStruct \<Rightarrow> bool" where
  "retryBreaks status \<longleftrightarrow>
     iota (Status status) < iota downloadFailed \<or> Status status = downloadFailed404"

text \<open>
  The state the loop threads: the variable \<^verbatim>\<open>status\<close>, the world \<^verbatim>\<open>tryDownload\<close>
  reads and changes, and what the loop itself does to the outside: the results of the
  calls of \<^verbatim>\<open>tryDownload\<close> it made (oldest first) and the number of
  \<^verbatim>\<open>time.Sleep(5 * time.Second)\<close> it performed.
\<close>

record 'w retryState =
  rsStatus :: downloadStatusStruct
  rsWorld :: 'w
  rsCalls :: "downloadStatusStruct list"
  rsSleeps :: nat

text \<open>
  \<^verbatim>\<open>for i := 0; i < config.DownloadRetryMax; i++ { ... }\<close>. The executor is a
  parameter: any function from the world to a status and a new world. The counter
  \<open>i\<close> stays below \<open>retryMax\<close>, a Go \<^verbatim>\<open>int\<close>, so \<^verbatim>\<open>i++\<close> never wraps.
\<close>

function retryLoop ::
  "('w \<Rightarrow> downloadStatusStruct \<times> 'w) \<Rightarrow> int \<Rightarrow> int \<Rightarrow> 'w retryState \<Rightarrow> 'w retryState" where
  "retryLoop tryDownload retryMax i s =
     (if i < retryMax then
        (let r = tryDownload (rsWorld s);
             s' = s\<lparr>rsStatus := fst r, rsWorld := snd r, rsCalls := rsCalls s @ [fst r]\<rparr>
         in if retryBreaks (fst r) then s'
            else retryLoop tryDownload retryMax (i + 1) (s'\<lparr>rsSleeps := rsSleeps s' + 1\<rparr>))
      else s)"
  by pat_completeness auto
termination
  by (relation "measure (\<lambda>(t, m, i, s). nat (m - i))") auto

text \<open>Lines 423-433: \<^verbatim>\<open>status := mDownloadStatus(downloadFailed)\<close>, then the loop.\<close>

definition retryPhase ::
  "('w \<Rightarrow> downloadStatusStruct \<times> 'w) \<Rightarrow> int \<Rightarrow> 'w \<Rightarrow> 'w retryState" where
  "retryPhase tryDownload retryMax w =
     retryLoop tryDownload retryMax 0
       \<lparr>rsStatus = mDownloadStatus downloadFailed [], rsWorld = w, rsCalls = [], rsSleeps = 0\<rparr>"

section \<open>Reporting and the link log (startDownload, lines 435-578)\<close>

text \<open>
  The fields of the request and of the message that \<^verbatim>\<open>startDownload\<close> and
  \<^verbatim>\<open>tryDownload\<close> read. \<^verbatim>\<open>Message.Author\<close> is a pointer that \<^verbatim>\<open>tryDownload\<close>
  tests against \<^verbatim>\<open>nil\<close>: \<open>None\<close> is \<^verbatim>\<open>nil\<close>. \<^verbatim>\<open>download.Message\<close> itself is
  dereferenced by both functions before anything else and is taken to be there. Times
  are abstract.
\<close>

record discordUser =
  userID :: string
  Username :: string
  Discriminator :: string

record discordMessage =
  messageID :: string
  ChannelID :: string
  GuildID :: string
  Author :: "discordUser option"
  Timestamp :: string

record downloadRequestStruct =
  InputURL :: string
  Filename :: string
  Path :: string
  Message :: discordMessage
  FileTime :: nat
  HistoryCmd :: bool
  EmojiCmd :: bool
  ManualDownload :: bool

datatype channelType =
  ChannelTypeGuildText | ChannelTypeDM | ChannelTypeGroupDM | ChannelTypeOther

definition osPathSeparator :: char where
  "osPathSeparator = CHR ''/''"

text \<open>
  How a part of \<^verbatim>\<open>startDownload\<close> ends: it completes with a value, or it
  dereferences a \<^verbatim>\<open>nil\<close> \<^verbatim>\<open>Message.Author\<close> and the call panics.
\<close>

datatype 'a completion = Completed 'a | NilDereference

definition thenCompleted :: "'a completion \<Rightarrow> ('a \<Rightarrow> 'b completion) \<Rightarrow> 'b completion" where
  "thenCompleted c k = (case c of NilDereference \<Rightarrow> NilDereference | Completed x \<Rightarrow> k x)"

text \<open>\<^verbatim>\<open>strings.Contains(s, substr)\<close>: \<open>substr\<close> occurs in \<open>s\<close> as a contiguous run.\<close>

fun stringsContains :: "string \<Rightarrow> string \<Rightarrow> bool" where
  "stringsContains [] substr = (substr = [])"
| "stringsContains (c # s) substr = (prefix substr (c # s) \<or> stringsContains s substr)"

text \<open>
  The fields of \<^verbatim>\<open>channelConfig.LogLinks\<close> that lines 471-566 read. The type is
  declared outside this file; the fields the source dereferences without a nil check
  are plain values here, while \<^verbatim>\<open>FilterDuplicates\<close>, \<^verbatim>\<open>Prefix\<close>, \<^verbatim>\<open>Suffix\<close> and
  \<^verbatim>\<open>UserData\<close> are tested against \<^verbatim>\<open>nil\<close> first.
\<close>

record configurationChannelLogLinks =
  Destination :: string
  DestinationIsFolder :: bool
  DivideLogsByServer :: bool
  DivideLogsByChannel :: bool
  DivideLogsByUser :: bool
  DivideLogsByStatus :: bool
  LogDownloads :: bool
  LogFailures :: bool
  FilterDuplicates :: "bool option"
  Prefix :: "string option"
  Suffix :: "string option"
  UserData :: "bool option"

text \<open>
  What \<^verbatim>\<open>startDownload\<close> reads from outside after the loop: whether the channel is
  registered, \<^verbatim>\<open>*channelConfig.ErrorMessages\<close>, whether the bot may send messages
  to the channel, the \<^verbatim>\<open>LogLinks\<close> block (\<open>None\<close> is \<^verbatim>\<open>nil\<close>), the error of
  \<^verbatim>\<open>os.MkdirAll\<close> for a path, the type of a channel in the bot state (\<open>None\<close>
  when \<^verbatim>\<open>bot.State.Channel\<close> gives an error), the contents \<^verbatim>\<open>ioutil.ReadFile\<close>
  gives for a path (\<open>None\<close> for an error), and whether \<^verbatim>\<open>os.OpenFile\<close> and
  \<^verbatim>\<open>f.WriteString\<close> succeed for a path.
\<close>

record logEnv =
  channelRegistered :: bool
  errorMessages :: bool
  hasPermsSendMessages :: bool
  logLinksConfig :: "configurationChannelLogLinks option"
  logMkdirAll :: "string \<Rightarrow> error option"
  stateChannelType :: "string \<Rightarrow> channelType option"
  readFile :: "string \<Rightarrow> string option"
  logFileWritable :: "string \<Rightarrow> bool"

text \<open>Line 436: the condition of the "Gave up on downloading" report.\<close>

definition gaveUp :: "downloadRequestStruct \<Rightarrow> downloadStatusStruct \<Rightarrow> bool" where
  "gaveUp download status \<longleftrightarrow>
     iota (Status status) \<ge> iota downloadFailed \<and> \<not> HistoryCmd download \<and> \<not> EmojiCmd download"

text \<open>
  Lines 436-465: whether the failure notice is sent to the channel and whether the
  error is passed to \<^verbatim>\<open>logErrorMessage\<close>. The notice mentions
  \<^verbatim>\<open>download.Message.Author.ID\<close> (line 451) with no test of the pointer.
\<close>

definition failureNotice ::
  "logEnv \<Rightarrow> downloadRequestStruct \<Rightarrow> downloadStatusStruct \<Rightarrow> (bool \<times> bool) completion" where
  "failureNotice env download status =
     (if gaveUp download status then
        (if channelRegistered env then
           thenCompleted
             (if \<not> HistoryCmd download \<and> errorMessages env then
                (if hasPermsSendMessages env then
                   (case Author (Message download) of
                      None \<Rightarrow> NilDereference
                    | Some author \<Rightarrow> Completed True)
                 else Completed False)
              else Completed False)
             (\<lambda>sent. Completed (sent, Error status \<noteq> None))
         else Completed (False, False))
      else Completed (False, False))"

text \<open>Lines 504-514: the part of the file name that tells the outcome.\<close>

definition byStatus :: "downloadStatusStruct \<Rightarrow> string \<Rightarrow> string" where
  "byStatus status logPath =
     (if iota (Status status) \<ge> iota downloadFailed then logPath @ '' - FAILED''
      else if iota (Status status) \<ge> iota downloadSkipped then logPath @ '' - SKIPPED''
      else if Status status = downloadIgnored then logPath @ '' - IGNORED''
      else if Status status = downloadSuccess then logPath @ '' - DOWNLOADED''
      else logPath)"

text \<open>
  Lines 472-517: the path of the log file. Line 502 reads
  \<^verbatim>\<open>download.Message.Author.ID\<close> with no test of the pointer.
\<close>

definition linkLogPath ::
  "logEnv \<Rightarrow> configurationChannelLogLinks \<Rightarrow> downloadRequestStruct \<Rightarrow> downloadStatusStruct \<Rightarrow>
   string completion" where
  "linkLogPath env logLinks download status =
     (let logPath = Destination logLinks
      in if DestinationIsFolder logLinks then
           (let logPath = (if \<not> suffix [osPathSeparator] logPath
                           then logPath @ [osPathSeparator] else logPath)
            in case logMkdirAll env logPath of
                 Some err \<Rightarrow> Completed (logPath @ ''.txt'')
               | None \<Rightarrow>
                   (let logPath = logPath @ ''Log_Links'';
                        logPath =
                          (if DivideLogsByServer logLinks then
                             (if GuildID (Message download) = [] then
                                (case stateChannelType env (ChannelID (Message download)) of
                                   None \<Rightarrow> logPath @ '' Unknown''
                                 | Some ChannelTypeDM \<Rightarrow> logPath @ '' DM''
                                 | Some ChannelTypeGroupDM \<Rightarrow> logPath @ '' GroupDM''
                                 | Some ChannelTypeGuildText \<Rightarrow> logPath @ '' Unknown''
                                 | Some ChannelTypeOther \<Rightarrow> logPath @ '' Unknown'')
                              else logPath @ '' SID_'' @ GuildID (Message download))
                           else logPath);
                        logPath =
                          (if DivideLogsByChannel logLinks
                           then logPath @ '' CID_'' @ ChannelID (Message download)
                           else logPath)
                    in thenCompleted
                         (if DivideLogsByUser logLinks then
                            (case Author (Message download) of
                               None \<Rightarrow> NilDereference
                             | Some author \<Rightarrow> Completed (logPath @ '' UID_'' @ userID author))
                          else Completed logPath)
                         (\<lambda>logPath.
                            Completed
                              ((if DivideLogsByStatus logLinks then byStatus status logPath
                                else logPath) @ ''.txt''))))
         else Completed logPath)"

text \<open>
  Lines 532-548: the variable \<^verbatim>\<open>shouldLog\<close> after the two gates. It starts
  \<^verbatim>\<open>true\<close>; for a status above \<^verbatim>\<open>downloadSuccess\<close> it becomes
  \<^verbatim>\<open>*LogFailures\<close>; otherwise, if \<^verbatim>\<open>*LogDownloads\<close>, it is assigned \<^verbatim>\<open>true\<close>
  (and is left as it was if not); then the duplicate filter may clear it.
\<close>

definition shouldLog ::
  "configurationChannelLogLinks \<Rightarrow> downloadStatusStruct \<Rightarrow> string \<Rightarrow> string \<Rightarrow> bool" where
  "shouldLog logLinks status currentLogS inputURL =
     (let shouldLog0 = True;
          shouldLog1 =
            (if iota (Status status) > iota downloadSuccess then LogFailures logLinks
             else if LogDownloads logLinks then True
             else shouldLog0);
          shouldLog2 =
            (case FilterDuplicates logLinks of
               None \<Rightarrow> shouldLog1
             | Some filterDuplicates \<Rightarrow>
                 if filterDuplicates then
                   (if stringsContains currentLogS inputURL then False else shouldLog1)
                 else shouldLog1)
      in shouldLog2)"

text \<open>
  Line 559: \<^verbatim>\<open>fmt.Sprintf("[%s/%s] \"%s\"#%s (%s) @ %s: ", ...)\<close> over the guild,
  the channel, the author's name, discriminator and identifier, and the time stamp.
\<close>

definition userData :: "discordMessage \<Rightarrow> discordUser \<Rightarrow> string" where
  "userData message author =
     ''['' @ GuildID message @ ''/'' @ ChannelID message @ ''] '' @ [CHR 0x22]
       @ Username author @ [CHR 0x22] @ ''#'' @ Discriminator author
       @ '' ('' @ userID author @ '') @ '' @ Timestamp message @ '': ''"

text \<open>
  Lines 549-568: the line written when \<^verbatim>\<open>shouldLog\<close> holds. With \<^verbatim>\<open>UserData\<close> on,
  line 559 reads three fields of \<^verbatim>\<open>download.Message.Author\<close> with no test of the
  pointer.
\<close>

definition newLine :: "configurationChannelLogLinks \<Rightarrow> downloadRequestStruct \<Rightarrow> string completion" where
  "newLine logLinks download =
     (let prefixText = (case Prefix logLinks of None \<Rightarrow> [] | Some p \<Rightarrow> p)
      in thenCompleted
           (case UserData logLinks of
              None \<Rightarrow> Completed []
            | Some u \<Rightarrow>
                if u then
                  (case Author (Message download) of
                     None \<Rightarrow> NilDereference
                   | Some author \<Rightarrow> Completed (userData (Message download) author))
                else Completed [])
           (\<lambda>additionalInfo.
              let suffixText = (case Suffix logLinks of None \<Rightarrow> [] | Some x \<Rightarrow> x)
              in Completed ([CHR 0x0A] @ prefixText @ additionalInfo @ InputURL download
                              @ suffixText)))"

text \<open>
  Lines 467-576: the file and the line appended to it, if any. The contents read are
  the empty string when \<^verbatim>\<open>ioutil.ReadFile\<close> fails. When the file cannot be opened
  \<open>f\<close> is \<^verbatim>\<open>nil\<close> and \<^verbatim>\<open>f.WriteString\<close> returns an error: nothing is appended.
  Only the appended line is recorded, not that \<^verbatim>\<open>os.OpenFile\<close> creates the file.
\<close>

definition logLinkAppended ::
  "logEnv \<Rightarrow> downloadRequestStruct \<Rightarrow> downloadStatusStruct \<Rightarrow>
   (string \<times> string) option completion" where
  "logLinkAppended env download status =
     (if channelRegistered env then
        (case logLinksConfig env of
           None \<Rightarrow> Completed None
         | Some logLinks \<Rightarrow>
             if Destination logLinks \<noteq> [] then
               thenCompleted (linkLogPath env logLinks download status)
                 (\<lambda>logPath.
                    let currentLogS = (case readFile env logPath of None \<Rightarrow> [] | Some c \<Rightarrow> c)
                    in if shouldLog logLinks status currentLogS (InputURL download) then
                         thenCompleted (newLine logLinks download)
                           (\<lambda>line. Completed (if logFileWritable env logPath
                                                then Some (logPath, line) else None))
                       else Completed None)
             else Completed None)
      else Completed None)"

text \<open>
  \<^verbatim>\<open>startDownload\<close>: the retry phase, the report, the link log, and
  \<^verbatim>\<open>return status\<close>. Nothing after the loop assigns \<^verbatim>\<open>status\<close>. What the call
  reports when it returns: the status returned, whether it printed that it gave up,
  whether it sent the failure notice, whether it passed the error on, and the log file
  and line it appended.
\<close>

record startDownloadReport =
  returned :: downloadStatusStruct
  reportedGaveUp :: bool
  noticeSent :: bool
  errorLogged :: bool
  logAppended :: "(string \<times> string) option"

record 'w startDownloadResult =
  retried :: "'w retryState"
  outcome :: "startDownloadReport completion"

definition startDownload ::
  "(downloadRequestStruct \<Rightarrow> 'w \<Rightarrow> downloadStatusStruct \<times> 'w) \<Rightarrow> int \<Rightarrow> logEnv \<Rightarrow>
   downloadRequestStruct \<Rightarrow> 'w \<Rightarrow> 'w startDownloadResult" where
  "startDownload tryDownload retryMax env download w =
     (let r = retryPhase (tryDownload download) retryMax w;
          status = rsStatus r
      in \<lparr>retried = r,
          outcome =
            thenCompleted (failureNotice env download status)
              (\<lambda>notice. thenCompleted (logLinkAppended env download status)
                 (\<lambda>appended.
                    Completed \<lparr>returned = status, reportedGaveUp = gaveUp download status,
                               noticeSent = fst notice, errorLogged = snd notice,
                               logAppended = appended\<rparr>))\<rparr>)"

section \<open>The executor (tryDownload, lines 581-1078)\<close>

subsection \<open>Configuration, collaborators and the world\<close>

text \<open>
  Modelled from the spec: \<^verbatim>\<open>stringInSlice\<close> is defined outside downloads.go; the
  spec reads its use in the filters as membership of the key in the configured set.
\<close>

fun stringInSlice :: "string \<Rightarrow> string list \<Rightarrow> bool" where
  "stringInSlice a [] = False"
| "stringInSlice a (b # list) = (if b = a then True else stringInSlice a list)"

text \<open>
  The fields of \<^verbatim>\<open>channelConfig\<close> and of \<^verbatim>\<open>config\<close> that \<^verbatim>\<open>tryDownload\<close> reads
  (both types are declared outside this file). A pointer the source tests against
  \<^verbatim>\<open>nil\<close> is an \<open>option\<close>; a pointer it dereferences without a test is the value.
\<close>

record configurationChannelFilters =
  AllowedExtensions :: "string list option"
  BlockedExtensions :: "string list option"
  AllowedDomains :: "string list option"
  BlockedDomains :: "string list option"

record configurationChannel =
  Filters :: configurationChannelFilters
  SaveImages :: bool
  SaveVideos :: bool
  SaveAudioFiles :: bool
  SaveTextFiles :: bool
  SaveOtherFiles :: bool
  DivideFoldersByServer :: bool
  DivideFoldersByChannel :: bool
  DivideFoldersByUser :: bool
  DivideFoldersByType :: bool
  OverwriteFilenameDateFormat :: "string option"
  SavePossibleDuplicates :: bool
  ReactWhenDownloadedChannel :: "bool option"
  ReactWhenDownloadedHistory :: "bool option"
  ReactWhenDownloadedEmoji :: string
  BlacklistReactEmojis :: "string list"
  UpdatePresence :: bool

text \<open>
  \<^verbatim>\<open>config.FilterDuplicateImagesThreshold\<close> and \<^verbatim>\<open>match.Score\<close> are
  \<^verbatim>\<open>float64\<close>; the source only compares them with \<^verbatim>\<open><\<close>, and on values that
  are numbers (not NaN) that comparison is the order of the reals.
\<close>

record configuration =
  FilterDuplicateImages :: bool
  FilterDuplicateImagesThreshold :: real
  FilenameDateFormat :: string
  ReactWhenDownloaded :: bool

record httpResponse =
  StatusCode :: int
  responseBody :: "error + string"
  requestURL :: string
  contentDisposition :: "string option"

record duploMatch =
  matchID :: int
  Score :: real

record discordChannel =
  channelName :: string
  channelKind :: channelType
  channelGuildID :: string
  channelParentID :: string

text \<open>An emoji of a guild: the text \<^verbatim>\<open>APIName()\<close> returns for it, and \<^verbatim>\<open>Animated\<close>.\<close>

record discordEmoji =
  APIName :: string
  Animated :: bool

record downloadItem =
  itemURL :: string
  itemDestination :: string
  itemFilename :: string
  itemChannelID :: string
  itemUserID :: string

text \<open>
  What \<^verbatim>\<open>os.Stat\<close> answers for a path: no error (the file is there, with its
  contents), an error for which \<^verbatim>\<open>os.IsNotExist\<close> holds, or another error.
\<close>

datatype fileEntry = Absent | Present string | Inaccessible

text \<open>
  The state \<^verbatim>\<open>tryDownload\<close> changes: the global counter, the image store
  (\<open>'s\<close>, the type of \<^verbatim>\<open>duplo.Store\<close>), the files, the records of the database,
  the reactions added (channel, message, emoji), the presence updates, the store as
  last written to \<^verbatim>\<open>imgStorePath\<close>, and the number of \<^verbatim>\<open>rand.Intn\<close> draws made.
\<close>

record 's world =
  cachedDownloadID :: int
  imgStore :: 's
  disk :: "string \<Rightarrow> fileEntry"
  database :: "downloadItem list"
  reactionsAdded :: "(string \<times> string \<times> string) list"
  presenceUpdates :: nat
  imgStoreSaved :: "'s option"
  randomDraws :: nat

text \<open>
  The standard library and the network, as \<^verbatim>\<open>tryDownload\<close> calls them; an error
  result is \<open>Some\<close> or \<open>Inl\<close> of its message.
\<close>

record libraries =
  parseRequestURI :: "string \<Rightarrow> error option"
  mkdirAll :: "string \<Rightarrow> error option"
  newRequest :: "string \<Rightarrow> error option"
  clientDo :: "string \<Rightarrow> error + httpResponse"
  parseMediaTypeFilename :: "string \<Rightarrow> string option"
  queryUnescape :: "string \<Rightarrow> string option"
  toLower :: "string \<Rightarrow> string"
  detectContentType :: "string \<Rightarrow> string"
  urlParseHostname :: "string \<Rightarrow> error + string"
  extensionsByType :: "string \<Rightarrow> string list"
  timeFormat :: "string \<Rightarrow> string"
  writeFile :: "string \<Rightarrow> error option"
  randIntn :: "nat \<Rightarrow> nat"

text \<open>
  The rest of the program and the chat platform: the helpers defined in other files
  (\<^verbatim>\<open>getAllChannels\<close>, the channel configuration chosen at lines 592-597,
  \<^verbatim>\<open>config\<close>, \<^verbatim>\<open>filenameFromURL\<close>, \<^verbatim>\<open>filepathExtension\<close>, the removal of the
  strings of \<^verbatim>\<open>pathBlacklist\<close>, \<^verbatim>\<open>dbInsertDownload\<close>, \<^verbatim>\<open>hasPerms\<close>,
  \<^verbatim>\<open>user.ID\<close>, \<^verbatim>\<open>defaultReact\<close>), the bot state, and the image store
  (\<^verbatim>\<open>image.Decode\<close> followed by \<^verbatim>\<open>duplo.CreateHash\<close>, \<^verbatim>\<open>Query\<close>, \<^verbatim>\<open>Add\<close>,
  and whether the store can be written to its file).
\<close>

record ('h, 's) collaborators =
  allChannels :: "string list"
  channelConfig :: configurationChannel
  config :: configuration
  filenameFromURL :: "string \<Rightarrow> string"
  filepathExtension :: "string \<Rightarrow> string"
  stripPathBlacklist :: "string \<Rightarrow> string"
  dbInsertDownload :: "downloadItem \<Rightarrow> error option"
  hasPermsAddReactions :: bool
  botUserID :: string
  defaultReact :: string
  stateChannel :: "string \<Rightarrow> discordChannel option"
  stateGuildName :: "string \<Rightarrow> string option"
  stateGuildEmojis :: "string \<Rightarrow> error + discordEmoji list"
  imageHash :: "string \<Rightarrow> 'h option"
  storeQuery :: "'s \<Rightarrow> 'h \<Rightarrow> duploMatch list"
  storeAdd :: "'s \<Rightarrow> int \<Rightarrow> 'h \<Rightarrow> 's"
  storePersists :: bool

text \<open>
  How a stage of \<^verbatim>\<open>tryDownload\<close> ends: with a \<^verbatim>\<open>return\<close> of a status, with a
  run-time panic, or by falling through to the next stage with a value.
\<close>

datatype 'a flow = Return downloadStatusStruct | Panic | Continue 'a

text \<open>How a call ends, when it ends: with the returned status or a panic, and the world.\<close>

datatype 's ending = Returned downloadStatusStruct "'s world" | Panicked "'s world"


subsection \<open>Fetching (lines 599-655)\<close>

text \<open>
  Line 629 sets a header on \<^verbatim>\<open>request\<close> before line 630 tests the error of
  \<^verbatim>\<open>http.NewRequest\<close>; with an error the request is \<^verbatim>\<open>nil\<close> and the call panics.
  Lines 610 and 654 pass an \<^verbatim>\<open>err\<close> that is \<^verbatim>\<open>nil\<close> there.
\<close>

definition fetch ::
  "libraries \<Rightarrow> downloadRequestStruct \<Rightarrow> (downloadRequestStruct \<times> string \<times> httpResponse) flow" where
  "fetch lib download =
     (case parseRequestURI lib (InputURL download) of
        Some err \<Rightarrow> Return (mDownloadStatus downloadFailedInvalidSource [Some err])
      | None \<Rightarrow>
          if Path download = [] \<or> Path download = [osPathSeparator] then
            Return (mDownloadStatus downloadFailedInvalidPath [None])
          else
            (let download =
                   (if \<not> suffix [osPathSeparator] (Path download)
                    then download\<lparr>Path := Path download @ [osPathSeparator]\<rparr>
                    else download)
             in case mkdirAll lib (Path download) of
                  Some err \<Rightarrow> Return (mDownloadStatus downloadFailedCreatingFolder [Some err])
                | None \<Rightarrow>
                    (case newRequest lib (InputURL download) of
                       Some err \<Rightarrow> Panic
                     | None \<Rightarrow>
                         (case clientDo lib (InputURL download) of
                            Inl err \<Rightarrow>
                              Return (mDownloadStatus downloadFailedDownloadingResponse [Some err])
                          | Inr response \<Rightarrow>
                              (case responseBody response of
                                 Inl err \<Rightarrow>
                                   Return (mDownloadStatus downloadFailedReadResponse [Some err])
                               | Inr bodyOfResp \<Rightarrow>
                                   if StatusCode response = 404 then
                                     Return (mDownloadStatus downloadFailed404 [None])
                                   else Continue (download, bodyOfResp, response))))))"

subsection \<open>File name, extension and content type (lines 657-685)\<close>

definition chooseFilename ::
  "libraries \<Rightarrow> ('h, 's) collaborators \<Rightarrow> downloadRequestStruct \<Rightarrow> httpResponse \<Rightarrow> string" where
  "chooseFilename lib col download response =
     (if Filename download = [] then
        (let filename = filenameFromURL col (requestURL response)
         in case contentDisposition response of
              None \<Rightarrow> filename
            | Some header \<Rightarrow>
                (case parseMediaTypeFilename lib header of
                   None \<Rightarrow> filename
                 | Some param \<Rightarrow>
                     (let newFilename =
                            (case queryUnescape lib param of None \<Rightarrow> param | Some u \<Rightarrow> u)
                      in if newFilename \<noteq> [] then newFilename else filename)))
      else Filename download)"

text \<open>
  \<^verbatim>\<open>filepath.Ext\<close>: the suffix beginning at the final dot of the final element of
  the path, empty when that element has no dot. The scan runs from the end of the path
  and stops at a separator.
\<close>

fun extScan :: "string \<Rightarrow> string \<Rightarrow> string" where
  "extScan [] acc = []"
| "extScan (c # rest) acc =
     (if c = osPathSeparator then []
      else if c = CHR ''.'' then c # acc
      else extScan rest (c # acc))"

definition filepathExt :: "string \<Rightarrow> string" where
  "filepathExt path = extScan (rev path) []"

text \<open>\<^verbatim>\<open>strings.Split(contentType, "/")[0]\<close>: the text before the first slash.\<close>

definition contentTypePart0 :: "string \<Rightarrow> string" where
  "contentTypePart0 contentType = takeWhile (\<lambda>c. c \<noteq> CHR ''/'') contentType"

subsection \<open>The extension filter (lines 687-712)\<close>

text \<open>The value of \<^verbatim>\<open>shouldAbort\<close> at line 706; no abort when neither list is set.\<close>

definition extensionAborts :: "configurationChannelFilters \<Rightarrow> string \<Rightarrow> bool" where
  "extensionAborts filters extension =
     (if AllowedExtensions filters \<noteq> None \<or> BlockedExtensions filters \<noteq> None then
        (let shouldAbort = False;
             shouldAbort = (if AllowedExtensions filters \<noteq> None then True else shouldAbort);
             shouldAbort =
               (case BlockedExtensions filters of
                  None \<Rightarrow> shouldAbort
                | Some blocked \<Rightarrow> if stringInSlice extension blocked then True else shouldAbort);
             shouldAbort =
               (case AllowedExtensions filters of
                  None \<Rightarrow> shouldAbort
                | Some allowed \<Rightarrow> if stringInSlice extension allowed then False else shouldAbort)
         in shouldAbort)
      else False)"

definition checkExtension :: "configurationChannelFilters \<Rightarrow> string \<Rightarrow> unit flow" where
  "checkExtension filters extension =
     (if extensionAborts filters extension
      then Return (mDownloadStatus downloadSkippedUnpermittedExtension [])
      else Continue ())"

subsection \<open>Content type and file name fixes (lines 714-733)\<close>

definition fixContentType :: "string \<Rightarrow> string \<Rightarrow> string" where
  "fixContentType extension contentTypeFound =
     (if stringInSlice extension [''.mov''] \<or> stringInSlice extension [''.mp4'']
         \<or> stringInSlice extension [''.webm''] then ''video''
      else if stringInSlice extension [''.psd''] \<or> stringInSlice extension [''.nef'']
         \<or> stringInSlice extension [''.dng''] \<or> stringInSlice extension [''.tif'']
         \<or> stringInSlice extension [''.tiff''] then ''image''
      else contentTypeFound)"

definition fixFilenameExtension :: "libraries \<Rightarrow> string \<Rightarrow> string \<Rightarrow> string" where
  "fixFilenameExtension lib filename contentType =
     (if filepathExt filename = [] then
        (case extensionsByType lib contentType of
           [] \<Rightarrow> filename
         | possibleExtension # _ \<Rightarrow> filename @ possibleExtension)
      else filename)"

subsection \<open>The domain filter (lines 735-760)\<close>

text \<open>
  The key is \<^verbatim>\<open>parsedURL.Hostname()\<close>. When \<^verbatim>\<open>url.Parse\<close> failed at line 682
  \<^verbatim>\<open>parsedURL\<close> is \<^verbatim>\<open>nil\<close>, and the first call of \<^verbatim>\<open>Hostname\<close> panics.
\<close>

definition domainAborts :: "configurationChannelFilters \<Rightarrow> string \<Rightarrow> bool" where
  "domainAborts filters hostname =
     (if AllowedDomains filters \<noteq> None \<or> BlockedDomains filters \<noteq> None then
        (let shouldAbort = False;
             shouldAbort = (if AllowedDomains filters \<noteq> None then True else shouldAbort);
             shouldAbort =
               (case BlockedDomains filters of
                  None \<Rightarrow> shouldAbort
                | Some blocked \<Rightarrow> if stringInSlice hostname blocked then True else shouldAbort);
             shouldAbort =
               (case AllowedDomains filters of
                  None \<Rightarrow> shouldAbort
                | Some allowed \<Rightarrow> if stringInSlice hostname allowed then False else shouldAbort)
         in shouldAbort)
      else False)"

definition checkDomain :: "configurationChannelFilters \<Rightarrow> error + string \<Rightarrow> unit flow" where
  "checkDomain filters parsedURL =
     (if AllowedDomains filters \<noteq> None \<or> BlockedDomains filters \<noteq> None then
        (case parsedURL of
           Inl err \<Rightarrow> Panic
         | Inr hostname \<Rightarrow>
             if domainAborts filters hostname
             then Return (mDownloadStatus downloadSkippedUnpermittedDomain [])
             else Continue ())
      else Continue ())"

subsection \<open>The content type filter (lines 762-772)\<close>

definition checkContentType :: "configurationChannel \<Rightarrow> string \<Rightarrow> unit flow" where
  "checkContentType chanConfig contentTypeFound =
     (if \<not> ((SaveImages chanConfig \<and> contentTypeFound = ''image'')
            \<or> (SaveVideos chanConfig \<and> contentTypeFound = ''video'')
            \<or> (SaveAudioFiles chanConfig \<and> contentTypeFound = ''audio'')
            \<or> (SaveTextFiles chanConfig \<and> contentTypeFound = ''text'')
            \<or> (SaveOtherFiles chanConfig \<and> contentTypeFound = ''application''))
      then Return (mDownloadStatus downloadSkippedUnpermittedType [])
      else Continue ())"

subsection \<open>The duplicate image filter (lines 774-794)\<close>

text \<open>
  The loop over the sorted matches: it returns at the first match whose score is
  strictly below the threshold.
\<close>

fun matchBelow :: "real \<Rightarrow> duploMatch list \<Rightarrow> bool" where
  "matchBelow threshold [] = False"
| "matchBelow threshold (match # matches) =
     (if Score match < threshold then True else matchBelow threshold matches)"

text \<open>
  \<^verbatim>\<open>sort.Sort(matches)\<close> orders the matches by ascending score. When the image
  cannot be decoded the error is logged and nothing else happens.
\<close>

definition duplicateImageFilter ::
  "('h, 's) collaborators \<Rightarrow> string \<Rightarrow> string \<Rightarrow> string \<Rightarrow> 's world \<Rightarrow> ('s world) flow" where
  "duplicateImageFilter col contentTypeFound extension bodyOfResp w =
     (if FilterDuplicateImages (config col) \<and> contentTypeFound = ''image''
         \<and> extension \<noteq> ''.gif'' \<and> extension \<noteq> ''.webp'' then
        (case imageHash col bodyOfResp of
           None \<Rightarrow> Continue w
         | Some hash \<Rightarrow>
             (let matches = sort_key Score (storeQuery col (imgStore w) hash)
              in if matchBelow (FilterDuplicateImagesThreshold (config col)) matches then
                   Return (mDownloadStatus downloadSkippedDetectedDuplicate [])
                 else Continue (w\<lparr>imgStore := storeAdd col (imgStore w) (cachedDownloadID w) hash\<rparr>)))
      else Continue w)"


subsection \<open>Names and subfolders (lines 796-917)\<close>

definition sourceNames :: "('h, 's) collaborators \<Rightarrow> discordMessage \<Rightarrow> string \<times> string" where
  "sourceNames col message =
     (let sourceChannelName = ChannelID message;
          sourceName = ''UNKNOWN''
      in case stateChannel col (ChannelID message) of
           None \<Rightarrow> (sourceName, sourceChannelName)
         | Some sourceChannel \<Rightarrow>
             (let sourceChannelName =
                    (if channelName sourceChannel \<noteq> [] then channelName sourceChannel
                     else sourceChannelName)
              in case channelKind sourceChannel of
                   ChannelTypeGuildText \<Rightarrow>
                     (let sourceName =
                            (if channelGuildID sourceChannel \<noteq> [] then
                               (case stateGuildName col (channelGuildID sourceChannel) of
                                  None \<Rightarrow> sourceName
                                | Some guildName \<Rightarrow>
                                    if guildName \<noteq> [] then [CHR 0x22] @ guildName @ [CHR 0x22]
                                    else sourceName)
                             else sourceName);
                          sourceChannelName =
                            (if channelParentID sourceChannel \<noteq> [] then
                               (case stateChannel col (channelParentID sourceChannel) of
                                  None \<Rightarrow> sourceChannelName
                                | Some sourceParent \<Rightarrow>
                                    if channelName sourceParent \<noteq> []
                                    then channelName sourceParent @ '' - '' @ sourceChannelName
                                    else sourceChannelName)
                             else sourceChannelName)
                      in (sourceName, sourceChannelName))
                 | ChannelTypeDM \<Rightarrow> (''Direct Messages'', sourceChannelName)
                 | ChannelTypeGroupDM \<Rightarrow> (''Group Messages'', sourceChannelName)
                 | ChannelTypeOther \<Rightarrow> (sourceName, sourceChannelName)))"

text \<open>
  The step the four divisions share: a non-empty segment is appended with a separator
  and the folder is created; an error of \<^verbatim>\<open>os.MkdirAll\<close> returns
  \<^verbatim>\<open>downloadFailedCreatingSubfolder\<close>.
\<close>

definition addSubfolder :: "libraries \<Rightarrow> string \<Rightarrow> string \<Rightarrow> string \<Rightarrow> string flow" where
  "addSubfolder lib path subfolder subfolderSuffix =
     (if subfolderSuffix \<noteq> [] then
        (let subfolder = subfolder @ subfolderSuffix @ [osPathSeparator]
         in case mkdirAll lib (path @ subfolder) of
              Some err \<Rightarrow> Return (mDownloadStatus downloadFailedCreatingSubfolder [Some err])
            | None \<Rightarrow> Continue subfolder)
      else Continue subfolder)"

definition thenFlow :: "'a flow \<Rightarrow> ('a \<Rightarrow> 'b flow) \<Rightarrow> 'b flow" where
  "thenFlow f k = (case f of Return st \<Rightarrow> Return st | Panic \<Rightarrow> Panic | Continue x \<Rightarrow> k x)"

definition typeSubfolder :: "string \<Rightarrow> string" where
  "typeSubfolder contentTypeFound =
     (if contentTypeFound = ''image'' then ''images''
      else if contentTypeFound = ''video'' then ''videos''
      else if contentTypeFound = ''audio'' then ''audio''
      else if contentTypeFound = ''text'' then ''text''
      else if contentTypeFound = ''application'' then ''applications''
      else [])"

definition subfolders ::
  "libraries \<Rightarrow> ('h, 's) collaborators \<Rightarrow> downloadRequestStruct \<Rightarrow> string \<Rightarrow> string flow" where
  "subfolders lib col download contentTypeFound =
     (let cc = channelConfig col;
          path = Path download;
          sourceName = fst (sourceNames col (Message download));
          sourceChannelName = snd (sourceNames col (Message download))
      in case Author (Message download) of
           None \<Rightarrow> Continue []
         | Some author \<Rightarrow>
             thenFlow
               (if DivideFoldersByServer cc then
                  addSubfolder lib path []
                    (if sourceName \<noteq> [] \<and> sourceName \<noteq> ''UNKNOWN''
                     then stripPathBlacklist col sourceName else [])
                else Continue [])
               (\<lambda>subfolder. thenFlow
                  (if DivideFoldersByChannel cc then
                     addSubfolder lib path subfolder
                       (if sourceChannelName \<noteq> []
                        then stripPathBlacklist col sourceChannelName else [])
                   else Continue subfolder)
                  (\<lambda>subfolder. thenFlow
                     (if DivideFoldersByUser cc then
                        addSubfolder lib path subfolder
                          (if Username author \<noteq> []
                           then stripPathBlacklist col
                                  (Username author @ ''#'' @ Discriminator author)
                           else userID author)
                      else Continue subfolder)
                     (\<lambda>subfolder.
                        if DivideFoldersByType cc then
                          addSubfolder lib path subfolder (typeSubfolder contentTypeFound)
                        else Continue subfolder))))"

subsection \<open>The destination path and its collisions (lines 919-958)\<close>

definition filenameDateFormat :: "('h, 's) collaborators \<Rightarrow> string" where
  "filenameDateFormat col =
     (case OverwriteFilenameDateFormat (channelConfig col) of
        None \<Rightarrow> FilenameDateFormat (config col)
      | Some f \<Rightarrow> if f \<noteq> [] then f else FilenameDateFormat (config col))"

text \<open>\<^verbatim>\<open>strconv.Itoa\<close>: the decimal digits, after a minus sign for a negative number.\<close>

definition digitChar :: "nat \<Rightarrow> char" where
  "digitChar d = char_of (48 + d)"

fun natToDec :: "nat \<Rightarrow> string" where
  "natToDec n = (if n < 10 then [digitChar n] else natToDec (n div 10) @ [digitChar (n mod 10)])"

declare natToDec.simps [simp del]

definition Itoa :: "int \<Rightarrow> string" where
  "Itoa i = (if i < 0 then CHR ''-'' # natToDec (nat (- i)) else natToDec (nat i))"

text \<open>
  \<^verbatim>\<open>i = i + 1\<close> on a 64-bit \<^verbatim>\<open>int\<close>: the successor, wrapping at the largest value.
\<close>

definition maxInt :: int where
  "maxInt = 9223372036854775807"

definition increment :: "int \<Rightarrow> int" where
  "increment i = (if i = maxInt then - maxInt - 1 else i + 1)"

text \<open>
  Lines 942-943: \<^verbatim>\<open>tmpPath[0:len(tmpPath)-len(ext)] + "-" + strconv.Itoa(i) + ext\<close>,
  where \<open>ext\<close> is \<^verbatim>\<open>filepathExtension(tmpPath)\<close>.
\<close>

definition suffixedPath :: "string \<Rightarrow> string \<Rightarrow> int \<Rightarrow> string" where
  "suffixedPath tmpPath ext i = take (length tmpPath - length ext) tmpPath @ ''-'' @ Itoa i @ ext"

text \<open>
  The loop of lines 940-948. It has no bound: it ends at the first \<open>i\<close> whose path
  \<^verbatim>\<open>os.Stat\<close> reports as not existing, and \<open>None\<close> is a loop that never ends.
\<close>

partial_function (option) probeSuffix ::
  "(string \<Rightarrow> fileEntry) \<Rightarrow> string \<Rightarrow> string \<Rightarrow> int \<Rightarrow> string option" where
  "probeSuffix files tmpPath ext i =
     (let completePath = suffixedPath tmpPath ext i
      in if files completePath = Absent then Some completePath
         else probeSuffix files tmpPath ext (increment i))"

text \<open>
  Lines 935-958. The block is entered when \<^verbatim>\<open>os.Stat\<close> gives no error. The slice
  expression panics when the extension is longer than the path.
\<close>

definition resolveCollision ::
  "('h, 's) collaborators \<Rightarrow> (string \<Rightarrow> fileEntry) \<Rightarrow> string \<Rightarrow> string flow option" where
  "resolveCollision col files completePath =
     (case files completePath of
        Present old \<Rightarrow>
          if SavePossibleDuplicates (channelConfig col) then
            (let tmpPath = completePath;
                 ext = filepathExtension col tmpPath
             in if length tmpPath < length ext then Some Panic
                else map_option Continue (probeSuffix files tmpPath ext 1))
          else Some (Return (mDownloadStatus downloadSkippedDuplicate []))
      | Absent \<Rightarrow> Some (Continue completePath)
      | Inaccessible \<Rightarrow> Some (Continue completePath))"

subsection \<open>Writing the file and the record (lines 960-992)\<close>

text \<open>
  A failed \<^verbatim>\<open>ioutil.WriteFile\<close> is taken to leave the files as they were. The error
  of \<^verbatim>\<open>os.Chtimes\<close> is only logged, and file times are not part of the world.
\<close>

definition newDownloadItem ::
  "('h, 's) collaborators \<Rightarrow> downloadRequestStruct \<Rightarrow> string \<Rightarrow> downloadItem" where
  "newDownloadItem col download completePath =
     (let uid = (case Author (Message download) of
                   None \<Rightarrow> botUserID col
                 | Some author \<Rightarrow> userID author)
      in \<lparr>itemURL = InputURL download, itemDestination = completePath,
          itemFilename = Filename download,
          itemChannelID = ChannelID (Message download), itemUserID = uid\<rparr>)"

definition writeAndRecord ::
  "libraries \<Rightarrow> ('h, 's) collaborators \<Rightarrow> downloadRequestStruct \<Rightarrow> string \<Rightarrow> string \<Rightarrow>
   's world \<Rightarrow> unit flow \<times> 's world" where
  "writeAndRecord lib col download bodyOfResp completePath w =
     (case writeFile lib completePath of
        Some err \<Rightarrow> (Return (mDownloadStatus downloadFailedWritingFile [Some err]), w)
      | None \<Rightarrow>
          (let w = w\<lparr>disk := (disk w)(completePath := Present bodyOfResp)\<rparr>;
               item = newDownloadItem col download completePath
           in case dbInsertDownload col item of
                Some err \<Rightarrow> (Return (mDownloadStatus downloadFailedWritingDatabase [Some err]), w)
              | None \<Rightarrow> (Continue (), w\<lparr>database := database w @ [item]\<rparr>)))"

subsection \<open>The reaction (lines 994-1042)\<close>

text \<open>
  The loop of lines 1014-1022: \<open>intn n\<close> is the \<open>n\<close>-th number the random generator
  gives, brought into the range of \<^verbatim>\<open>rand.Intn(len(emojis))\<close>. The loop has no
  bound; the result carries the number of draws made.
\<close>

partial_function (option) pickEmoji ::
  "(nat \<Rightarrow> nat) \<Rightarrow> discordEmoji list \<Rightarrow> string list \<Rightarrow> nat \<Rightarrow> (string \<times> nat) option" where
  "pickEmoji intn emojis blacklist n =
     (let chosenEmoji = emojis ! (intn n mod length emojis);
          formattedEmoji = APIName chosenEmoji
      in if \<not> Animated chosenEmoji \<and> \<not> stringInSlice formattedEmoji blacklist
         then Some (formattedEmoji, Suc n)
         else pickEmoji intn emojis blacklist (Suc n))"

definition chooseReaction ::
  "libraries \<Rightarrow> ('h, 's) collaborators \<Rightarrow> downloadRequestStruct \<Rightarrow> nat \<Rightarrow> (string \<times> nat) option" where
  "chooseReaction lib col download n =
     (if ReactWhenDownloadedEmoji (channelConfig col) = [] then
        (if GuildID (Message download) \<noteq> [] then
           (case stateGuildEmojis col (GuildID (Message download)) of
              Inl err \<Rightarrow> Some ([], n)
            | Inr emojis \<Rightarrow>
                if length emojis > 1
                then pickEmoji (randIntn lib) emojis (BlacklistReactEmojis (channelConfig col)) n
                else Some (defaultReact col, n))
         else Some (defaultReact col, n))
      else Some (ReactWhenDownloadedEmoji (channelConfig col), n))"

definition react ::
  "libraries \<Rightarrow> ('h, 's) collaborators \<Rightarrow> downloadRequestStruct \<Rightarrow> 's world \<Rightarrow> 's world option" where
  "react lib col download w =
     (let shouldReact = ReactWhenDownloaded (config col);
          shouldReact =
            (case ReactWhenDownloadedChannel (channelConfig col) of
               None \<Rightarrow> shouldReact
             | Some b \<Rightarrow> b);
          shouldReact =
            (case ReactWhenDownloadedHistory (channelConfig col) of
               None \<Rightarrow> shouldReact
             | Some b \<Rightarrow> if HistoryCmd download \<and> \<not> b then False else shouldReact)
      in if Author (Message download) \<noteq> None \<and> shouldReact then
           (case chooseReaction lib col download (randomDraws w) of
              None \<Rightarrow> None
            | Some (reaction, n) \<Rightarrow>
                Some (if hasPermsAddReactions col then
                        w\<lparr>randomDraws := n,
                          reactionsAdded := reactionsAdded w @
                            [(ChannelID (Message download), messageID (Message download), reaction)]\<rparr>
                      else w\<lparr>randomDraws := n\<rparr>))
         else Some w)"

subsection \<open>Presence and the stored index (lines 1044-1072)\<close>

definition finish ::
  "('h, 's) collaborators \<Rightarrow> downloadRequestStruct \<Rightarrow> int \<Rightarrow> 's world \<Rightarrow> 's world" where
  "finish col download thisDownloadID w =
     (let w = (if \<not> HistoryCmd download \<and> UpdatePresence (channelConfig col)
               then w\<lparr>presenceUpdates := presenceUpdates w + 1\<rparr> else w);
          w = (if thisDownloadID > 0 \<and> FilterDuplicateImages (config col) \<and> storePersists col
               then w\<lparr>imgStoreSaved := Some (imgStore w)\<rparr> else w)
      in w)"

subsection \<open>The whole call\<close>

definition ended :: "'a flow \<Rightarrow> 's world \<Rightarrow> ('a \<Rightarrow> 's ending option) \<Rightarrow> 's ending option" where
  "ended f w k =
     (case f of Return st \<Rightarrow> Some (Returned st w) | Panic \<Rightarrow> Some (Panicked w) | Continue x \<Rightarrow> k x)"

text \<open>
  Lines 657-772, after the fetch: the file name, the extension and the content type,
  then the extension, domain and content type filters. It leaves the request with its
  file name, the extension and the content type found.
\<close>

definition classify ::
  "libraries \<Rightarrow> ('h, 's) collaborators \<Rightarrow> downloadRequestStruct \<Rightarrow> string \<Rightarrow> httpResponse \<Rightarrow>
   (downloadRequestStruct \<times> string \<times> string) flow" where
  "classify lib col download bodyOfResp response =
     (let download = download\<lparr>Filename := chooseFilename lib col download response\<rparr>;
          extension = toLower lib (filepathExt (Filename download));
          contentType = detectContentType lib bodyOfResp;
          contentTypeFound = contentTypePart0 contentType;
          parsedURL = urlParseHostname lib (InputURL download)
      in thenFlow (checkExtension (Filters (channelConfig col)) extension)
           (\<lambda>_. let contentTypeFound = fixContentType extension contentTypeFound;
                    download = download\<lparr>Filename :=
                                 fixFilenameExtension lib (Filename download) contentType\<rparr>
                in thenFlow (checkDomain (Filters (channelConfig col)) parsedURL)
                     (\<lambda>_. thenFlow (checkContentType (channelConfig col) contentTypeFound)
                        (\<lambda>_. Continue (download, extension, contentTypeFound)))))"

text \<open>
  Lines 919-1074, once the subfolder is known: the path, the collision, the write, the
  record, the reaction, and \<^verbatim>\<open>downloadSuccess\<close>.
\<close>

definition place ::
  "libraries \<Rightarrow> ('h, 's) collaborators \<Rightarrow> downloadRequestStruct \<Rightarrow> string \<Rightarrow> string \<Rightarrow> int \<Rightarrow>
   's world \<Rightarrow> 's ending option" where
  "place lib col download bodyOfResp subfolder thisDownloadID w =
     (let completePath = Path download @ subfolder @ timeFormat lib (filenameDateFormat col)
                           @ Filename download
      in case resolveCollision col (disk w) completePath of
           None \<Rightarrow> None
         | Some collision \<Rightarrow>
             ended collision w
               (\<lambda>completePath.
                  case writeAndRecord lib col download bodyOfResp completePath w of
                    (written, w) \<Rightarrow>
                      ended written w
                        (\<lambda>_. case react lib col download w of
                               None \<Rightarrow> None
                             | Some w \<Rightarrow>
                                 Some (Returned (mDownloadStatus downloadSuccess [])
                                         (finish col download thisDownloadID w)))))"

text \<open>
  \<^verbatim>\<open>tryDownload\<close>. \<open>None\<close> is a call that never returns. The counter is a Go
  \<^verbatim>\<open>int\<close>; its wrap-around after \<open>2^63\<close> calls is left out.
\<close>

definition tryDownload ::
  "libraries \<Rightarrow> ('h, 's) collaborators \<Rightarrow> downloadRequestStruct \<Rightarrow> 's world \<Rightarrow> 's ending option" where
  "tryDownload lib col download w0 =
     (let w = w0\<lparr>cachedDownloadID := cachedDownloadID w0 + 1\<rparr>;
          thisDownloadID = cachedDownloadID w
      in if stringInSlice (ChannelID (Message download)) (allChannels col)
            \<or> EmojiCmd download \<or> ManualDownload download then
           ended (fetch lib download) w
             (\<lambda>(download, bodyOfResp, response).
                ended (classify lib col download bodyOfResp response) w
                  (\<lambda>(download, extension, contentTypeFound).
                     ended (duplicateImageFilter col contentTypeFound extension bodyOfResp w) w
                       (\<lambda>w. ended (subfolders lib col download contentTypeFound) w
                          (\<lambda>subfolder.
                             place lib col download bodyOfResp subfolder thisDownloadID w))))
         else Some (Returned (mDownloadStatus downloadIgnored []) w))"


subsection \<open>The rule of the specification for the filters\<close>

text \<open>
  The rule as the specification words it, for both filters: with an allow-set
  configured a key is permitted exactly when it is in the allow-set; otherwise exactly
  when it is not in the deny-set (no deny-set denies nothing).
\<close>

definition specPermit :: "string list option \<Rightarrow> string list option \<Rightarrow> string \<Rightarrow> bool" where
  "specPermit allow deny key =
     (case allow of
        Some allowed \<Rightarrow> key \<in> set allowed
      | None \<Rightarrow> (case deny of Some denied \<Rightarrow> key \<notin> set denied | None \<Rightarrow> True))"

subsection \<open>Reading decimal digits\<close>

text \<open>The number a string of decimal digits denotes; it inverts \<open>natToDec\<close>.\<close>

definition decValue :: "string \<Rightarrow> nat" where
  "decValue s = foldl (\<lambda>a c. 10 * a + (of_char c - 48)) 0 s"

section \<open>Resolver dispatch (getDownloadLinks, lines 198-377)\<close>

text \<open>
  A \<^verbatim>\<open>map[string]string\<close> of links and file names, as the list of its entries; the
  \<^verbatim>\<open>nil\<close> map is the empty list.
\<close>

type_synonym links = "(string \<times> string) list"

text \<open>
  One site of the dispatch: the test that guards it (its regular expressions, and for
  Google Drive the configured credentials) and the function that fetches its links.
  Both are defined outside this file.
\<close>

record siteResolver =
  siteMatches :: "string \<Rightarrow> bool"
  siteUrls :: "string \<Rightarrow> error + links"

text \<open>
  Lines 207-360: the sites are tried in their fixed order; the first one that matches,
  gives no error and at least one link decides. An error is logged and the next site
  is tried.
\<close>

fun firstResolved :: "siteResolver list \<Rightarrow> string \<Rightarrow> links option" where
  "firstResolved [] inputURL = None"
| "firstResolved (site # sites) inputURL =
     (if siteMatches site inputURL then
        (case siteUrls site inputURL of
           Inl err \<Rightarrow> firstResolved sites inputURL
         | Inr links \<Rightarrow>
             if length links > 0 then Some links else firstResolved sites inputURL)
      else firstResolved sites inputURL)"

text \<open>
  What the dispatch takes from outside: the sites, \<^verbatim>\<open>trimDownloadedLinks\<close> for the
  channel of the call (defined in another file), and lines 367-370 as one function:
  \<^verbatim>\<open>url.Parse\<close>, \<^verbatim>\<open>RawQuery = ""\<close>, \<^verbatim>\<open>String()\<close>, with \<open>None\<close> when the URL does
  not parse.
\<close>

record dispatchEnv =
  resolvers :: "siteResolver list"
  trimDownloadedLinks :: "links \<Rightarrow> links"
  withoutQueries :: "string \<Rightarrow> string option"

definition emojiPrefix :: string where
  "emojiPrefix = ''https://cdn.discordapp.com/emojis/''"

text \<open>
  \<^verbatim>\<open>getDownloadLinks\<close>. The recursion has no bound of its own, so \<open>None\<close> is a
  call that never returns; the number beside the links counts the recursive calls made.
\<close>

partial_function (option) getDownloadLinks :: "dispatchEnv \<Rightarrow> string \<Rightarrow> (links \<times> nat) option" where
  "getDownloadLinks env inputURL =
     (case firstResolved (resolvers env) inputURL of
        Some links \<Rightarrow> Some (trimDownloadedLinks env links, 0)
      | None \<Rightarrow>
          if prefix emojiPrefix inputURL then Some ([], 0)
          else
            (case withoutQueries env inputURL of
               None \<Rightarrow> Some (trimDownloadedLinks env [(inputURL, [])], 0)
             | Some inputURLWithoutQueries \<Rightarrow>
                 if inputURLWithoutQueries \<noteq> inputURL then
                   Option.bind (getDownloadLinks env inputURLWithoutQueries)
                     (\<lambda>r. Some (trimDownloadedLinks env (fst r), Suc (snd r)))
                 else Some (trimDownloadedLinks env [(inputURL, [])], 0)))"

section \<open>Concrete inputs\<close>

text \<open>
  An executor over a counter as its world: the first two calls fail with a transient
  request error, every later call finds the file gone.
\<close>

definition flakyThenGone :: "nat \<Rightarrow> downloadStatusStruct \<times> nat" where
  "flakyThenGone n =
     (if n < 2 then mDownloadStatus downloadFailedRequesting [Some ''timeout'']
      else mDownloadStatus downloadFailed404 [None], n + 1)"

text \<open>An executor that finds the file gone at every call.\<close>

definition alwaysGone :: "nat \<Rightarrow> downloadStatusStruct \<times> nat" where
  "alwaysGone n = (mDownloadStatus downloadFailed404 [None], n + 1)"

text \<open>A link-log configuration with both toggles off and no duplicate filter.\<close>

definition quietLogLinks :: configurationChannelLogLinks where
  "quietLogLinks =
     \<lparr>Destination = ''links.txt'', DestinationIsFolder = False, DivideLogsByServer = False,
      DivideLogsByChannel = False, DivideLogsByUser = False, DivideLogsByStatus = False,
      LogDownloads = False, LogFailures = False,
      FilterDuplicates = None, Prefix = None, Suffix = None, UserData = None\<rparr>"

text \<open>
  A registered channel with failure notices on, where the bot may send messages, no
  log file exists yet and every file can be written.
\<close>

definition quietLogEnv :: logEnv where
  "quietLogEnv =
     \<lparr>channelRegistered = True, errorMessages = True, hasPermsSendMessages = True,
      logLinksConfig = Some quietLogLinks, logMkdirAll = (\<lambda>p. None),
      stateChannelType = (\<lambda>c. None), readFile = (\<lambda>p. None),
      logFileWritable = (\<lambda>p. True)\<rparr>"

definition pngRequest :: downloadRequestStruct where
  "pngRequest =
     \<lparr>InputURL = ''https://example.com/a.png'', Filename = [], Path = ''dl'',
      Message = \<lparr>messageID = ''1'', ChannelID = ''c'', GuildID = ''g'', Author = None,
                 Timestamp = []\<rparr>,
      FileTime = 0, HistoryCmd = False, EmojiCmd = False, ManualDownload = False\<rparr>"

text \<open>
  Libraries that always succeed: every download is a 200 response with a three-byte
  body sniffed as \<open>image/png\<close> from the host \<open>example.com\<close>.
\<close>

definition exampleLibraries :: libraries where
  "exampleLibraries =
     \<lparr>parseRequestURI = (\<lambda>u. None), mkdirAll = (\<lambda>p. None), newRequest = (\<lambda>u. None),
      clientDo = (\<lambda>u. Inr \<lparr>StatusCode = 200, responseBody = Inr ''PNG'', requestURL = u,
                              contentDisposition = None\<rparr>),
      parseMediaTypeFilename = (\<lambda>h. None), queryUnescape = (\<lambda>p. Some p),
      toLower = (\<lambda>s. s), detectContentType = (\<lambda>b. ''image/png''),
      urlParseHostname = (\<lambda>u. Inr ''example.com''),
      extensionsByType = (\<lambda>t. [''.png'']), timeFormat = (\<lambda>f. ''2021-''),
      writeFile = (\<lambda>p. None), randIntn = (\<lambda>n. n)\<rparr>"

definition noFilters :: configurationChannelFilters where
  "noFilters =
     \<lparr>AllowedExtensions = None, BlockedExtensions = None,
      AllowedDomains = None, BlockedDomains = None\<rparr>"

definition exampleChannel :: configurationChannel where
  "exampleChannel =
     \<lparr>Filters = noFilters, SaveImages = True, SaveVideos = True, SaveAudioFiles = True,
      SaveTextFiles = False, SaveOtherFiles = False, DivideFoldersByServer = False,
      DivideFoldersByChannel = False, DivideFoldersByUser = False,
      DivideFoldersByType = False, OverwriteFilenameDateFormat = None,
      SavePossibleDuplicates = False, ReactWhenDownloadedChannel = None,
      ReactWhenDownloadedHistory = None, ReactWhenDownloadedEmoji = [],
      BlacklistReactEmojis = [], UpdatePresence = False\<rparr>"

text \<open>
  Collaborators over a toy image store: a hash is a number (the length of the body),
  the store a list of identifiers and hashes, and the score of a match the distance
  between the two numbers.
\<close>

definition exampleCollaborators :: "(nat, (int \<times> nat) list) collaborators" where
  "exampleCollaborators =
     \<lparr>allChannels = [''c''], channelConfig = exampleChannel,
      config = \<lparr>FilterDuplicateImages = True, FilterDuplicateImagesThreshold = 5,
                FilenameDateFormat = ''2006-'', ReactWhenDownloaded = True\<rparr>,
      filenameFromURL = (\<lambda>u. ''a.png''), filepathExtension = filepathExt,
      stripPathBlacklist = (\<lambda>s. s), dbInsertDownload = (\<lambda>i. None),
      hasPermsAddReactions = True, botUserID = ''bot'', defaultReact = ''ok'',
      stateChannel = (\<lambda>c. None), stateGuildName = (\<lambda>g. None),
      stateGuildEmojis = (\<lambda>g. Inr []),
      imageHash = (\<lambda>b. Some (length b)),
      storeQuery = (\<lambda>st h. map (\<lambda>e. \<lparr>matchID = fst e,
                                         Score = real (max (snd e) h - min (snd e) h)\<rparr>) st),
      storeAdd = (\<lambda>st i h. st @ [(i, h)]), storePersists = True\<rparr>"

definition exampleWorld :: "((int \<times> nat) list) world" where
  "exampleWorld =
     \<lparr>cachedDownloadID = 0, imgStore = [], disk = (\<lambda>p. Absent), database = [],
      reactionsAdded = [], presenceUpdates = 0, imgStoreSaved = None, randomDraws = 0\<rparr>"

text \<open>The request with an author, so that a reaction is chosen for the message.\<close>

definition authoredRequest :: downloadRequestStruct where
  "authoredRequest =
     pngRequest\<lparr>Message := (Message pngRequest)
       \<lparr>Author := Some \<lparr>userID = ''7'', Username = ''u'', Discriminator = ''0001''\<rparr>\<rparr>\<rparr>"

text \<open>A guild whose two emojis are both animated.\<close>

definition animatedPair :: "discordEmoji list" where
  "animatedPair = [\<lparr>APIName = ''a:1'', Animated = True\<rparr>, \<lparr>APIName = ''b:2'', Animated = True\<rparr>]"

text \<open>Files where the destination of the example and its first two suffixed paths are taken.\<close>

definition threeTaken :: "string \<Rightarrow> fileEntry" where
  "threeTaken p =
     (if p = ''dl/2021-a.png'' \<or> p = ''dl/2021-a-1.png'' \<or> p = ''dl/2021-a-2.png''
      then Present ''old'' else Absent)"

text \<open>Collaborators whose guild has exactly the two animated emojis.\<close>

definition animatedGuild :: "(nat, (int \<times> nat) list) collaborators" where
  "animatedGuild = exampleCollaborators\<lparr>stateGuildEmojis := (\<lambda>g. Inr animatedPair)\<rparr>"

text \<open>
  A dispatch with no site and nothing downloaded before, where removing the query cuts
  the URL at its first question mark.
\<close>

definition plainDispatch :: dispatchEnv where
  "plainDispatch =
     \<lparr>resolvers = [], trimDownloadedLinks = (\<lambda>l. l),
      withoutQueries = (\<lambda>u. Some (takeWhile (\<lambda>c. c \<noteq> CHR ''?'') u))\<rparr>"

section \<open>Properties of the status ordering\<close>

lemma iota_inj: "iota a = iota b \<Longrightarrow> a = b"
  by (cases a; cases b; simp)

lemma iota_range: "0 \<le> iota s \<and> iota s \<le> 18"
  by (cases s) simp_all

lemma skipped_range:
  "s \<in> set skippedVariants \<longleftrightarrow> iota downloadSkipped \<le> iota s \<and> iota s < iota downloadFailed"
  by (cases s) (simp_all add: skippedVariants_def)

lemma failed_range: "s \<in> set failedVariants \<longleftrightarrow> iota downloadFailed \<le> iota s"
  by (cases s) (simp_all add: failedVariants_def)

lemma retryBreaks_iota:
  "retryBreaks st \<longleftrightarrow>
     iota (Status st) < iota downloadFailed \<or> iota (Status st) = iota downloadFailed404"
proof -
  have "Status st = downloadFailed404 \<longleftrightarrow> iota (Status st) = iota downloadFailed404"
    by (metis iota_inj)
  then show ?thesis unfolding retryBreaks_def by blast
qed

text \<open>
  C1. The severity order of the statuses is total (two variants are equal or one is
  strictly below the other, the ranks being distinct integers) and fixed: Success is
  strictly below Ignored, Ignored strictly below every Skipped variant, every Skipped
  variant strictly below every Failed variant; the Skipped and the Failed variants are
  exactly the ranges the source tests (\<open>\<ge> downloadSkipped\<close> and \<open>< downloadFailed\<close>,
  \<open>\<ge> downloadFailed\<close>); every variant is in one of the four groups; and the decision
  of the retry loop to stop is a function of the rank alone: it stops exactly below the
  rank of Failed and at the rank of Failed_NotFound, so two results of equal rank get
  the same decision whatever their errors.
\<close>

theorem status_order_total_and_stable:
  "(\<forall>a b. iota a < iota b \<or> a = b \<or> iota b < iota a)
   \<and> iota downloadSuccess < iota downloadIgnored
   \<and> (\<forall>s \<in> set skippedVariants. iota downloadIgnored < iota s
        \<and> (\<forall>f \<in> set failedVariants. iota s < iota f))
   \<and> (\<forall>s. s \<in> set skippedVariants \<longleftrightarrow>
          iota downloadSkipped \<le> iota s \<and> iota s < iota downloadFailed)
   \<and> (\<forall>s. s \<in> set failedVariants \<longleftrightarrow> iota downloadFailed \<le> iota s)
   \<and> (\<forall>s. s = downloadSuccess \<or> s = downloadIgnored \<or> s \<in> set skippedVariants
          \<or> s \<in> set failedVariants)
   \<and> (\<forall>st. retryBreaks st \<longleftrightarrow>
          iota (Status st) < iota downloadFailed \<or> iota (Status st) = iota downloadFailed404)
   \<and> (\<forall>st st'. iota (Status st) = iota (Status st') \<longrightarrow> retryBreaks st = retryBreaks st')
   \<and> (\<forall>st. retryBreaks st \<longleftrightarrow>
          Status st \<notin> set failedVariants \<or> Status st = downloadFailed404)"
proof -
  have total: "\<forall>a b. iota a < iota b \<or> a = b \<or> iota b < iota a"
    using iota_inj by (metis linorder_neqE_linordered_idom)
  have groups: "\<forall>s \<in> set skippedVariants. iota downloadIgnored < iota s
        \<and> (\<forall>f \<in> set failedVariants. iota s < iota f)"
    by (simp add: skipped_range failed_range)
  have cover: "\<forall>s. s = downloadSuccess \<or> s = downloadIgnored \<or> s \<in> set skippedVariants
          \<or> s \<in> set failedVariants"
  proof
    fix s show "s = downloadSuccess \<or> s = downloadIgnored \<or> s \<in> set skippedVariants
          \<or> s \<in> set failedVariants"
      by (cases s) (simp_all add: skippedVariants_def failedVariants_def)
  qed
  have same: "\<forall>st st'. iota (Status st) = iota (Status st') \<longrightarrow> retryBreaks st = retryBreaks st'"
    by (simp add: retryBreaks_iota)
  have byGroup: "\<forall>st. retryBreaks st \<longleftrightarrow>
          Status st \<notin> set failedVariants \<or> Status st = downloadFailed404"
    by (auto simp: retryBreaks_def failed_range)
  have lt: "iota downloadSuccess < iota downloadIgnored"
    by simp
  have sr: "\<forall>s. s \<in> set skippedVariants \<longleftrightarrow>
          iota downloadSkipped \<le> iota s \<and> iota s < iota downloadFailed"
    using skipped_range by blast
  have fr: "\<forall>s. s \<in> set failedVariants \<longleftrightarrow> iota downloadFailed \<le> iota s"
    using failed_range by blast
  have rb: "\<forall>st. retryBreaks st \<longleftrightarrow>
          iota (Status st) < iota downloadFailed \<or> iota (Status st) = iota downloadFailed404"
    using retryBreaks_iota by blast
  show ?thesis
    by (intro conjI) (rule total lt groups sr fr cover rb same byGroup)+
qed

theorem status_order_total_and_stable_witness:
  "downloadSkippedUnpermittedType \<in> set skippedVariants
   \<and> downloadFailedWritingDatabase \<in> set failedVariants
   \<and> iota downloadIgnored < iota downloadSkippedUnpermittedType
   \<and> iota downloadSkippedUnpermittedType < iota downloadFailedWritingDatabase
   \<and> retryBreaks \<lparr>Status = downloadSkippedUnpermittedType, Error = None\<rparr>
   \<and> \<not> retryBreaks \<lparr>Status = downloadFailedWritingDatabase, Error = Some ''disk''\<rparr>"
proof -
  have s: "downloadSkippedUnpermittedType \<in> set skippedVariants"
    by (simp add: skippedVariants_def)
  have f: "downloadFailedWritingDatabase \<in> set failedVariants"
    by (simp add: failedVariants_def)
  have g: "\<forall>s \<in> set skippedVariants. iota downloadIgnored < iota s
        \<and> (\<forall>f \<in> set failedVariants. iota s < iota f)"
    and b: "\<forall>st. retryBreaks st \<longleftrightarrow>
          Status st \<notin> set failedVariants \<or> Status st = downloadFailed404"
    using status_order_total_and_stable by blast+
  have b1: "retryBreaks \<lparr>Status = downloadSkippedUnpermittedType, Error = None\<rparr>"
    using b by (simp add: failedVariants_def)
  have b2: "\<not> retryBreaks \<lparr>Status = downloadFailedWritingDatabase, Error = Some ''disk''\<rparr>"
    using b f by simp
  show ?thesis using s f g b1 b2 by blast
qed

section \<open>Properties of the retry controller\<close>

lemma retryLoop_done: "\<not> i < m \<Longrightarrow> retryLoop t m i s = s"
  by simp

lemma retryLoop_break:
  "i < m \<Longrightarrow> retryBreaks (fst (t (rsWorld s))) \<Longrightarrow>
   retryLoop t m i s =
     s\<lparr>rsStatus := fst (t (rsWorld s)), rsWorld := snd (t (rsWorld s)),
       rsCalls := rsCalls s @ [fst (t (rsWorld s))]\<rparr>"
  by (simp add: Let_def)

lemma retryLoop_again:
  "i < m \<Longrightarrow> \<not> retryBreaks (fst (t (rsWorld s))) \<Longrightarrow>
   retryLoop t m i s =
     retryLoop t m (i + 1)
       (s\<lparr>rsStatus := fst (t (rsWorld s)), rsWorld := snd (t (rsWorld s)),
          rsCalls := rsCalls s @ [fst (t (rsWorld s))], rsSleeps := rsSleeps s + 1\<rparr>)"
  by (simp add: Let_def)

declare retryLoop.simps [simp del]


lemma retryLoop_trace:
  "\<exists>new. rsCalls (retryLoop t m i s) = rsCalls s @ new
     \<and> length new \<le> nat (m - i)
     \<and> (i < m \<longrightarrow> new \<noteq> [])
     \<and> (new = [] \<longrightarrow> retryLoop t m i s = s)
     \<and> (new \<noteq> [] \<longrightarrow> rsStatus (retryLoop t m i s) = last new)
     \<and> (\<forall>k. Suc k < length new \<longrightarrow> \<not> retryBreaks (new ! k))
     \<and> (new \<noteq> [] \<and> \<not> retryBreaks (last new) \<longrightarrow> length new = nat (m - i))
     \<and> rsSleeps (retryLoop t m i s) = rsSleeps s + length (filter (\<lambda>r. \<not> retryBreaks r) new)
     \<and> (\<forall>k < length new. new ! k = fst (t (((\<lambda>w. snd (t w)) ^^ k) (rsWorld s))))
     \<and> rsWorld (retryLoop t m i s) = ((\<lambda>w. snd (t w)) ^^ length new) (rsWorld s)"
proof (induction t m i s rule: retryLoop.induct)
  case (1 t m i s)
  let ?r = "fst (t (rsWorld s))"
  show ?case
  proof (cases "i < m")
    case False
    then show ?thesis by (intro exI[of _ "[]"]) (simp add: retryLoop_done)
  next
    case lt: True
    show ?thesis
    proof (cases "retryBreaks ?r")
      case True
      show ?thesis
        using lt True by (intro exI[of _ "[?r]"]) (simp add: retryLoop_break)
    next
      case False
      let ?s' = "s\<lparr>rsStatus := ?r, rsWorld := snd (t (rsWorld s)),
          rsCalls := rsCalls s @ [?r], rsSleeps := rsSleeps s + 1\<rparr>"
      have eq: "retryLoop t m i s = retryLoop t m (i + 1) ?s'"
        using lt False by (rule retryLoop_again)
      have "\<exists>new. rsCalls (retryLoop t m (i + 1) ?s') = rsCalls ?s' @ new
     \<and> length new \<le> nat (m - (i + 1))
     \<and> (i + 1 < m \<longrightarrow> new \<noteq> [])
     \<and> (new = [] \<longrightarrow> retryLoop t m (i + 1) ?s' = ?s')
     \<and> (new \<noteq> [] \<longrightarrow> rsStatus (retryLoop t m (i + 1) ?s') = last new)
     \<and> (\<forall>k. Suc k < length new \<longrightarrow> \<not> retryBreaks (new ! k))
     \<and> (new \<noteq> [] \<and> \<not> retryBreaks (last new) \<longrightarrow> length new = nat (m - (i + 1)))
     \<and> rsSleeps (retryLoop t m (i + 1) ?s') = rsSleeps ?s' + length (filter (\<lambda>r. \<not> retryBreaks r) new)
     \<and> (\<forall>k < length new. new ! k = fst (t (((\<lambda>w. snd (t w)) ^^ k) (rsWorld ?s'))))
     \<and> rsWorld (retryLoop t m (i + 1) ?s') = ((\<lambda>w. snd (t w)) ^^ length new) (rsWorld ?s')"
        using "1.IH"[OF lt refl refl False] by (simp add: Let_def)
      then obtain new where n:
        "rsCalls (retryLoop t m (i + 1) ?s') = rsCalls ?s' @ new"
        "length new \<le> nat (m - (i + 1))"
        "i + 1 < m \<longrightarrow> new \<noteq> []"
        "new = [] \<longrightarrow> retryLoop t m (i + 1) ?s' = ?s'"
        "new \<noteq> [] \<longrightarrow> rsStatus (retryLoop t m (i + 1) ?s') = last new"
        "\<forall>k. Suc k < length new \<longrightarrow> \<not> retryBreaks (new ! k)"
        "new \<noteq> [] \<and> \<not> retryBreaks (last new) \<longrightarrow> length new = nat (m - (i + 1))"
        "rsSleeps (retryLoop t m (i + 1) ?s') = rsSleeps ?s' + length (filter (\<lambda>r. \<not> retryBreaks r) new)"
        "\<forall>k < length new. new ! k = fst (t (((\<lambda>w. snd (t w)) ^^ k) (rsWorld ?s')))"
        "rsWorld (retryLoop t m (i + 1) ?s') = ((\<lambda>w. snd (t w)) ^^ length new) (rsWorld ?s')"
        by blast
      have a1: "rsCalls (retryLoop t m i s) = rsCalls s @ (?r # new)"
        using n(1) eq by simp
      have a2: "length (?r # new) \<le> nat (m - i)"
        using n(2) lt by simp
      have a5: "rsStatus (retryLoop t m i s) = last (?r # new)"
        using n(4,5) eq by (cases "new = []") simp_all
      have a6: "\<forall>k. Suc k < length (?r # new) \<longrightarrow> \<not> retryBreaks ((?r # new) ! k)"
        using n(6) False by (auto simp: nth_Cons split: nat.splits)
      have a7: "\<not> retryBreaks (last (?r # new)) \<longrightarrow> length (?r # new) = nat (m - i)"
        using n(7) n(3) lt by (cases "new = []") auto
      have a8: "rsSleeps (retryLoop t m i s) = rsSleeps s + length (filter (\<lambda>r. \<not> retryBreaks r) (?r # new))"
        using n(8) eq False by simp
      have a9: "\<forall>k < length (?r # new). (?r # new) ! k = fst (t (((\<lambda>w. snd (t w)) ^^ k) (rsWorld s)))"
        using n(9) by (auto simp: nth_Cons funpow_Suc_right simp del: funpow.simps split: nat.splits)
      have a10: "rsWorld (retryLoop t m i s) = ((\<lambda>w. snd (t w)) ^^ length (?r # new)) (rsWorld s)"
        using n(10) eq by (simp add: funpow_Suc_right del: funpow.simps)
      show ?thesis
        using a1 a2 a5 a6 a7 a8 a9 a10 by (intro exI[of _ "?r # new"]) simp
    qed
  qed
qed

lemma retryPhase_trace:
  "length (rsCalls (retryPhase t m w)) \<le> nat m
   \<and> (0 < m \<longrightarrow> rsCalls (retryPhase t m w) \<noteq> [])
   \<and> (rsCalls (retryPhase t m w) = [] \<longrightarrow>
        rsStatus (retryPhase t m w) = mDownloadStatus downloadFailed [])
   \<and> (rsCalls (retryPhase t m w) \<noteq> [] \<longrightarrow>
        rsStatus (retryPhase t m w) = last (rsCalls (retryPhase t m w)))
   \<and> (\<forall>k. Suc k < length (rsCalls (retryPhase t m w)) \<longrightarrow>
        \<not> retryBreaks (rsCalls (retryPhase t m w) ! k))
   \<and> (rsCalls (retryPhase t m w) \<noteq> [] \<and> \<not> retryBreaks (last (rsCalls (retryPhase t m w))) \<longrightarrow>
        length (rsCalls (retryPhase t m w)) = nat m)
   \<and> rsSleeps (retryPhase t m w) =
        length (filter (\<lambda>r. \<not> retryBreaks r) (rsCalls (retryPhase t m w)))
   \<and> (\<forall>k < length (rsCalls (retryPhase t m w)).
        rsCalls (retryPhase t m w) ! k = fst (t (((\<lambda>w. snd (t w)) ^^ k) w)))
   \<and> rsWorld (retryPhase t m w) =
        ((\<lambda>w. snd (t w)) ^^ length (rsCalls (retryPhase t m w))) w"
  using retryLoop_trace [of t m 0
      "\<lparr>rsStatus = mDownloadStatus downloadFailed [], rsWorld = w, rsCalls = [], rsSleeps = 0\<rparr>"]
  unfolding retryPhase_def by auto

text \<open>
  C2. For every executor and every world, the retry phase of \<^verbatim>\<open>startDownload\<close>
  calls the executor at most \<open>retryMax\<close> times (and at least once when \<open>retryMax\<close>
  is positive); call \<open>k\<close> is the executor run on the world the earlier calls left; a
  call whose status breaks the loop (below Failed, or Failed_NotFound) is the last
  call; a call whose status does not break the loop is followed by another call as
  long as the count allows; the loop sleeps once after each call that did not break
  it; a call that returns Failed_NotFound is the last one, and when the first call
  returns Failed_NotFound the executor is called exactly once.
\<close>

theorem retry_at_most_max_and_stops_at_first_break:
  fixes tryDownload :: "'w \<Rightarrow> downloadStatusStruct \<times> 'w"
  shows
  "(let r = retryPhase tryDownload retryMax w; calls = rsCalls r in
     length calls \<le> nat retryMax
   \<and> (0 < retryMax \<longrightarrow> calls \<noteq> [])
   \<and> (\<forall>k < length calls. calls ! k = fst (tryDownload (((\<lambda>w. snd (tryDownload w)) ^^ k) w)))
   \<and> (\<forall>k < length calls. retryBreaks (calls ! k) \<longrightarrow> Suc k = length calls)
   \<and> (\<forall>k < length calls. \<not> retryBreaks (calls ! k) \<and> int (Suc k) < retryMax \<longrightarrow> Suc k < length calls)
   \<and> rsSleeps r = length (filter (\<lambda>st. \<not> retryBreaks st) calls)
   \<and> (\<forall>k < length calls. Status (calls ! k) = downloadFailed404 \<longrightarrow> Suc k = length calls)
   \<and> (0 < retryMax \<and> Status (fst (tryDownload w)) = downloadFailed404 \<longrightarrow> length calls = 1))"
proof -
  let ?calls = "rsCalls (retryPhase tryDownload retryMax w)"
  note T = retryPhase_trace [of tryDownload retryMax w]
  have brk: "\<forall>k < length ?calls. retryBreaks (?calls ! k) \<longrightarrow> Suc k = length ?calls"
  proof (intro allI impI)
    fix k assume k: "k < length ?calls" and b: "retryBreaks (?calls ! k)"
    show "Suc k = length ?calls"
    proof (rule ccontr)
      assume "Suc k \<noteq> length ?calls"
      with k have "Suc k < length ?calls" by simp
      with T b show False by blast
    qed
  qed
  have cont: "\<forall>k < length ?calls. \<not> retryBreaks (?calls ! k) \<and> int (Suc k) < retryMax \<longrightarrow> Suc k < length ?calls"
  proof (intro allI impI)
    fix k assume k: "k < length ?calls" and b: "\<not> retryBreaks (?calls ! k) \<and> int (Suc k) < retryMax"
    show "Suc k < length ?calls"
    proof (rule ccontr)
      assume "\<not> Suc k < length ?calls"
      with k have e: "Suc k = length ?calls" by simp
      then have ne: "?calls \<noteq> []" by auto
      have "last ?calls = ?calls ! k" using ne by (simp add: last_conv_nth e[symmetric])
      with T ne b have "length ?calls = nat retryMax" by metis
      with e have "Suc k = nat retryMax" by simp
      moreover from b have "int (Suc k) < retryMax" by blast
      ultimately show False by linarith
    qed
  qed
  have nf: "\<forall>k < length ?calls. Status (?calls ! k) = downloadFailed404 \<longrightarrow> Suc k = length ?calls"
    using brk by (simp add: retryBreaks_def)
  have one: "0 < retryMax \<and> Status (fst (tryDownload w)) = downloadFailed404 \<longrightarrow> length ?calls = 1"
  proof
    assume a: "0 < retryMax \<and> Status (fst (tryDownload w)) = downloadFailed404"
    with T have ne: "?calls \<noteq> []" by blast
    then have "0 < length ?calls" by simp
    moreover from this T have "?calls ! 0 = fst (tryDownload w)" by simp
    ultimately show "length ?calls = 1" using nf a by (metis One_nat_def)
  qed
  show ?thesis
    unfolding Let_def using T brk cont nf one by blast
qed

theorem retry_at_most_max_and_stops_at_first_break_witness:
  "rsCalls (retryPhase flakyThenGone 5 0) =
     [\<lparr>Status = downloadFailedRequesting, Error = Some ''timeout''\<rparr>,
      \<lparr>Status = downloadFailedRequesting, Error = Some ''timeout''\<rparr>,
      \<lparr>Status = downloadFailed404, Error = None\<rparr>]
   \<and> length (rsCalls (retryPhase flakyThenGone 5 0)) \<le> nat 5
   \<and> rsSleeps (retryPhase flakyThenGone 5 0) = 2
   \<and> (0::int) < 3 \<and> Status (fst (alwaysGone 0)) = downloadFailed404
   \<and> length (rsCalls (retryPhase alwaysGone 3 0)) = 1"
proof -
  have a: "retryPhase flakyThenGone 5 0 =
     \<lparr>rsStatus = \<lparr>Status = downloadFailed404, Error = None\<rparr>, rsWorld = 3,
       rsCalls = [\<lparr>Status = downloadFailedRequesting, Error = Some ''timeout''\<rparr>,
        \<lparr>Status = downloadFailedRequesting, Error = Some ''timeout''\<rparr>,
        \<lparr>Status = downloadFailed404, Error = None\<rparr>], rsSleeps = 2\<rparr>"
    by (simp add: retryPhase_def retryLoop.simps retryBreaks_def flakyThenGone_def)
  have g: "(0::int) < 3 \<and> Status (fst (alwaysGone 0)) = downloadFailed404"
    by (simp add: alwaysGone_def)
  have one: "length (rsCalls (retryPhase alwaysGone 3 0)) = 1"
    using retry_at_most_max_and_stops_at_first_break [of alwaysGone 3 0] g
    unfolding Let_def by blast
  have le: "length (rsCalls (retryPhase flakyThenGone 5 0)) \<le> nat 5"
    using retry_at_most_max_and_stops_at_first_break [of flakyThenGone 5 0]
    unfolding Let_def by blast
  show ?thesis using a g one le by simp
qed

lemma retryPhase_zero:
  "retryMax \<le> 0 \<Longrightarrow> retryPhase t retryMax w =
    \<lparr>rsStatus = mDownloadStatus downloadFailed [], rsWorld = w, rsCalls = [], rsSleeps = 0\<rparr>"
  by (simp add: retryPhase_def retryLoop_done)

lemma retryPhase_generic_failure:
  fixes w :: 'w
  assumes n: "0 < n"
  shows "rsStatus (retryPhase (\<lambda>w. (mDownloadStatus downloadFailed [], w)) n w)
           = mDownloadStatus downloadFailed []"
proof -
  let ?t = "\<lambda>w::'w. (mDownloadStatus downloadFailed [], w)"
  let ?calls = "rsCalls (retryPhase ?t n w)"
  note T = retryPhase_trace [of ?t n w]
  from T n have ne: "?calls \<noteq> []" by blast
  then have "last ?calls = ?calls ! (length ?calls - 1)"
    by (simp add: last_conv_nth)
  also have "\<dots> = mDownloadStatus downloadFailed []"
    using T ne by simp
  finally show ?thesis
    using T ne by simp
qed

lemma failureNotice_author:
  "Author (Message download) \<noteq> None \<Longrightarrow> \<exists>notice. failureNotice env download status = Completed notice"
  by (auto simp: failureNotice_def thenCompleted_def)

lemma linkLogPath_author:
  "Author (Message download) \<noteq> None \<Longrightarrow>
   \<exists>logPath. linkLogPath env logLinks download status = Completed logPath"
  by (auto simp: linkLogPath_def thenCompleted_def Let_def split: option.splits)

lemma newLine_author:
  "Author (Message download) \<noteq> None \<Longrightarrow> \<exists>line. newLine logLinks download = Completed line"
  by (auto simp: newLine_def thenCompleted_def Let_def split: option.splits)

lemma logLinkAppended_author:
  assumes "Author (Message download) \<noteq> None"
  shows "\<exists>appended. logLinkAppended env download status = Completed appended"
proof (cases "channelRegistered env \<and> (\<exists>logLinks. logLinksConfig env = Some logLinks
    \<and> Destination logLinks \<noteq> [])")
  case False
  then show ?thesis
    by (auto simp: logLinkAppended_def split: option.splits)
next
  case True
  then obtain logLinks where l: "channelRegistered env" "logLinksConfig env = Some logLinks"
    "Destination logLinks \<noteq> []" by blast
  obtain logPath where p: "linkLogPath env logLinks download status = Completed logPath"
    using linkLogPath_author [OF assms] by blast
  obtain line where n: "newLine logLinks download = Completed line"
    using newLine_author [OF assms] by blast
  show ?thesis
    using l p n by (simp add: logLinkAppended_def thenCompleted_def Let_def)
qed

lemma startDownload_returns_status:
  "outcome (startDownload t retryMax env download w) = Completed report \<Longrightarrow>
   returned report = rsStatus (retryPhase (t download) retryMax w)"
  by (auto simp: startDownload_def Let_def thenCompleted_def split: completion.splits)

lemma startDownload_author_returns:
  assumes "Author (Message download) \<noteq> None"
  shows "\<exists>report. outcome (startDownload t retryMax env download w) = Completed report"
proof -
  obtain notice where a:
    "failureNotice env download (rsStatus (retryPhase (t download) retryMax w)) = Completed notice"
    using failureNotice_author [OF assms] by blast
  obtain appended where b:
    "logLinkAppended env download (rsStatus (retryPhase (t download) retryMax w))
       = Completed appended"
    using logLinkAppended_author [OF assms] by blast
  show ?thesis
    using a b by (simp add: startDownload_def Let_def thenCompleted_def)
qed

text \<open>
  Without an author the failure notice cannot be built: for a registered channel with
  error messages on, where the bot may send messages, a request that is neither a
  history nor an emoji request and a final status of failure, the call panics at line
  451 and returns nothing.
\<close>

lemma failureNotice_nil_author:
  "gaveUp download status \<Longrightarrow> channelRegistered env \<Longrightarrow> errorMessages env \<Longrightarrow>
   hasPermsSendMessages env \<Longrightarrow> Author (Message download) = None \<Longrightarrow>
   failureNotice env download status = NilDereference"
  by (simp add: failureNotice_def thenCompleted_def gaveUp_def)

lemma startDownload_nil_author_panics:
  assumes "retryMax \<le> 0" and "\<not> HistoryCmd download" and "\<not> EmojiCmd download"
    and "channelRegistered env" and "errorMessages env" and "hasPermsSendMessages env"
    and "Author (Message download) = None"
  shows "outcome (startDownload t retryMax env download w) = NilDereference"
proof -
  have z: "rsStatus (retryPhase (t download) retryMax w) = mDownloadStatus downloadFailed []"
    using assms(1) by (simp add: retryPhase_zero)
  have "gaveUp download (mDownloadStatus downloadFailed [])"
    using assms(2,3) by (simp add: gaveUp_def)
  then have "failureNotice env download (mDownloadStatus downloadFailed []) = NilDereference"
    using assms(4-7) by (rule failureNotice_nil_author)
  then show ?thesis
    by (simp add: startDownload_def Let_def z thenCompleted_def)
qed

text \<open>
  C10. If \<open>retryMax\<close> is zero or negative, the retry phase calls the executor not
  once, sleeps not once and leaves the world as it was. For a message with an author
  \<^verbatim>\<open>startDownload\<close> then returns, and whenever it returns, the status returned is
  the initial value: generic Failed with a nil error. The outcome of the call (the
  status returned, the reports, the line appended to the link log, or the panic on a
  message without author) is the outcome after any positive number of attempts that
  each gave the generic Failed with no error.
\<close>

theorem zero_retry_max_never_attempts:
  fixes tryDownload :: "downloadRequestStruct \<Rightarrow> 'w \<Rightarrow> downloadStatusStruct \<times> 'w"
  assumes "retryMax \<le> 0"
  shows "rsCalls (retried (startDownload tryDownload retryMax env download w)) = []
    \<and> rsSleeps (retried (startDownload tryDownload retryMax env download w)) = 0
    \<and> rsWorld (retried (startDownload tryDownload retryMax env download w)) = w
    \<and> (Author (Message download) \<noteq> None \<longrightarrow>
          (\<exists>report. outcome (startDownload tryDownload retryMax env download w) = Completed report
             \<and> returned report = \<lparr>Status = downloadFailed, Error = None\<rparr>))
    \<and> (\<forall>report. outcome (startDownload tryDownload retryMax env download w) = Completed report
          \<longrightarrow> returned report = \<lparr>Status = downloadFailed, Error = None\<rparr>)
    \<and> (\<forall>n > 0.
          outcome (startDownload (\<lambda>d w. (mDownloadStatus downloadFailed [], w)) n env download w)
            = outcome (startDownload tryDownload retryMax env download w))"
proof -
  have z: "retryPhase (tryDownload download) retryMax w =
    \<lparr>rsStatus = mDownloadStatus downloadFailed [], rsWorld = w, rsCalls = [], rsSleeps = 0\<rparr>"
    using assms by (rule retryPhase_zero)
  have g: "\<forall>n > 0. rsStatus (retryPhase (\<lambda>w::'w. (mDownloadStatus downloadFailed [], w)) n w)
             = mDownloadStatus downloadFailed []"
    by (intro allI impI) (rule retryPhase_generic_failure)
  have r: "retried (startDownload tryDownload retryMax env download w)
             = retryPhase (tryDownload download) retryMax w"
    by (simp add: startDownload_def Let_def)
  have st: "\<forall>report. outcome (startDownload tryDownload retryMax env download w) = Completed report
          \<longrightarrow> returned report = \<lparr>Status = downloadFailed, Error = None\<rparr>"
    using startDownload_returns_status [of tryDownload retryMax env download w] z by simp
  have au: "Author (Message download) \<noteq> None \<longrightarrow>
          (\<exists>report. outcome (startDownload tryDownload retryMax env download w) = Completed report
             \<and> returned report = \<lparr>Status = downloadFailed, Error = None\<rparr>)"
    using startDownload_author_returns [of download tryDownload retryMax env w] st by blast
  have same: "\<forall>n > 0.
          outcome (startDownload (\<lambda>d w. (mDownloadStatus downloadFailed [], w)) n env download w)
            = outcome (startDownload tryDownload retryMax env download w)"
    unfolding startDownload_def Let_def using z g by simp
  show ?thesis
    using r z st au same by simp
qed

theorem zero_retry_max_never_attempts_witness:
  "(- 1::int) \<le> 0 \<and> Author (Message authoredRequest) \<noteq> None
   \<and> rsCalls (retried (startDownload (\<lambda>d. flakyThenGone) (- 1) quietLogEnv authoredRequest 0)) = []
   \<and> outcome (startDownload (\<lambda>d. flakyThenGone) (- 1) quietLogEnv authoredRequest 0) =
       Completed \<lparr>returned = \<lparr>Status = downloadFailed, Error = None\<rparr>, reportedGaveUp = True,
                  noticeSent = True, errorLogged = False, logAppended = None\<rparr>"
proof -
  have a: "Author (Message authoredRequest) \<noteq> None"
    by (simp add: authoredRequest_def)
  obtain report where r:
    "outcome (startDownload (\<lambda>d. flakyThenGone) (- 1) quietLogEnv authoredRequest 0)
       = Completed report"
    "returned report = \<lparr>Status = downloadFailed, Error = None\<rparr>"
    and c: "rsCalls (retried (startDownload (\<lambda>d. flakyThenGone) (- 1) quietLogEnv authoredRequest 0)) = []"
    using zero_retry_max_never_attempts [of "- 1" "\<lambda>d. flakyThenGone" quietLogEnv authoredRequest 0] a
    by auto
  have p: "retryPhase flakyThenGone (- 1) 0 =
    \<lparr>rsStatus = mDownloadStatus downloadFailed [], rsWorld = 0, rsCalls = [], rsSleeps = 0\<rparr>"
    by (rule retryPhase_zero) simp
  have e: "outcome (startDownload (\<lambda>d. flakyThenGone) (- 1) quietLogEnv authoredRequest 0) =
       Completed \<lparr>returned = \<lparr>Status = downloadFailed, Error = None\<rparr>, reportedGaveUp = True,
                  noticeSent = True, errorLogged = False, logAppended = None\<rparr>"
    by (simp add: startDownload_def Let_def p thenCompleted_def failureNotice_def gaveUp_def
        logLinkAppended_def linkLogPath_def shouldLog_def quietLogEnv_def quietLogLinks_def
        authoredRequest_def pngRequest_def)
  show ?thesis using a c e r by simp
qed

section \<open>Properties of the link log\<close>

lemma shouldLog_failure_gate:
  "iota downloadFailed \<le> iota (Status st) \<Longrightarrow> shouldLog cfg st cur url \<Longrightarrow> LogFailures cfg"
  by (auto simp: shouldLog_def Let_def split: option.splits if_splits)

lemma shouldLog_duplicate_filter:
  "FilterDuplicates cfg = Some True \<Longrightarrow> stringsContains cur url \<Longrightarrow> \<not> shouldLog cfg st cur url"
  by (simp add: shouldLog_def)

text \<open>
  C7. The claim says that a line for a final Success is appended only when the
  log-downloads toggle is on. In the source the toggle has no effect: \<^verbatim>\<open>shouldLog\<close>
  starts \<^verbatim>\<open>true\<close> and the branch for \<^verbatim>\<open>*LogDownloads\<close> only assigns \<^verbatim>\<open>true\<close>
  again, so changing the toggle never changes the decision. With link logging enabled,
  both toggles off, no duplicate filter and an empty log, a download that succeeds at
  its first attempt has its line appended.
\<close>

theorem success_logged_with_log_downloads_off:
  "(\<forall>cfg b st cur url. shouldLog (cfg\<lparr>LogDownloads := b\<rparr>) st cur url = shouldLog cfg st cur url)
   \<and> \<not> LogDownloads quietLogLinks
   \<and> shouldLog quietLogLinks (mDownloadStatus downloadSuccess []) [] (InputURL pngRequest)
   \<and> outcome (startDownload (\<lambda>d w. (mDownloadStatus downloadSuccess [], w)) 3
                 quietLogEnv pngRequest (0::nat))
        = Completed \<lparr>returned = \<lparr>Status = downloadSuccess, Error = None\<rparr>,
                     reportedGaveUp = False, noticeSent = False, errorLogged = False,
                     logAppended = Some (''links.txt'', CHR 0x0A # ''https://example.com/a.png'')\<rparr>"
proof -
  have dead: "\<forall>cfg b st cur url.
      shouldLog (cfg\<lparr>LogDownloads := b\<rparr>) st cur url = shouldLog cfg st cur url"
    by (simp add: shouldLog_def)
  have r: "rsStatus (retryPhase (\<lambda>w::nat. (mDownloadStatus downloadSuccess [], w)) 3 0)
             = \<lparr>Status = downloadSuccess, Error = None\<rparr>"
    by (simp add: retryPhase_def retryLoop.simps retryBreaks_def)
  have s: "shouldLog quietLogLinks \<lparr>Status = downloadSuccess, Error = None\<rparr> []
             ''https://example.com/a.png''"
    by (simp add: shouldLog_def quietLogLinks_def)
  have n: "failureNotice quietLogEnv pngRequest \<lparr>Status = downloadSuccess, Error = None\<rparr>
             = Completed (False, False)"
    by (simp add: failureNotice_def gaveUp_def)
  have l: "logLinkAppended quietLogEnv pngRequest \<lparr>Status = downloadSuccess, Error = None\<rparr>
             = Completed (Some (''links.txt'', CHR 0x0A # ''https://example.com/a.png''))"
    using s by (simp add: logLinkAppended_def linkLogPath_def quietLogEnv_def pngRequest_def
        newLine_def quietLogLinks_def thenCompleted_def)
  have g: "\<not> gaveUp pngRequest \<lparr>Status = downloadSuccess, Error = None\<rparr>"
    by (simp add: gaveUp_def)
  have o: "outcome (startDownload (\<lambda>d w. (mDownloadStatus downloadSuccess [], w)) 3
                 quietLogEnv pngRequest (0::nat))
        = Completed \<lparr>returned = \<lparr>Status = downloadSuccess, Error = None\<rparr>,
                     reportedGaveUp = False, noticeSent = False, errorLogged = False,
                     logAppended = Some (''links.txt'', CHR 0x0A # ''https://example.com/a.png'')\<rparr>"
    unfolding startDownload_def Let_def using r n l g by (simp add: thenCompleted_def)
  have q: "\<not> LogDownloads quietLogLinks"
    by (simp add: quietLogLinks_def)
  have s': "shouldLog quietLogLinks (mDownloadStatus downloadSuccess []) [] (InputURL pngRequest)"
    using s by (simp add: pngRequest_def)
  show ?thesis
    by (intro conjI) (rule dead q s' o)+
qed

section \<open>Properties of the executor\<close>

lemma stringInSlice_set: "stringInSlice a list \<longleftrightarrow> a \<in> set list"
  by (induction list) auto

lemma extensionAborts_spec:
  "extensionAborts filters extension \<longleftrightarrow>
     \<not> specPermit (AllowedExtensions filters) (BlockedExtensions filters) extension"
  by (simp add: extensionAborts_def specPermit_def stringInSlice_set Let_def split: option.splits)

lemma domainAborts_spec:
  "domainAborts filters hostname \<longleftrightarrow>
     \<not> specPermit (AllowedDomains filters) (BlockedDomains filters) hostname"
  by (simp add: domainAborts_def specPermit_def stringInSlice_set Let_def split: option.splits)

lemma checkDomain_unconfigured:
  "AllowedDomains filters = None \<Longrightarrow> BlockedDomains filters = None \<Longrightarrow> specPermit (AllowedDomains filters) (BlockedDomains filters) hostname"
  by (simp add: specPermit_def)

lemma tryDownload_enrolled:
  "stringInSlice (ChannelID (Message download)) (allChannels col)
      \<or> EmojiCmd download \<or> ManualDownload download \<Longrightarrow>
   fetch lib download = Continue (d, bodyOfResp, response) \<Longrightarrow>
   tryDownload lib col download w =
     ended (classify lib col d bodyOfResp response) (w\<lparr>cachedDownloadID := cachedDownloadID w + 1\<rparr>)
       (\<lambda>(download, extension, contentTypeFound).
          ended (duplicateImageFilter col contentTypeFound extension bodyOfResp
                   (w\<lparr>cachedDownloadID := cachedDownloadID w + 1\<rparr>))
            (w\<lparr>cachedDownloadID := cachedDownloadID w + 1\<rparr>)
            (\<lambda>w'. ended (subfolders lib col download contentTypeFound) w'
               (\<lambda>subfolder. place lib col download bodyOfResp subfolder
                   (cachedDownloadID w + 1) w')))"
  by (simp add: tryDownload_def Let_def ended_def split: flow.splits prod.splits)

lemma matchBelow_iff: "matchBelow t ms \<longleftrightarrow> (\<exists>m \<in> set ms. Score m < t)"
  by (induction ms) auto

lemma matchBelow_sorted: "matchBelow t (sort_key Score ms) \<longleftrightarrow> (\<exists>m \<in> set ms. Score m < t)"
  by (simp add: matchBelow_iff)

lemma best_match_first:
  assumes "ms \<noteq> []"
  shows "(\<exists>m \<in> set ms. Score m < t) \<longleftrightarrow> Score (hd (sort_key Score ms)) < t"
proof -
  let ?s = "sort_key Score ms"
  have ne: "?s \<noteq> []" using assms by (metis length_0_conv length_sort)
  have srt: "sorted (map Score ?s)" by (rule sorted_sort_key)
  have hdin: "hd ?s \<in> set ms" using ne by (metis hd_in_set set_sort)
  have least: "\<forall>m \<in> set ms. Score (hd ?s) \<le> Score m"
  proof
    fix m assume "m \<in> set ms"
    then have "m \<in> set ?s" by simp
    then show "Score (hd ?s) \<le> Score m"
      using srt ne by (cases ?s) auto
  qed
  show ?thesis using hdin least by fastforce
qed

lemma duplicateImageFilter_active:
  "FilterDuplicateImages (config col) \<Longrightarrow> contentTypeFound = ''image'' \<Longrightarrow>
   extension \<noteq> ''.gif'' \<Longrightarrow> extension \<noteq> ''.webp'' \<Longrightarrow> imageHash col bodyOfResp = Some hash \<Longrightarrow>
   duplicateImageFilter col contentTypeFound extension bodyOfResp w =
     (if \<exists>match \<in> set (storeQuery col (imgStore w) hash).
           Score match < FilterDuplicateImagesThreshold (config col)
      then Return (mDownloadStatus downloadSkippedDetectedDuplicate [])
      else Continue (w\<lparr>imgStore := storeAdd col (imgStore w) (cachedDownloadID w) hash\<rparr>))"
  by (simp add: duplicateImageFilter_def Let_def matchBelow_sorted)

lemma writeAndRecord_db_failure:
  "writeFile lib completePath = None \<Longrightarrow>
   dbInsertDownload col (newDownloadItem col download completePath) = Some err \<Longrightarrow>
   writeAndRecord lib col download bodyOfResp completePath w =
     (Return (mDownloadStatus downloadFailedWritingDatabase [Some err]),
      w\<lparr>disk := (disk w)(completePath := Present bodyOfResp)\<rparr>)"
  by (simp add: writeAndRecord_def Let_def)

lemma place_db_failure:
  "resolveCollision col (disk w)
     (Path download @ subfolder @ timeFormat lib (filenameDateFormat col) @ Filename download)
     = Some (Continue completePath) \<Longrightarrow>
   writeFile lib completePath = None \<Longrightarrow>
   dbInsertDownload col (newDownloadItem col download completePath) = Some err \<Longrightarrow>
   place lib col download bodyOfResp subfolder thisDownloadID w =
     Some (Returned (mDownloadStatus downloadFailedWritingDatabase [Some err])
             (w\<lparr>disk := (disk w)(completePath := Present bodyOfResp)\<rparr>))"
  by (simp add: place_def Let_def ended_def writeAndRecord_db_failure)

lemma tryDownload_reaches_place:
  "stringInSlice (ChannelID (Message download)) (allChannels col)
      \<or> EmojiCmd download \<or> ManualDownload download \<Longrightarrow>
   fetch lib download = Continue (d, bodyOfResp, response) \<Longrightarrow>
   classify lib col d bodyOfResp response = Continue (d', extension, contentTypeFound) \<Longrightarrow>
   duplicateImageFilter col contentTypeFound extension bodyOfResp
      (w\<lparr>cachedDownloadID := cachedDownloadID w + 1\<rparr>) = Continue w' \<Longrightarrow>
   subfolders lib col d' contentTypeFound = Continue subfolder \<Longrightarrow>
   tryDownload lib col download w =
     place lib col d' bodyOfResp subfolder (cachedDownloadID w + 1) w'"
  by (simp add: tryDownload_enrolled ended_def)

lemma of_char_digitChar: "d < 10 \<Longrightarrow> of_char (digitChar d) = 48 + d"
  by (simp add: digitChar_def)

lemma decValue_snoc: "decValue (s @ [c]) = 10 * decValue s + (of_char c - 48)"
  by (simp add: decValue_def)

lemma decValue_natToDec: "decValue (natToDec n) = n"
proof (induction n rule: natToDec.induct)
  case (1 n)
  show ?case
  proof (cases "n < 10")
    case True
    then show ?thesis
      by (subst natToDec.simps) (simp add: decValue_def of_char_digitChar)
  next
    case False
    then have "decValue (natToDec n) = 10 * decValue (natToDec (n div 10)) + (of_char (digitChar (n mod 10)) - 48)"
      by (subst natToDec.simps) (simp add: decValue_snoc)
    also have "\<dots> = 10 * (n div 10) + n mod 10"
      using 1 False by (simp add: of_char_digitChar)
    finally show ?thesis by simp
  qed
qed

lemma natToDec_inj: "natToDec n = natToDec m \<Longrightarrow> n = m"
  by (metis decValue_natToDec)

lemma Itoa_inj_nonneg: "0 \<le> i \<Longrightarrow> 0 \<le> j \<Longrightarrow> Itoa i = Itoa j \<Longrightarrow> i = j"
  using natToDec_inj by (fastforce simp: Itoa_def)

lemma suffixedPath_inj:
  "0 \<le> i \<Longrightarrow> 0 \<le> j \<Longrightarrow> suffixedPath p e i = suffixedPath p e j \<Longrightarrow> i = j"
  by (simp add: suffixedPath_def Itoa_inj_nonneg)

lemma suffixedPath_before_extension:
  "suffix e p \<Longrightarrow> \<exists>stem. p = stem @ e \<and> suffixedPath p e i = stem @ ''-'' @ Itoa i @ e"
  by (auto simp: suffix_def suffixedPath_def)

lemma probeSuffix_finds:
  assumes "files (suffixedPath p e n) = Absent"
    and "\<forall>j. i \<le> j \<and> j < n \<longrightarrow> files (suffixedPath p e j) \<noteq> Absent"
    and "i \<le> n" and "n \<le> maxInt"
  shows "probeSuffix files p e i = Some (suffixedPath p e n)"
  using assms
proof (induction "nat (n - i)" arbitrary: i)
  case 0
  then have "i = n" by simp
  with 0 show ?case by (subst probeSuffix.simps) simp
next
  case (Suc k)
  then have lt: "i < n" by linarith
  with Suc.prems have occupied: "files (suffixedPath p e i) \<noteq> Absent" by simp
  from lt Suc.prems have inc: "increment i = i + 1" by (simp add: increment_def)
  have "probeSuffix files p e (i + 1) = Some (suffixedPath p e n)"
  proof (rule Suc.hyps(1))
    show "k = nat (n - (i + 1))" using Suc.hyps(2) by linarith
    show "files (suffixedPath p e n) = Absent" by (rule Suc.prems(1))
    show "\<forall>j. i + 1 \<le> j \<and> j < n \<longrightarrow> files (suffixedPath p e j) \<noteq> Absent"
      using Suc.prems(2) by simp
    show "i + 1 \<le> n" using lt by simp
    show "n \<le> maxInt" by (rule Suc.prems(4))
  qed
  with occupied inc show ?case by (subst probeSuffix.simps) simp
qed

lemma pickEmoji_never:
  assumes inel: "\<forall>e \<in> set emojis. Animated e \<or> stringInSlice (APIName e) blacklist"
    and ne: "emojis \<noteq> []"
  shows "pickEmoji intn emojis blacklist n = None"
proof (rule ccontr)
  assume "pickEmoji intn emojis blacklist n \<noteq> None"
  then obtain r where r: "pickEmoji intn emojis blacklist n = Some r" by blast
  have "\<not> ((\<forall>e \<in> set emojis. Animated e \<or> stringInSlice (APIName e) blacklist) \<and> emojis \<noteq> [])"
  proof (rule pickEmoji.raw_induct
      [where P = "\<lambda>i es bl k y. \<not> ((\<forall>e \<in> set es. Animated e \<or> stringInSlice (APIName e) bl) \<and> es \<noteq> [])",
       OF _ r])
    fix pick :: "(nat \<Rightarrow> nat) \<Rightarrow> discordEmoji list \<Rightarrow> string list \<Rightarrow> nat \<Rightarrow> (string \<times> nat) option"
    fix i es bl k y
    assume IH: "\<And>i es bl k y. pick i es bl k = Some y \<Longrightarrow>
        \<not> ((\<forall>e \<in> set es. Animated e \<or> stringInSlice (APIName e) bl) \<and> es \<noteq> [])"
    assume step: "(let chosenEmoji = es ! (i k mod length es);
              formattedEmoji = APIName chosenEmoji
          in if \<not> Animated chosenEmoji \<and> \<not> stringInSlice formattedEmoji bl
             then Some (formattedEmoji, Suc k) else pick i es bl (Suc k)) = Some y"
    show "\<not> ((\<forall>e \<in> set es. Animated e \<or> stringInSlice (APIName e) bl) \<and> es \<noteq> [])"
    proof
      assume bad: "(\<forall>e \<in> set es. Animated e \<or> stringInSlice (APIName e) bl) \<and> es \<noteq> []"
      then have "i k mod length es < length es" by simp
      then have "es ! (i k mod length es) \<in> set es" by simp
      with bad have "Animated (es ! (i k mod length es))
          \<or> stringInSlice (APIName (es ! (i k mod length es))) bl" by blast
      with step have "pick i es bl (Suc k) = Some y"
        by (auto simp: Let_def split: if_splits)
      with IH bad show False by blast
    qed
  qed
  with inel ne show False by blast
qed


text \<open>
  C3. For the extension filter and for the domain filter, for every configuration of
  the allow and deny lists and every key, the source aborts exactly when the rule of
  the specification does not permit the key: with an allow-list the key is permitted
  iff it is in the allow-list, otherwise iff it is not in the deny-list. So a key in the
  allow-list passes whatever the deny-list holds. A rejected extension makes the call
  return Skipped_UnpermittedExtension, and a rejected host name (the extension having
  passed) makes it return Skipped_UnpermittedDomain.
\<close>

theorem filters_allow_overrides_deny:
  "(extensionAborts filters extension \<longleftrightarrow>
      \<not> specPermit (AllowedExtensions filters) (BlockedExtensions filters) extension)
   \<and> (domainAborts filters hostname \<longleftrightarrow>
      \<not> specPermit (AllowedDomains filters) (BlockedDomains filters) hostname)
   \<and> checkExtension filters extension =
       (if specPermit (AllowedExtensions filters) (BlockedExtensions filters) extension
        then Continue () else Return (mDownloadStatus downloadSkippedUnpermittedExtension []))
   \<and> checkDomain filters (Inr hostname) =
       (if specPermit (AllowedDomains filters) (BlockedDomains filters) hostname
        then Continue () else Return (mDownloadStatus downloadSkippedUnpermittedDomain []))
   \<and> (AllowedExtensions filters = Some allowed \<and> extension \<in> set allowed
        \<longrightarrow> checkExtension filters extension = Continue ())
   \<and> (AllowedDomains filters = Some allowedD \<and> hostname \<in> set allowedD
        \<longrightarrow> checkDomain filters (Inr hostname) = Continue ())
   \<and> ((stringInSlice (ChannelID (Message download)) (allChannels col)
          \<or> EmojiCmd download \<or> ManualDownload download)
        \<and> fetch lib download = Continue (d, bodyOfResp, response)
        \<and> \<not> specPermit (AllowedExtensions (Filters (channelConfig col)))
               (BlockedExtensions (Filters (channelConfig col)))
               (toLower lib (filepathExt (chooseFilename lib col d response)))
        \<longrightarrow> tryDownload lib col download w =
              Some (Returned (mDownloadStatus downloadSkippedUnpermittedExtension [])
                      (w\<lparr>cachedDownloadID := cachedDownloadID w + 1\<rparr>)))
   \<and> ((stringInSlice (ChannelID (Message download)) (allChannels col)
          \<or> EmojiCmd download \<or> ManualDownload download)
        \<and> fetch lib download = Continue (d, bodyOfResp, response)
        \<and> specPermit (AllowedExtensions (Filters (channelConfig col)))
               (BlockedExtensions (Filters (channelConfig col)))
               (toLower lib (filepathExt (chooseFilename lib col d response)))
        \<and> urlParseHostname lib (InputURL d) = Inr host
        \<and> \<not> specPermit (AllowedDomains (Filters (channelConfig col)))
               (BlockedDomains (Filters (channelConfig col))) host
        \<longrightarrow> tryDownload lib col download w =
              Some (Returned (mDownloadStatus downloadSkippedUnpermittedDomain [])
                      (w\<lparr>cachedDownloadID := cachedDownloadID w + 1\<rparr>)))"
proof -
  have ce: "\<And>f e. checkExtension f e =
       (if specPermit (AllowedExtensions f) (BlockedExtensions f) e
        then Continue () else Return (mDownloadStatus downloadSkippedUnpermittedExtension []))"
    by (simp add: checkExtension_def extensionAborts_spec)
  have cd: "\<And>f h. checkDomain f (Inr h) =
       (if specPermit (AllowedDomains f) (BlockedDomains f) h
        then Continue () else Return (mDownloadStatus downloadSkippedUnpermittedDomain []))"
    by (auto simp: checkDomain_def domainAborts_spec specPermit_def)
  have ae: "AllowedExtensions filters = Some allowed \<and> extension \<in> set allowed
        \<longrightarrow> checkExtension filters extension = Continue ()"
    by (simp add: ce specPermit_def)
  have ad: "AllowedDomains filters = Some allowedD \<and> hostname \<in> set allowedD
        \<longrightarrow> checkDomain filters (Inr hostname) = Continue ()"
    by (simp add: cd specPermit_def)
  have te: "(stringInSlice (ChannelID (Message download)) (allChannels col)
          \<or> EmojiCmd download \<or> ManualDownload download)
        \<and> fetch lib download = Continue (d, bodyOfResp, response)
        \<and> \<not> specPermit (AllowedExtensions (Filters (channelConfig col)))
               (BlockedExtensions (Filters (channelConfig col)))
               (toLower lib (filepathExt (chooseFilename lib col d response)))
        \<longrightarrow> tryDownload lib col download w =
              Some (Returned (mDownloadStatus downloadSkippedUnpermittedExtension [])
                      (w\<lparr>cachedDownloadID := cachedDownloadID w + 1\<rparr>))"
  proof
    assume a: "(stringInSlice (ChannelID (Message download)) (allChannels col)
          \<or> EmojiCmd download \<or> ManualDownload download)
        \<and> fetch lib download = Continue (d, bodyOfResp, response)
        \<and> \<not> specPermit (AllowedExtensions (Filters (channelConfig col)))
               (BlockedExtensions (Filters (channelConfig col)))
               (toLower lib (filepathExt (chooseFilename lib col d response)))"
    then have "classify lib col d bodyOfResp response =
        Return (mDownloadStatus downloadSkippedUnpermittedExtension [])"
      by (simp add: classify_def Let_def ce thenFlow_def)
    with a show "tryDownload lib col download w =
              Some (Returned (mDownloadStatus downloadSkippedUnpermittedExtension [])
                      (w\<lparr>cachedDownloadID := cachedDownloadID w + 1\<rparr>))"
      by (simp add: tryDownload_enrolled ended_def)
  qed
  have td: "(stringInSlice (ChannelID (Message download)) (allChannels col)
          \<or> EmojiCmd download \<or> ManualDownload download)
        \<and> fetch lib download = Continue (d, bodyOfResp, response)
        \<and> specPermit (AllowedExtensions (Filters (channelConfig col)))
               (BlockedExtensions (Filters (channelConfig col)))
               (toLower lib (filepathExt (chooseFilename lib col d response)))
        \<and> urlParseHostname lib (InputURL d) = Inr host
        \<and> \<not> specPermit (AllowedDomains (Filters (channelConfig col)))
               (BlockedDomains (Filters (channelConfig col))) host
        \<longrightarrow> tryDownload lib col download w =
              Some (Returned (mDownloadStatus downloadSkippedUnpermittedDomain [])
                      (w\<lparr>cachedDownloadID := cachedDownloadID w + 1\<rparr>))"
  proof
    assume a: "(stringInSlice (ChannelID (Message download)) (allChannels col)
          \<or> EmojiCmd download \<or> ManualDownload download)
        \<and> fetch lib download = Continue (d, bodyOfResp, response)
        \<and> specPermit (AllowedExtensions (Filters (channelConfig col)))
               (BlockedExtensions (Filters (channelConfig col)))
               (toLower lib (filepathExt (chooseFilename lib col d response)))
        \<and> urlParseHostname lib (InputURL d) = Inr host
        \<and> \<not> specPermit (AllowedDomains (Filters (channelConfig col)))
               (BlockedDomains (Filters (channelConfig col))) host"
    then have "classify lib col d bodyOfResp response =
        Return (mDownloadStatus downloadSkippedUnpermittedDomain [])"
      by (simp add: classify_def Let_def ce cd thenFlow_def)
    with a show "tryDownload lib col download w =
              Some (Returned (mDownloadStatus downloadSkippedUnpermittedDomain [])
                      (w\<lparr>cachedDownloadID := cachedDownloadID w + 1\<rparr>))"
      by (simp add: tryDownload_enrolled ended_def)
  qed
  show ?thesis
    by (intro conjI) (rule extensionAborts_spec domainAborts_spec ce cd ae ad te td)+
qed


theorem filters_allow_overrides_deny_witness:
  "checkExtension \<lparr>AllowedExtensions = Some [''.png'', ''.jpg''], BlockedExtensions = Some [''.png''],
                    AllowedDomains = Some [''example.com''], BlockedDomains = Some [''example.com'']\<rparr>
      ''.png'' = Continue ()
   \<and> checkDomain \<lparr>AllowedExtensions = Some [''.png'', ''.jpg''], BlockedExtensions = Some [''.png''],
                    AllowedDomains = Some [''example.com''], BlockedDomains = Some [''example.com'']\<rparr>
      (Inr ''example.com'') = Continue ()
   \<and> tryDownload exampleLibraries
        (exampleCollaborators\<lparr>filenameFromURL := (\<lambda>u. ''setup.exe''),
           channelConfig := exampleChannel\<lparr>Filters := noFilters
             \<lparr>AllowedExtensions := Some [''.png'', ''.jpg'']\<rparr>\<rparr>\<rparr>)
        pngRequest exampleWorld
       = Some (Returned (mDownloadStatus downloadSkippedUnpermittedExtension [])
                 (exampleWorld\<lparr>cachedDownloadID := 1\<rparr>))
   \<and> tryDownload exampleLibraries
        (exampleCollaborators\<lparr>channelConfig := exampleChannel\<lparr>Filters := noFilters
             \<lparr>BlockedDomains := Some [''example.com'']\<rparr>\<rparr>\<rparr>)
        pngRequest exampleWorld
       = Some (Returned (mDownloadStatus downloadSkippedUnpermittedDomain [])
                 (exampleWorld\<lparr>cachedDownloadID := 1\<rparr>))"
proof -
  let ?F = "\<lparr>AllowedExtensions = Some [''.png'', ''.jpg''], BlockedExtensions = Some [''.png''],
             AllowedDomains = Some [''example.com''], BlockedDomains = Some [''example.com'']\<rparr>"
  let ?colE = "exampleCollaborators\<lparr>filenameFromURL := (\<lambda>u. ''setup.exe''),
           channelConfig := exampleChannel\<lparr>Filters := noFilters
             \<lparr>AllowedExtensions := Some [''.png'', ''.jpg'']\<rparr>\<rparr>\<rparr>"
  let ?colD = "exampleCollaborators\<lparr>channelConfig := exampleChannel\<lparr>Filters := noFilters
             \<lparr>BlockedDomains := Some [''example.com'']\<rparr>\<rparr>\<rparr>"
  let ?d = "pngRequest\<lparr>Path := ''dl/''\<rparr>"
  let ?resp = "\<lparr>StatusCode = 200, responseBody = Inr ''PNG'',
                requestURL = ''https://example.com/a.png'', contentDisposition = None\<rparr>"
  have f: "fetch exampleLibraries pngRequest = Continue (?d, ''PNG'', ?resp)"
    by (simp add: fetch_def exampleLibraries_def pngRequest_def osPathSeparator_def Let_def
        suffix_to_prefix)
  have en: "stringInSlice (ChannelID (Message pngRequest)) (allChannels ?colE)
      \<or> EmojiCmd pngRequest \<or> ManualDownload pngRequest"
    "stringInSlice (ChannelID (Message pngRequest)) (allChannels ?colD)
      \<or> EmojiCmd pngRequest \<or> ManualDownload pngRequest"
    by (simp_all add: pngRequest_def exampleCollaborators_def)
  have e1: "toLower exampleLibraries (filepathExt (chooseFilename exampleLibraries ?colE ?d ?resp))
             = ''.exe''"
    by (simp add: chooseFilename_def exampleLibraries_def exampleCollaborators_def
        pngRequest_def filepathExt_def osPathSeparator_def)
  have e2: "toLower exampleLibraries (filepathExt (chooseFilename exampleLibraries ?colD ?d ?resp))
             = ''.png''"
    by (simp add: chooseFilename_def exampleLibraries_def exampleCollaborators_def
        pngRequest_def filepathExt_def osPathSeparator_def)
  have h: "urlParseHostname exampleLibraries (InputURL ?d) = Inr ''example.com''"
    by (simp add: exampleLibraries_def)
  have pe: "\<not> specPermit (AllowedExtensions (Filters (channelConfig ?colE)))
               (BlockedExtensions (Filters (channelConfig ?colE))) ''.exe''"
    by (simp add: specPermit_def noFilters_def)
  have pd: "specPermit (AllowedExtensions (Filters (channelConfig ?colD)))
               (BlockedExtensions (Filters (channelConfig ?colD))) ''.png''"
    "\<not> specPermit (AllowedDomains (Filters (channelConfig ?colD)))
               (BlockedDomains (Filters (channelConfig ?colD))) ''example.com''"
    by (simp_all add: specPermit_def noFilters_def)
  have a: "AllowedExtensions ?F = Some [''.png'', ''.jpg''] \<and> ''.png'' \<in> set [''.png'', ''.jpg'']"
    "AllowedDomains ?F = Some [''example.com''] \<and> ''example.com'' \<in> set [''example.com'']"
    by simp_all
  note T1 = filters_allow_overrides_deny
    [of ?F "''.png''" "''example.com''" "[''.png'', ''.jpg'']" "[''example.com'']"
        pngRequest ?colE exampleLibraries ?d "''PNG''" ?resp exampleWorld "''example.com''"]
  note T2 = filters_allow_overrides_deny
    [of ?F "''.png''" "''example.com''" "[''.png'', ''.jpg'']" "[''example.com'']"
        pngRequest ?colD exampleLibraries ?d "''PNG''" ?resp exampleWorld "''example.com''"]
  have r1: "checkExtension ?F ''.png'' = Continue ()" using T1 a by blast
  have r2: "checkDomain ?F (Inr ''example.com'') = Continue ()" using T1 a by blast
  have r3: "tryDownload exampleLibraries ?colE pngRequest exampleWorld
       = Some (Returned (mDownloadStatus downloadSkippedUnpermittedExtension [])
                 (exampleWorld\<lparr>cachedDownloadID := cachedDownloadID exampleWorld + 1\<rparr>))"
    using T1 en(1) f pe unfolding e1 by blast
  have r4: "tryDownload exampleLibraries ?colD pngRequest exampleWorld
       = Some (Returned (mDownloadStatus downloadSkippedUnpermittedDomain [])
                 (exampleWorld\<lparr>cachedDownloadID := cachedDownloadID exampleWorld + 1\<rparr>))"
    using T2 en(2) f pd h unfolding e2 by blast
  have c: "cachedDownloadID exampleWorld + 1 = 1" by (simp add: exampleWorld_def)
  show ?thesis using r1 r2 r3 r4 unfolding c by blast
qed


section \<open>The example download, stage by stage\<close>

lemma example_fetch:
  "fetch exampleLibraries pngRequest =
     Continue (pngRequest\<lparr>Path := ''dl/''\<rparr>, ''PNG'',
       \<lparr>StatusCode = 200, responseBody = Inr ''PNG'',
        requestURL = ''https://example.com/a.png'', contentDisposition = None\<rparr>)"
  by (simp add: fetch_def exampleLibraries_def pngRequest_def osPathSeparator_def Let_def
      suffix_to_prefix)

lemma example_enrolled:
  "allChannels col = [''c''] \<Longrightarrow>
   stringInSlice (ChannelID (Message pngRequest)) (allChannels col)
     \<or> EmojiCmd pngRequest \<or> ManualDownload pngRequest"
  by (simp add: pngRequest_def)

lemma example_classify:
  "channelConfig col = exampleChannel \<Longrightarrow> filenameFromURL col = (\<lambda>u. ''a.png'') \<Longrightarrow>
   classify exampleLibraries col (pngRequest\<lparr>Path := ''dl/''\<rparr>) ''PNG''
       \<lparr>StatusCode = 200, responseBody = Inr ''PNG'',
        requestURL = ''https://example.com/a.png'', contentDisposition = None\<rparr>
     = Continue (pngRequest\<lparr>Path := ''dl/'', Filename := ''a.png''\<rparr>, ''.png'', ''image'')"
  by (simp add: classify_def chooseFilename_def exampleLibraries_def pngRequest_def
      filepathExt_def osPathSeparator_def contentTypePart0_def checkExtension_def
      extensionAborts_def checkDomain_def checkContentType_def fixContentType_def
      fixFilenameExtension_def thenFlow_def exampleChannel_def noFilters_def Let_def)

lemma example_subfolders:
  "subfolders lib col (pngRequest\<lparr>Path := ''dl/'', Filename := ''a.png''\<rparr>) ''image''
     = Continue []"
  by (simp add: subfolders_def pngRequest_def Let_def)

section \<open>Properties of the duplicate image filter\<close>

text \<open>
  C5. When the filter applies (it is switched on, the content is an image other than
  \<open>.gif\<close> and \<open>.webp\<close>, and the image decodes), the download is rejected with
  Skipped_DetectedNearDuplicate exactly when some match the index returns has a score
  strictly below the threshold, which for a non-empty result is to say that the best
  match, the first after sorting, is strictly below it; otherwise, so in particular
  when every score is at least the threshold, a score equal to it included, the
  download passes the filter and its hash is added to the index under the current
  counter. A rejection is what the whole call returns.
\<close>

theorem near_duplicate_comparison_is_strict:
  "(FilterDuplicateImages (config col) \<and> contentTypeFound = ''image''
      \<and> extension \<noteq> ''.gif'' \<and> extension \<noteq> ''.webp'' \<and> imageHash col bodyOfResp = Some hash
     \<longrightarrow> duplicateImageFilter col contentTypeFound extension bodyOfResp w =
           (if \<exists>match \<in> set (storeQuery col (imgStore w) hash).
                 Score match < FilterDuplicateImagesThreshold (config col)
            then Return (mDownloadStatus downloadSkippedDetectedDuplicate [])
            else Continue (w\<lparr>imgStore := storeAdd col (imgStore w) (cachedDownloadID w) hash\<rparr>)))
   \<and> (matches \<noteq> [] \<longrightarrow>
        ((\<exists>match \<in> set matches. Score match < threshold)
           \<longleftrightarrow> Score (hd (sort_key Score matches)) < threshold))
   \<and> (FilterDuplicateImages (config col) \<and> contentTypeFound = ''image''
      \<and> extension \<noteq> ''.gif'' \<and> extension \<noteq> ''.webp'' \<and> imageHash col bodyOfResp = Some hash
      \<and> (\<forall>match \<in> set (storeQuery col (imgStore w) hash).
            FilterDuplicateImagesThreshold (config col) \<le> Score match)
     \<longrightarrow> duplicateImageFilter col contentTypeFound extension bodyOfResp w =
           Continue (w\<lparr>imgStore := storeAdd col (imgStore w) (cachedDownloadID w) hash\<rparr>))
   \<and> ((stringInSlice (ChannelID (Message download)) (allChannels col)
          \<or> EmojiCmd download \<or> ManualDownload download)
      \<and> fetch lib download = Continue (d, bodyOfResp, response)
      \<and> classify lib col d bodyOfResp response = Continue (d', extension, contentTypeFound)
      \<and> FilterDuplicateImages (config col) \<and> contentTypeFound = ''image''
      \<and> extension \<noteq> ''.gif'' \<and> extension \<noteq> ''.webp'' \<and> imageHash col bodyOfResp = Some hash
      \<and> (\<exists>match \<in> set (storeQuery col (imgStore w) hash).
            Score match < FilterDuplicateImagesThreshold (config col))
     \<longrightarrow> tryDownload lib col download w =
           Some (Returned (mDownloadStatus downloadSkippedDetectedDuplicate [])
                   (w\<lparr>cachedDownloadID := cachedDownloadID w + 1\<rparr>)))"
proof -
  have a: "FilterDuplicateImages (config col) \<and> contentTypeFound = ''image''
      \<and> extension \<noteq> ''.gif'' \<and> extension \<noteq> ''.webp'' \<and> imageHash col bodyOfResp = Some hash
     \<longrightarrow> duplicateImageFilter col contentTypeFound extension bodyOfResp w =
           (if \<exists>match \<in> set (storeQuery col (imgStore w) hash).
                 Score match < FilterDuplicateImagesThreshold (config col)
            then Return (mDownloadStatus downloadSkippedDetectedDuplicate [])
            else Continue (w\<lparr>imgStore := storeAdd col (imgStore w) (cachedDownloadID w) hash\<rparr>))"
    using duplicateImageFilter_active [of col contentTypeFound extension bodyOfResp hash w]
    by blast
  have b: "matches \<noteq> [] \<longrightarrow>
        ((\<exists>match \<in> set matches. Score match < threshold)
           \<longleftrightarrow> Score (hd (sort_key Score matches)) < threshold)"
    using best_match_first [of matches threshold] by blast
  have c: "FilterDuplicateImages (config col) \<and> contentTypeFound = ''image''
      \<and> extension \<noteq> ''.gif'' \<and> extension \<noteq> ''.webp'' \<and> imageHash col bodyOfResp = Some hash
      \<and> (\<forall>match \<in> set (storeQuery col (imgStore w) hash).
            FilterDuplicateImagesThreshold (config col) \<le> Score match)
     \<longrightarrow> duplicateImageFilter col contentTypeFound extension bodyOfResp w =
           Continue (w\<lparr>imgStore := storeAdd col (imgStore w) (cachedDownloadID w) hash\<rparr>)"
  proof
    assume h: "FilterDuplicateImages (config col) \<and> contentTypeFound = ''image''
      \<and> extension \<noteq> ''.gif'' \<and> extension \<noteq> ''.webp'' \<and> imageHash col bodyOfResp = Some hash
      \<and> (\<forall>match \<in> set (storeQuery col (imgStore w) hash).
            FilterDuplicateImagesThreshold (config col) \<le> Score match)"
    then have "\<not> (\<exists>match \<in> set (storeQuery col (imgStore w) hash).
                 Score match < FilterDuplicateImagesThreshold (config col))"
      by (meson not_le)
    with a h show "duplicateImageFilter col contentTypeFound extension bodyOfResp w =
           Continue (w\<lparr>imgStore := storeAdd col (imgStore w) (cachedDownloadID w) hash\<rparr>)"
      by simp
  qed
  have d: "(stringInSlice (ChannelID (Message download)) (allChannels col)
          \<or> EmojiCmd download \<or> ManualDownload download)
      \<and> fetch lib download = Continue (d, bodyOfResp, response)
      \<and> classify lib col d bodyOfResp response = Continue (d', extension, contentTypeFound)
      \<and> FilterDuplicateImages (config col) \<and> contentTypeFound = ''image''
      \<and> extension \<noteq> ''.gif'' \<and> extension \<noteq> ''.webp'' \<and> imageHash col bodyOfResp = Some hash
      \<and> (\<exists>match \<in> set (storeQuery col (imgStore w) hash).
            Score match < FilterDuplicateImagesThreshold (config col))
     \<longrightarrow> tryDownload lib col download w =
           Some (Returned (mDownloadStatus downloadSkippedDetectedDuplicate [])
                   (w\<lparr>cachedDownloadID := cachedDownloadID w + 1\<rparr>))"
  proof
    assume h: "(stringInSlice (ChannelID (Message download)) (allChannels col)
          \<or> EmojiCmd download \<or> ManualDownload download)
      \<and> fetch lib download = Continue (d, bodyOfResp, response)
      \<and> classify lib col d bodyOfResp response = Continue (d', extension, contentTypeFound)
      \<and> FilterDuplicateImages (config col) \<and> contentTypeFound = ''image''
      \<and> extension \<noteq> ''.gif'' \<and> extension \<noteq> ''.webp'' \<and> imageHash col bodyOfResp = Some hash
      \<and> (\<exists>match \<in> set (storeQuery col (imgStore w) hash).
            Score match < FilterDuplicateImagesThreshold (config col))"
    let ?w = "w\<lparr>cachedDownloadID := cachedDownloadID w + 1\<rparr>"
    have "duplicateImageFilter col contentTypeFound extension bodyOfResp ?w =
            Return (mDownloadStatus downloadSkippedDetectedDuplicate [])"
      using h duplicateImageFilter_active [of col contentTypeFound extension bodyOfResp hash ?w]
      by simp
    with h show "tryDownload lib col download w =
           Some (Returned (mDownloadStatus downloadSkippedDetectedDuplicate []) ?w)"
      by (simp add: tryDownload_enrolled ended_def)
  qed
  show ?thesis
    by (intro conjI) (rule a b c d)+
qed

theorem near_duplicate_comparison_is_strict_witness:
  "duplicateImageFilter exampleCollaborators ''image'' ''.png'' ''12345678''
      (exampleWorld\<lparr>imgStore := [(1, 10)]\<rparr>)
     = Return (mDownloadStatus downloadSkippedDetectedDuplicate [])
   \<and> FilterDuplicateImagesThreshold (config exampleCollaborators) = 5
   \<and> map Score (storeQuery exampleCollaborators [(1, 10)] 5) = [5]
   \<and> duplicateImageFilter exampleCollaborators ''image'' ''.png'' ''12345''
      (exampleWorld\<lparr>imgStore := [(1, 10)]\<rparr>)
     = Continue (exampleWorld\<lparr>imgStore := [(1, 10), (0, 5)]\<rparr>)
   \<and> tryDownload exampleLibraries exampleCollaborators pngRequest
        (exampleWorld\<lparr>imgStore := [(1, 5)]\<rparr>)
     = Some (Returned (mDownloadStatus downloadSkippedDetectedDuplicate [])
               (exampleWorld\<lparr>imgStore := [(1, 5)], cachedDownloadID := 1\<rparr>))"
proof -
  let ?w = "exampleWorld\<lparr>imgStore := [(1, 10)]\<rparr>"
  let ?w' = "exampleWorld\<lparr>imgStore := [(1, 5)]\<rparr>"
  let ?d = "pngRequest\<lparr>Path := ''dl/''\<rparr>"
  let ?resp = "\<lparr>StatusCode = 200, responseBody = Inr ''PNG'',
        requestURL = ''https://example.com/a.png'', contentDisposition = None\<rparr>"
  have act: "FilterDuplicateImages (config exampleCollaborators) \<and> ''image'' = ''image''
      \<and> ''.png'' \<noteq> ''.gif'' \<and> ''.png'' \<noteq> ''.webp''"
    by (simp add: exampleCollaborators_def)
  have thr: "FilterDuplicateImagesThreshold (config exampleCollaborators) = 5"
    by (simp add: exampleCollaborators_def)
  have h8: "imageHash exampleCollaborators ''12345678'' = Some 8"
    and h5: "imageHash exampleCollaborators ''12345'' = Some 5"
    and h3: "imageHash exampleCollaborators ''PNG'' = Some 3"
    by (simp_all add: exampleCollaborators_def)
  have q8: "\<exists>match \<in> set (storeQuery exampleCollaborators (imgStore ?w) 8).
              Score match < FilterDuplicateImagesThreshold (config exampleCollaborators)"
    by (simp add: exampleCollaborators_def exampleWorld_def)
  have q5: "\<forall>match \<in> set (storeQuery exampleCollaborators (imgStore ?w) 5).
              FilterDuplicateImagesThreshold (config exampleCollaborators) \<le> Score match"
    by (simp add: exampleCollaborators_def exampleWorld_def)
  have q5': "map Score (storeQuery exampleCollaborators [(1, 10)] 5) = [5]"
    by (simp add: exampleCollaborators_def)
  have q3: "\<exists>match \<in> set (storeQuery exampleCollaborators (imgStore ?w') 3).
              Score match < FilterDuplicateImagesThreshold (config exampleCollaborators)"
    by (simp add: exampleCollaborators_def exampleWorld_def)
  have en: "stringInSlice (ChannelID (Message pngRequest)) (allChannels exampleCollaborators)
     \<or> EmojiCmd pngRequest \<or> ManualDownload pngRequest"
    by (rule example_enrolled) (simp add: exampleCollaborators_def)
  have cl: "classify exampleLibraries exampleCollaborators ?d ''PNG'' ?resp
     = Continue (pngRequest\<lparr>Path := ''dl/'', Filename := ''a.png''\<rparr>, ''.png'', ''image'')"
    by (rule example_classify) (simp_all add: exampleCollaborators_def)
  have r1: "duplicateImageFilter exampleCollaborators ''image'' ''.png'' ''12345678'' ?w
     = Return (mDownloadStatus downloadSkippedDetectedDuplicate [])"
    using near_duplicate_comparison_is_strict
      [of exampleCollaborators "''image''" "''.png''" "''12345678''" 8 ?w "[]" 0 pngRequest
          exampleLibraries ?d ?resp ?d]
      act h8 q8 by simp
  have r2: "duplicateImageFilter exampleCollaborators ''image'' ''.png'' ''12345'' ?w
     = Continue (?w\<lparr>imgStore := storeAdd exampleCollaborators (imgStore ?w)
                                    (cachedDownloadID ?w) 5\<rparr>)"
    using near_duplicate_comparison_is_strict
      [of exampleCollaborators "''image''" "''.png''" "''12345''" 5 ?w "[]" 0 pngRequest
          exampleLibraries ?d ?resp ?d]
      act h5 q5 by blast
  have r2': "?w\<lparr>imgStore := storeAdd exampleCollaborators (imgStore ?w) (cachedDownloadID ?w) 5\<rparr>
     = exampleWorld\<lparr>imgStore := [(1, 10), (0, 5)]\<rparr>"
    by (simp add: exampleCollaborators_def exampleWorld_def)
  have r3: "tryDownload exampleLibraries exampleCollaborators pngRequest ?w'
     = Some (Returned (mDownloadStatus downloadSkippedDetectedDuplicate [])
               (?w'\<lparr>cachedDownloadID := cachedDownloadID ?w' + 1\<rparr>))"
    using near_duplicate_comparison_is_strict
      [of exampleCollaborators "''image''" "''.png''" "''PNG''" 3 ?w' "[]" 0 pngRequest
          exampleLibraries ?d ?resp "pngRequest\<lparr>Path := ''dl/'', Filename := ''a.png''\<rparr>"]
      en example_fetch cl act h3 q3 by blast
  have r3': "?w'\<lparr>cachedDownloadID := cachedDownloadID ?w' + 1\<rparr>
     = exampleWorld\<lparr>imgStore := [(1, 5)], cachedDownloadID := 1\<rparr>"
    by (simp add: exampleWorld_def)
  show ?thesis
    using r1 thr q5' r2 r3 unfolding r2' r3' by blast
qed


section \<open>Properties of the write and of the record\<close>

lemma duplicateImageFilter_keeps_files:
  "duplicateImageFilter col contentTypeFound extension bodyOfResp w = Continue w' \<Longrightarrow>
   disk w' = disk w \<and> database w' = database w"
  by (auto simp: duplicateImageFilter_def Let_def split: if_splits option.splits)

lemma example_filter_passes:
  "duplicateImageFilter exampleCollaborators ''image'' ''.png'' ''PNG''
      (exampleWorld\<lparr>cachedDownloadID := cachedDownloadID exampleWorld + 1\<rparr>)
     = Continue (exampleWorld\<lparr>cachedDownloadID := 1, imgStore := [(1, 3)]\<rparr>)"
  by (simp add: duplicateImageFilter_def exampleCollaborators_def exampleWorld_def)

text \<open>
  C6. When the file has been written and the insert of the record fails, the write
  stage returns Failed_WritingDatabase with the error of the insert, and the world it
  leaves is the one after the write: the body is at the destination path, no record
  has been added. That is what the whole call returns and leaves, so the file is not
  removed; and no other status has the rank of Failed_WritingDatabase.
\<close>

theorem record_failure_keeps_written_file:
  "(writeFile lib completePath = None
      \<and> dbInsertDownload col (newDownloadItem col download completePath) = Some err
     \<longrightarrow> writeAndRecord lib col download bodyOfResp completePath w =
           (Return (mDownloadStatus downloadFailedWritingDatabase [Some err]),
            w\<lparr>disk := (disk w)(completePath := Present bodyOfResp)\<rparr>))
   \<and> ((stringInSlice (ChannelID (Message download)) (allChannels col)
          \<or> EmojiCmd download \<or> ManualDownload download)
      \<and> fetch lib download = Continue (d, bodyOfResp, response)
      \<and> classify lib col d bodyOfResp response = Continue (d', extension, contentTypeFound)
      \<and> duplicateImageFilter col contentTypeFound extension bodyOfResp
           (w\<lparr>cachedDownloadID := cachedDownloadID w + 1\<rparr>) = Continue w'
      \<and> subfolders lib col d' contentTypeFound = Continue subfolder
      \<and> resolveCollision col (disk w')
           (Path d' @ subfolder @ timeFormat lib (filenameDateFormat col) @ Filename d')
           = Some (Continue completePath)
      \<and> writeFile lib completePath = None
      \<and> dbInsertDownload col (newDownloadItem col d' completePath) = Some err
     \<longrightarrow> (\<exists>w''. tryDownload lib col download w =
                  Some (Returned (mDownloadStatus downloadFailedWritingDatabase [Some err]) w'')
              \<and> disk w'' = (disk w)(completePath := Present bodyOfResp)
              \<and> disk w'' completePath = Present bodyOfResp
              \<and> database w'' = database w))
   \<and> (\<forall>s. iota s = iota downloadFailedWritingDatabase \<longrightarrow> s = downloadFailedWritingDatabase)"
proof -
  have a: "writeFile lib completePath = None
      \<and> dbInsertDownload col (newDownloadItem col download completePath) = Some err
     \<longrightarrow> writeAndRecord lib col download bodyOfResp completePath w =
           (Return (mDownloadStatus downloadFailedWritingDatabase [Some err]),
            w\<lparr>disk := (disk w)(completePath := Present bodyOfResp)\<rparr>)"
    using writeAndRecord_db_failure [of lib completePath col download err bodyOfResp w]
    by blast
  have b: "(stringInSlice (ChannelID (Message download)) (allChannels col)
          \<or> EmojiCmd download \<or> ManualDownload download)
      \<and> fetch lib download = Continue (d, bodyOfResp, response)
      \<and> classify lib col d bodyOfResp response = Continue (d', extension, contentTypeFound)
      \<and> duplicateImageFilter col contentTypeFound extension bodyOfResp
           (w\<lparr>cachedDownloadID := cachedDownloadID w + 1\<rparr>) = Continue w'
      \<and> subfolders lib col d' contentTypeFound = Continue subfolder
      \<and> resolveCollision col (disk w')
           (Path d' @ subfolder @ timeFormat lib (filenameDateFormat col) @ Filename d')
           = Some (Continue completePath)
      \<and> writeFile lib completePath = None
      \<and> dbInsertDownload col (newDownloadItem col d' completePath) = Some err
     \<longrightarrow> (\<exists>w''. tryDownload lib col download w =
                  Some (Returned (mDownloadStatus downloadFailedWritingDatabase [Some err]) w'')
              \<and> disk w'' = (disk w)(completePath := Present bodyOfResp)
              \<and> disk w'' completePath = Present bodyOfResp
              \<and> database w'' = database w)"
  proof
    assume h: "(stringInSlice (ChannelID (Message download)) (allChannels col)
          \<or> EmojiCmd download \<or> ManualDownload download)
      \<and> fetch lib download = Continue (d, bodyOfResp, response)
      \<and> classify lib col d bodyOfResp response = Continue (d', extension, contentTypeFound)
      \<and> duplicateImageFilter col contentTypeFound extension bodyOfResp
           (w\<lparr>cachedDownloadID := cachedDownloadID w + 1\<rparr>) = Continue w'
      \<and> subfolders lib col d' contentTypeFound = Continue subfolder
      \<and> resolveCollision col (disk w')
           (Path d' @ subfolder @ timeFormat lib (filenameDateFormat col) @ Filename d')
           = Some (Continue completePath)
      \<and> writeFile lib completePath = None
      \<and> dbInsertDownload col (newDownloadItem col d' completePath) = Some err"
    let ?w'' = "w'\<lparr>disk := (disk w')(completePath := Present bodyOfResp)\<rparr>"
    have "tryDownload lib col download w =
            place lib col d' bodyOfResp subfolder (cachedDownloadID w + 1) w'"
      using h by (intro tryDownload_reaches_place) blast+
    also have "\<dots> = Some (Returned (mDownloadStatus downloadFailedWritingDatabase [Some err]) ?w'')"
      using h by (intro place_db_failure) blast+
    finally have t: "tryDownload lib col download w =
        Some (Returned (mDownloadStatus downloadFailedWritingDatabase [Some err]) ?w'')" .
    have k: "disk w' = disk w \<and> database w' = database w"
      using h duplicateImageFilter_keeps_files
        [of col contentTypeFound extension bodyOfResp
            "w\<lparr>cachedDownloadID := cachedDownloadID w + 1\<rparr>" w']
      by simp
    show "\<exists>w''. tryDownload lib col download w =
                  Some (Returned (mDownloadStatus downloadFailedWritingDatabase [Some err]) w'')
              \<and> disk w'' = (disk w)(completePath := Present bodyOfResp)
              \<and> disk w'' completePath = Present bodyOfResp
              \<and> database w'' = database w"
      using t k by (intro exI[of _ ?w'']) simp
  qed
  have c: "\<forall>s. iota s = iota downloadFailedWritingDatabase \<longrightarrow> s = downloadFailedWritingDatabase"
    using iota_inj by blast
  show ?thesis
    by (intro conjI) (rule a b c)+
qed

theorem record_failure_keeps_written_file_witness:
  "\<exists>w''. tryDownload exampleLibraries
            (exampleCollaborators\<lparr>dbInsertDownload := (\<lambda>i. Some ''db down'')\<rparr>)
            pngRequest exampleWorld
          = Some (Returned \<lparr>Status = downloadFailedWritingDatabase, Error = Some ''db down''\<rparr> w'')
        \<and> disk w'' ''dl/2021-a.png'' = Present ''PNG''
        \<and> database w'' = []"
proof -
  let ?col = "exampleCollaborators\<lparr>dbInsertDownload := (\<lambda>i. Some ''db down'')\<rparr>"
  let ?d = "pngRequest\<lparr>Path := ''dl/''\<rparr>"
  let ?d' = "pngRequest\<lparr>Path := ''dl/'', Filename := ''a.png''\<rparr>"
  let ?resp = "\<lparr>StatusCode = 200, responseBody = Inr ''PNG'',
        requestURL = ''https://example.com/a.png'', contentDisposition = None\<rparr>"
  let ?w' = "exampleWorld\<lparr>cachedDownloadID := 1, imgStore := [(1, 3)]\<rparr>"
  have en: "stringInSlice (ChannelID (Message pngRequest)) (allChannels ?col)
     \<or> EmojiCmd pngRequest \<or> ManualDownload pngRequest"
    by (rule example_enrolled) (simp add: exampleCollaborators_def)
  have cl: "classify exampleLibraries ?col ?d ''PNG'' ?resp = Continue (?d', ''.png'', ''image'')"
    by (rule example_classify) (simp_all add: exampleCollaborators_def)
  have df: "duplicateImageFilter ?col ''image'' ''.png'' ''PNG''
      (exampleWorld\<lparr>cachedDownloadID := cachedDownloadID exampleWorld + 1\<rparr>) = Continue ?w'"
    by (simp add: duplicateImageFilter_def exampleCollaborators_def exampleWorld_def)
  have sf: "subfolders exampleLibraries ?col ?d' ''image'' = Continue []"
    by (rule example_subfolders)
  have p: "Path ?d' @ [] @ timeFormat exampleLibraries (filenameDateFormat ?col) @ Filename ?d'
      = ''dl/2021-a.png''"
    by (simp add: pngRequest_def exampleLibraries_def)
  have rc: "resolveCollision ?col (disk ?w') ''dl/2021-a.png'' = Some (Continue ''dl/2021-a.png'')"
    by (simp add: resolveCollision_def exampleWorld_def)
  have wf: "writeFile exampleLibraries ''dl/2021-a.png'' = None"
    by (simp add: exampleLibraries_def)
  have db: "dbInsertDownload ?col (newDownloadItem ?col ?d' ''dl/2021-a.png'') = Some ''db down''"
    by (simp add: exampleCollaborators_def)
  have "\<exists>w''. tryDownload exampleLibraries ?col pngRequest exampleWorld =
                  Some (Returned (mDownloadStatus downloadFailedWritingDatabase [Some ''db down'']) w'')
              \<and> disk w'' = (disk exampleWorld)(''dl/2021-a.png'' := Present ''PNG'')
              \<and> disk w'' ''dl/2021-a.png'' = Present ''PNG''
              \<and> database w'' = database exampleWorld"
    using record_failure_keeps_written_file
      [of exampleLibraries "''dl/2021-a.png''" ?col pngRequest "''db down''" "''PNG''"
          exampleWorld ?d ?resp ?d' "''.png''" "''image''" ?w' "[]"]
      en example_fetch cl df sf rc wf db unfolding p by blast
  then show ?thesis by (auto simp add: exampleWorld_def)
qed


section \<open>Properties of the collision handling\<close>

lemma resolveCollision_skip:
  "files completePath = Present old \<Longrightarrow> \<not> SavePossibleDuplicates (channelConfig col) \<Longrightarrow>
   resolveCollision col files completePath
     = Some (Return (mDownloadStatus downloadSkippedDuplicate []))"
  by (simp add: resolveCollision_def)

lemma resolveCollision_probe:
  assumes "files completePath = Present old"
    and "SavePossibleDuplicates (channelConfig col)"
    and "length (filepathExtension col completePath) \<le> length completePath"
    and "0 < n" and "n \<le> maxInt"
    and "\<forall>j. 0 < j \<and> j < n \<longrightarrow>
           files (suffixedPath completePath (filepathExtension col completePath) j) \<noteq> Absent"
    and "files (suffixedPath completePath (filepathExtension col completePath) n) = Absent"
  shows "resolveCollision col files completePath
     = Some (Continue (suffixedPath completePath (filepathExtension col completePath) n))"
proof -
  have "probeSuffix files completePath (filepathExtension col completePath) 1
      = Some (suffixedPath completePath (filepathExtension col completePath) n)"
    using assms by (intro probeSuffix_finds) auto
  with assms show ?thesis
    by (simp add: resolveCollision_def Let_def)
qed

lemma place_skip:
  "disk w (Path download @ subfolder @ timeFormat lib (filenameDateFormat col) @ Filename download)
     = Present old \<Longrightarrow>
   \<not> SavePossibleDuplicates (channelConfig col) \<Longrightarrow>
   place lib col download bodyOfResp subfolder thisDownloadID w
     = Some (Returned (mDownloadStatus downloadSkippedDuplicate []) w)"
  by (simp add: place_def Let_def ended_def resolveCollision_skip)

lemma writeAndRecord_disk:
  "writeFile lib completePath = None \<Longrightarrow>
   disk (snd (writeAndRecord lib col download bodyOfResp completePath w))
     = (disk w)(completePath := Present bodyOfResp)"
  by (simp add: writeAndRecord_def Let_def split: option.splits)

lemma react_keeps_files:
  "react lib col download w = Some w' \<Longrightarrow> disk w' = disk w \<and> database w' = database w"
  by (auto simp: react_def Let_def split: if_splits option.splits prod.splits)

lemma finish_keeps_files:
  "disk (finish col download thisDownloadID w) = disk w
   \<and> database (finish col download thisDownloadID w) = database w"
  by (simp add: finish_def Let_def)

lemma place_keeps_duplicate:
  assumes "completePath = Path download @ subfolder @ timeFormat lib (filenameDateFormat col)
                            @ Filename download"
    and "chosen = suffixedPath completePath (filepathExtension col completePath) n"
    and "disk w completePath = Present old"
    and "SavePossibleDuplicates (channelConfig col)"
    and "length (filepathExtension col completePath) \<le> length completePath"
    and "0 < n" and "n \<le> maxInt"
    and "\<forall>j. 0 < j \<and> j < n \<longrightarrow>
           disk w (suffixedPath completePath (filepathExtension col completePath) j) \<noteq> Absent"
    and "disk w chosen = Absent"
    and "writeFile lib chosen = None"
    and "dbInsertDownload col (newDownloadItem col download chosen) = None"
    and "react lib col download
           (w\<lparr>disk := (disk w)(chosen := Present bodyOfResp),
              database := database w @ [newDownloadItem col download chosen]\<rparr>) = Some w3"
  shows "place lib col download bodyOfResp subfolder thisDownloadID w
           = Some (Returned (mDownloadStatus downloadSuccess [])
                     (finish col download thisDownloadID w3))"
    and "disk (finish col download thisDownloadID w3) = (disk w)(chosen := Present bodyOfResp)"
    and "database (finish col download thisDownloadID w3)
           = database w @ [newDownloadItem col download chosen]"
proof -
  have rc: "resolveCollision col (disk w) completePath = Some (Continue chosen)"
    unfolding assms(2) using assms(3-8) assms(9) [unfolded assms(2)]
    by (intro resolveCollision_probe) auto
  have wr: "writeAndRecord lib col download bodyOfResp chosen w
      = (Continue (), w\<lparr>disk := (disk w)(chosen := Present bodyOfResp),
                         database := database w @ [newDownloadItem col download chosen]\<rparr>)"
    using assms(10,11) by (simp add: writeAndRecord_def Let_def)
  show "place lib col download bodyOfResp subfolder thisDownloadID w
           = Some (Returned (mDownloadStatus downloadSuccess [])
                     (finish col download thisDownloadID w3))"
    unfolding place_def Let_def assms(1) [symmetric] rc
    using wr assms(12) by (simp add: ended_def)
  have k: "disk w3 = (disk w)(chosen := Present bodyOfResp)
      \<and> database w3 = database w @ [newDownloadItem col download chosen]"
    using react_keeps_files [OF assms(12)] by simp
  show "disk (finish col download thisDownloadID w3) = (disk w)(chosen := Present bodyOfResp)"
    using k finish_keeps_files [of col download thisDownloadID w3] by simp
  show "database (finish col download thisDownloadID w3)
           = database w @ [newDownloadItem col download chosen]"
    using k finish_keeps_files [of col download thisDownloadID w3] by simp
qed

text \<open>
  The loop ends only at a path that \<^verbatim>\<open>os.Stat\<close> reports as not existing: when
  every suffixed path is there, or gives another error, it never ends.
\<close>

lemma probeSuffix_never_ends:
  assumes "\<forall>j. files (suffixedPath tmpPath ext j) \<noteq> Absent"
  shows "probeSuffix files tmpPath ext i = None"
proof (rule ccontr)
  assume "probeSuffix files tmpPath ext i \<noteq> None"
  then obtain r where r: "probeSuffix files tmpPath ext i = Some r" by blast
  have "\<not> (\<forall>j. files (suffixedPath tmpPath ext j) \<noteq> Absent)"
  proof (rule probeSuffix.raw_induct
      [where P = "\<lambda>fs p e k y. \<not> (\<forall>j. fs (suffixedPath p e j) \<noteq> Absent)", OF _ r])
    fix probe :: "(string \<Rightarrow> fileEntry) \<Rightarrow> string \<Rightarrow> string \<Rightarrow> int \<Rightarrow> string option"
    fix fs p e k y
    assume IH: "\<And>fs p e k y. probe fs p e k = Some y \<Longrightarrow>
        \<not> (\<forall>j. fs (suffixedPath p e j) \<noteq> Absent)"
    assume step: "(let completePath = suffixedPath p e k
          in if fs completePath = Absent then Some completePath
             else probe fs p e (increment k)) = Some y"
    show "\<not> (\<forall>j. fs (suffixedPath p e j) \<noteq> Absent)"
    proof
      assume all: "\<forall>j. fs (suffixedPath p e j) \<noteq> Absent"
      with step have "probe fs p e (increment k) = Some y"
        by (auto simp: Let_def split: if_splits)
      with IH all show False by blast
    qed
  qed
  with assms show False by blast
qed

text \<open>
  C4. When the composed destination path exists: if the channel does not keep possible
  duplicates, the collision stage returns Skipped_Duplicate and the call ends there
  with the world as the earlier stages left it: the files and the records are those
  from before the call, so no file is written. If it keeps
  them, then whenever the paths with the suffixes \<open>-1\<close>, ..., \<open>-(n-1)\<close> are taken and
  the one with \<open>-n\<close> does not exist, the loop ends and chooses the path with \<open>-n\<close>:
  over \<open>N\<close> colliding paths it picks the suffix \<open>N+1\<close>. The suffixed paths for
  different numbers are different, the suffix stands before the extension when the
  extension ends the path, and the write puts the body at the chosen path and changes
  no other path. With the write and the insert of the record succeeding and the
  reaction chosen, the call then returns Success, and the files it leaves are those
  from before the call with the body added at the chosen path: no path that was there
  is written. (The numbers stay below the largest 64-bit integer, and the extension
  \<^verbatim>\<open>filepathExtension\<close> returns is no longer than the path.)
\<close>

theorem collision_picks_first_free_suffix:
  "(files completePath = Present old \<and> \<not> SavePossibleDuplicates (channelConfig col)
     \<longrightarrow> resolveCollision col files completePath
           = Some (Return (mDownloadStatus downloadSkippedDuplicate [])))
   \<and> (disk w (Path download @ subfolder @ timeFormat lib (filenameDateFormat col)
                 @ Filename download) = Present old
       \<and> \<not> SavePossibleDuplicates (channelConfig col)
     \<longrightarrow> place lib col download bodyOfResp subfolder thisDownloadID w
           = Some (Returned (mDownloadStatus downloadSkippedDuplicate []) w))
   \<and> (files completePath = Present old \<and> SavePossibleDuplicates (channelConfig col)
       \<and> length (filepathExtension col completePath) \<le> length completePath
       \<and> 0 < n \<and> n \<le> maxInt
       \<and> (\<forall>j. 0 < j \<and> j < n \<longrightarrow>
             files (suffixedPath completePath (filepathExtension col completePath) j) \<noteq> Absent)
       \<and> files (suffixedPath completePath (filepathExtension col completePath) n) = Absent
     \<longrightarrow> resolveCollision col files completePath
           = Some (Continue (suffixedPath completePath (filepathExtension col completePath) n)))
   \<and> (0 \<le> i \<and> 0 \<le> k \<and> suffixedPath completePath ext i = suffixedPath completePath ext k
     \<longrightarrow> i = k)
   \<and> (suffix ext completePath
     \<longrightarrow> (\<exists>stem. completePath = stem @ ext
            \<and> suffixedPath completePath ext i = stem @ ''-'' @ Itoa i @ ext))
   \<and> (writeFile lib chosen = None
     \<longrightarrow> disk (snd (writeAndRecord lib col download bodyOfResp chosen w))
           = (disk w)(chosen := Present bodyOfResp))
   \<and> ((stringInSlice (ChannelID (Message download)) (allChannels col)
          \<or> EmojiCmd download \<or> ManualDownload download)
      \<and> fetch lib download = Continue (d, bodyOfResp, response)
      \<and> classify lib col d bodyOfResp response = Continue (d', extension, contentTypeFound)
      \<and> duplicateImageFilter col contentTypeFound extension bodyOfResp
           (w\<lparr>cachedDownloadID := cachedDownloadID w + 1\<rparr>) = Continue w'
      \<and> subfolders lib col d' contentTypeFound = Continue subfolder
      \<and> disk w' (Path d' @ subfolder @ timeFormat lib (filenameDateFormat col) @ Filename d')
           = Present old
      \<and> \<not> SavePossibleDuplicates (channelConfig col)
     \<longrightarrow> tryDownload lib col download w
           = Some (Returned (mDownloadStatus downloadSkippedDuplicate []) w')
         \<and> disk w' = disk w \<and> database w' = database w)
   \<and> (completePath = Path download @ subfolder @ timeFormat lib (filenameDateFormat col)
                        @ Filename download
      \<and> chosen = suffixedPath completePath (filepathExtension col completePath) n
      \<and> disk w completePath = Present old \<and> SavePossibleDuplicates (channelConfig col)
      \<and> length (filepathExtension col completePath) \<le> length completePath
      \<and> 0 < n \<and> n \<le> maxInt
      \<and> (\<forall>j. 0 < j \<and> j < n \<longrightarrow>
            disk w (suffixedPath completePath (filepathExtension col completePath) j) \<noteq> Absent)
      \<and> disk w chosen = Absent
      \<and> writeFile lib chosen = None
      \<and> dbInsertDownload col (newDownloadItem col download chosen) = None
      \<and> react lib col download
           (w\<lparr>disk := (disk w)(chosen := Present bodyOfResp),
              database := database w @ [newDownloadItem col download chosen]\<rparr>) = Some w3
     \<longrightarrow> place lib col download bodyOfResp subfolder thisDownloadID w
           = Some (Returned (mDownloadStatus downloadSuccess [])
                     (finish col download thisDownloadID w3))
         \<and> disk (finish col download thisDownloadID w3)
             = (disk w)(chosen := Present bodyOfResp)
         \<and> database (finish col download thisDownloadID w3)
             = database w @ [newDownloadItem col download chosen])
   \<and> ((stringInSlice (ChannelID (Message download)) (allChannels col)
          \<or> EmojiCmd download \<or> ManualDownload download)
      \<and> fetch lib download = Continue (d, bodyOfResp, response)
      \<and> classify lib col d bodyOfResp response = Continue (d', extension, contentTypeFound)
      \<and> duplicateImageFilter col contentTypeFound extension bodyOfResp
           (w\<lparr>cachedDownloadID := cachedDownloadID w + 1\<rparr>) = Continue w'
      \<and> subfolders lib col d' contentTypeFound = Continue subfolder
      \<and> completePath = Path d' @ subfolder @ timeFormat lib (filenameDateFormat col)
                          @ Filename d'
      \<and> chosen = suffixedPath completePath (filepathExtension col completePath) n
      \<and> disk w' completePath = Present old \<and> SavePossibleDuplicates (channelConfig col)
      \<and> length (filepathExtension col completePath) \<le> length completePath
      \<and> 0 < n \<and> n \<le> maxInt
      \<and> (\<forall>j. 0 < j \<and> j < n \<longrightarrow>
            disk w' (suffixedPath completePath (filepathExtension col completePath) j) \<noteq> Absent)
      \<and> disk w' chosen = Absent
      \<and> writeFile lib chosen = None
      \<and> dbInsertDownload col (newDownloadItem col d' chosen) = None
      \<and> react lib col d'
           (w'\<lparr>disk := (disk w')(chosen := Present bodyOfResp),
               database := database w' @ [newDownloadItem col d' chosen]\<rparr>) = Some w3
     \<longrightarrow> tryDownload lib col download w
           = Some (Returned (mDownloadStatus downloadSuccess [])
                     (finish col d' (cachedDownloadID w + 1) w3))
         \<and> disk (finish col d' (cachedDownloadID w + 1) w3)
             = (disk w)(chosen := Present bodyOfResp)
         \<and> database (finish col d' (cachedDownloadID w + 1) w3)
             = database w @ [newDownloadItem col d' chosen])"
proof -
  have a: "files completePath = Present old \<and> \<not> SavePossibleDuplicates (channelConfig col)
     \<longrightarrow> resolveCollision col files completePath
           = Some (Return (mDownloadStatus downloadSkippedDuplicate []))"
    using resolveCollision_skip [of files completePath old col] by blast
  have b: "disk w (Path download @ subfolder @ timeFormat lib (filenameDateFormat col)
                 @ Filename download) = Present old
       \<and> \<not> SavePossibleDuplicates (channelConfig col)
     \<longrightarrow> place lib col download bodyOfResp subfolder thisDownloadID w
           = Some (Returned (mDownloadStatus downloadSkippedDuplicate []) w)"
    using place_skip [of w download subfolder lib col old bodyOfResp thisDownloadID] by blast
  have c: "files completePath = Present old \<and> SavePossibleDuplicates (channelConfig col)
       \<and> length (filepathExtension col completePath) \<le> length completePath
       \<and> 0 < n \<and> n \<le> maxInt
       \<and> (\<forall>j. 0 < j \<and> j < n \<longrightarrow>
             files (suffixedPath completePath (filepathExtension col completePath) j) \<noteq> Absent)
       \<and> files (suffixedPath completePath (filepathExtension col completePath) n) = Absent
     \<longrightarrow> resolveCollision col files completePath
           = Some (Continue (suffixedPath completePath (filepathExtension col completePath) n))"
    using resolveCollision_probe [of files completePath old col n] by blast
  have d: "0 \<le> i \<and> 0 \<le> k \<and> suffixedPath completePath ext i = suffixedPath completePath ext k
     \<longrightarrow> i = k"
    using suffixedPath_inj [of i k completePath ext] by blast
  have e: "suffix ext completePath
     \<longrightarrow> (\<exists>stem. completePath = stem @ ext
            \<and> suffixedPath completePath ext i = stem @ ''-'' @ Itoa i @ ext)"
    using suffixedPath_before_extension [of ext completePath i] by blast
  have f: "writeFile lib chosen = None
     \<longrightarrow> disk (snd (writeAndRecord lib col download bodyOfResp chosen w))
           = (disk w)(chosen := Present bodyOfResp)"
    using writeAndRecord_disk [of lib chosen col download bodyOfResp w] by blast
  have g: "(stringInSlice (ChannelID (Message download)) (allChannels col)
          \<or> EmojiCmd download \<or> ManualDownload download)
      \<and> fetch lib download = Continue (d, bodyOfResp, response)
      \<and> classify lib col d bodyOfResp response = Continue (d', extension, contentTypeFound)
      \<and> duplicateImageFilter col contentTypeFound extension bodyOfResp
           (w\<lparr>cachedDownloadID := cachedDownloadID w + 1\<rparr>) = Continue w'
      \<and> subfolders lib col d' contentTypeFound = Continue subfolder
      \<and> disk w' (Path d' @ subfolder @ timeFormat lib (filenameDateFormat col) @ Filename d')
           = Present old
      \<and> \<not> SavePossibleDuplicates (channelConfig col)
     \<longrightarrow> tryDownload lib col download w
           = Some (Returned (mDownloadStatus downloadSkippedDuplicate []) w')
         \<and> disk w' = disk w \<and> database w' = database w"
  proof
    assume h: "(stringInSlice (ChannelID (Message download)) (allChannels col)
          \<or> EmojiCmd download \<or> ManualDownload download)
      \<and> fetch lib download = Continue (d, bodyOfResp, response)
      \<and> classify lib col d bodyOfResp response = Continue (d', extension, contentTypeFound)
      \<and> duplicateImageFilter col contentTypeFound extension bodyOfResp
           (w\<lparr>cachedDownloadID := cachedDownloadID w + 1\<rparr>) = Continue w'
      \<and> subfolders lib col d' contentTypeFound = Continue subfolder
      \<and> disk w' (Path d' @ subfolder @ timeFormat lib (filenameDateFormat col) @ Filename d')
           = Present old
      \<and> \<not> SavePossibleDuplicates (channelConfig col)"
    have "tryDownload lib col download w =
            place lib col d' bodyOfResp subfolder (cachedDownloadID w + 1) w'"
      using h by (intro tryDownload_reaches_place) blast+
    also have "\<dots> = Some (Returned (mDownloadStatus downloadSkippedDuplicate []) w')"
      using h by (intro place_skip) blast+
    finally have t: "tryDownload lib col download w
           = Some (Returned (mDownloadStatus downloadSkippedDuplicate []) w')" .
    have k: "disk w' = disk w \<and> database w' = database w"
      using h duplicateImageFilter_keeps_files
        [of col contentTypeFound extension bodyOfResp
            "w\<lparr>cachedDownloadID := cachedDownloadID w + 1\<rparr>" w']
      by simp
    show "tryDownload lib col download w
           = Some (Returned (mDownloadStatus downloadSkippedDuplicate []) w')
         \<and> disk w' = disk w \<and> database w' = database w"
      using t k by blast
  qed
  have h: "completePath = Path download @ subfolder @ timeFormat lib (filenameDateFormat col)
                        @ Filename download
      \<and> chosen = suffixedPath completePath (filepathExtension col completePath) n
      \<and> disk w completePath = Present old \<and> SavePossibleDuplicates (channelConfig col)
      \<and> length (filepathExtension col completePath) \<le> length completePath
      \<and> 0 < n \<and> n \<le> maxInt
      \<and> (\<forall>j. 0 < j \<and> j < n \<longrightarrow>
            disk w (suffixedPath completePath (filepathExtension col completePath) j) \<noteq> Absent)
      \<and> disk w chosen = Absent
      \<and> writeFile lib chosen = None
      \<and> dbInsertDownload col (newDownloadItem col download chosen) = None
      \<and> react lib col download
           (w\<lparr>disk := (disk w)(chosen := Present bodyOfResp),
              database := database w @ [newDownloadItem col download chosen]\<rparr>) = Some w3
     \<longrightarrow> place lib col download bodyOfResp subfolder thisDownloadID w
           = Some (Returned (mDownloadStatus downloadSuccess [])
                     (finish col download thisDownloadID w3))
         \<and> disk (finish col download thisDownloadID w3)
             = (disk w)(chosen := Present bodyOfResp)
         \<and> database (finish col download thisDownloadID w3)
             = database w @ [newDownloadItem col download chosen]"
  proof
    assume a: "completePath = Path download @ subfolder @ timeFormat lib (filenameDateFormat col)
                        @ Filename download
      \<and> chosen = suffixedPath completePath (filepathExtension col completePath) n
      \<and> disk w completePath = Present old \<and> SavePossibleDuplicates (channelConfig col)
      \<and> length (filepathExtension col completePath) \<le> length completePath
      \<and> 0 < n \<and> n \<le> maxInt
      \<and> (\<forall>j. 0 < j \<and> j < n \<longrightarrow>
            disk w (suffixedPath completePath (filepathExtension col completePath) j) \<noteq> Absent)
      \<and> disk w chosen = Absent
      \<and> writeFile lib chosen = None
      \<and> dbInsertDownload col (newDownloadItem col download chosen) = None
      \<and> react lib col download
           (w\<lparr>disk := (disk w)(chosen := Present bodyOfResp),
              database := database w @ [newDownloadItem col download chosen]\<rparr>) = Some w3"
    show "place lib col download bodyOfResp subfolder thisDownloadID w
           = Some (Returned (mDownloadStatus downloadSuccess [])
                     (finish col download thisDownloadID w3))
         \<and> disk (finish col download thisDownloadID w3)
             = (disk w)(chosen := Present bodyOfResp)
         \<and> database (finish col download thisDownloadID w3)
             = database w @ [newDownloadItem col download chosen]"
      using a
      apply (elim conjE, intro conjI)
        apply (rule place_keeps_duplicate(1); assumption)
       apply (rule place_keeps_duplicate(2); assumption)
      apply (rule place_keeps_duplicate(3); assumption)
      done
  qed
  have t: "(stringInSlice (ChannelID (Message download)) (allChannels col)
          \<or> EmojiCmd download \<or> ManualDownload download)
      \<and> fetch lib download = Continue (d, bodyOfResp, response)
      \<and> classify lib col d bodyOfResp response = Continue (d', extension, contentTypeFound)
      \<and> duplicateImageFilter col contentTypeFound extension bodyOfResp
           (w\<lparr>cachedDownloadID := cachedDownloadID w + 1\<rparr>) = Continue w'
      \<and> subfolders lib col d' contentTypeFound = Continue subfolder
      \<and> completePath = Path d' @ subfolder @ timeFormat lib (filenameDateFormat col)
                          @ Filename d'
      \<and> chosen = suffixedPath completePath (filepathExtension col completePath) n
      \<and> disk w' completePath = Present old \<and> SavePossibleDuplicates (channelConfig col)
      \<and> length (filepathExtension col completePath) \<le> length completePath
      \<and> 0 < n \<and> n \<le> maxInt
      \<and> (\<forall>j. 0 < j \<and> j < n \<longrightarrow>
            disk w' (suffixedPath completePath (filepathExtension col completePath) j) \<noteq> Absent)
      \<and> disk w' chosen = Absent
      \<and> writeFile lib chosen = None
      \<and> dbInsertDownload col (newDownloadItem col d' chosen) = None
      \<and> react lib col d'
           (w'\<lparr>disk := (disk w')(chosen := Present bodyOfResp),
               database := database w' @ [newDownloadItem col d' chosen]\<rparr>) = Some w3
     \<longrightarrow> tryDownload lib col download w
           = Some (Returned (mDownloadStatus downloadSuccess [])
                     (finish col d' (cachedDownloadID w + 1) w3))
         \<and> disk (finish col d' (cachedDownloadID w + 1) w3)
             = (disk w)(chosen := Present bodyOfResp)
         \<and> database (finish col d' (cachedDownloadID w + 1) w3)
             = database w @ [newDownloadItem col d' chosen]"
  proof
    assume a: "(stringInSlice (ChannelID (Message download)) (allChannels col)
          \<or> EmojiCmd download \<or> ManualDownload download)
      \<and> fetch lib download = Continue (d, bodyOfResp, response)
      \<and> classify lib col d bodyOfResp response = Continue (d', extension, contentTypeFound)
      \<and> duplicateImageFilter col contentTypeFound extension bodyOfResp
           (w\<lparr>cachedDownloadID := cachedDownloadID w + 1\<rparr>) = Continue w'
      \<and> subfolders lib col d' contentTypeFound = Continue subfolder
      \<and> completePath = Path d' @ subfolder @ timeFormat lib (filenameDateFormat col)
                          @ Filename d'
      \<and> chosen = suffixedPath completePath (filepathExtension col completePath) n
      \<and> disk w' completePath = Present old \<and> SavePossibleDuplicates (channelConfig col)
      \<and> length (filepathExtension col completePath) \<le> length completePath
      \<and> 0 < n \<and> n \<le> maxInt
      \<and> (\<forall>j. 0 < j \<and> j < n \<longrightarrow>
            disk w' (suffixedPath completePath (filepathExtension col completePath) j) \<noteq> Absent)
      \<and> disk w' chosen = Absent
      \<and> writeFile lib chosen = None
      \<and> dbInsertDownload col (newDownloadItem col d' chosen) = None
      \<and> react lib col d'
           (w'\<lparr>disk := (disk w')(chosen := Present bodyOfResp),
               database := database w' @ [newDownloadItem col d' chosen]\<rparr>) = Some w3"
    have k: "disk w' = disk w \<and> database w' = database w"
      using a duplicateImageFilter_keeps_files
        [of col contentTypeFound extension bodyOfResp
            "w\<lparr>cachedDownloadID := cachedDownloadID w + 1\<rparr>" w']
      by simp
    have eq: "tryDownload lib col download w =
            place lib col d' bodyOfResp subfolder (cachedDownloadID w + 1) w'"
      using a by (intro tryDownload_reaches_place) blast+
    have pl: "place lib col d' bodyOfResp subfolder (cachedDownloadID w + 1) w'
           = Some (Returned (mDownloadStatus downloadSuccess [])
                     (finish col d' (cachedDownloadID w + 1) w3))
         \<and> disk (finish col d' (cachedDownloadID w + 1) w3)
             = (disk w')(chosen := Present bodyOfResp)
         \<and> database (finish col d' (cachedDownloadID w + 1) w3)
             = database w' @ [newDownloadItem col d' chosen]"
      using a
      apply (elim conjE, intro conjI)
        apply (rule place_keeps_duplicate(1); assumption)
       apply (rule place_keeps_duplicate(2); assumption)
      apply (rule place_keeps_duplicate(3); assumption)
      done
    show "tryDownload lib col download w
           = Some (Returned (mDownloadStatus downloadSuccess [])
                     (finish col d' (cachedDownloadID w + 1) w3))
         \<and> disk (finish col d' (cachedDownloadID w + 1) w3)
             = (disk w)(chosen := Present bodyOfResp)
         \<and> database (finish col d' (cachedDownloadID w + 1) w3)
             = database w @ [newDownloadItem col d' chosen]"
      using eq pl k by simp
  qed
  show ?thesis
    by (intro conjI) (rule a b c d e f g h t)+
qed


lemma Itoa_digit: "0 \<le> i \<Longrightarrow> i < 10 \<Longrightarrow> Itoa i = [char_of (48 + nat i)]"
  by (simp add: Itoa_def natToDec.simps digitChar_def)

lemma example_suffixed:
  "suffixedPath ''dl/2021-a.png'' ''.png'' 1 = ''dl/2021-a-1.png''"
  "suffixedPath ''dl/2021-a.png'' ''.png'' 2 = ''dl/2021-a-2.png''"
  "suffixedPath ''dl/2021-a.png'' ''.png'' 3 = ''dl/2021-a-3.png''"
  by (simp_all add: suffixedPath_def Itoa_digit char_of_eq_iff)

theorem collision_picks_first_free_suffix_witness:
  "resolveCollision
      (exampleCollaborators\<lparr>channelConfig := exampleChannel\<lparr>SavePossibleDuplicates := True\<rparr>\<rparr>)
      threeTaken ''dl/2021-a.png''
     = Some (Continue ''dl/2021-a-3.png'')
   \<and> threeTaken ''dl/2021-a-3.png'' = Absent
   \<and> place exampleLibraries exampleCollaborators
        (pngRequest\<lparr>Path := ''dl/'', Filename := ''a.png''\<rparr>) ''PNG'' [] 1
        (exampleWorld\<lparr>disk := threeTaken\<rparr>)
     = Some (Returned (mDownloadStatus downloadSkippedDuplicate [])
               (exampleWorld\<lparr>disk := threeTaken\<rparr>))
   \<and> tryDownload exampleLibraries exampleCollaborators pngRequest
        (exampleWorld\<lparr>disk := threeTaken\<rparr>)
     = Some (Returned (mDownloadStatus downloadSkippedDuplicate [])
               (exampleWorld\<lparr>disk := threeTaken, cachedDownloadID := 1, imgStore := [(1, 3)]\<rparr>))
   \<and> (\<exists>wf. tryDownload exampleLibraries
              (exampleCollaborators\<lparr>channelConfig := exampleChannel\<lparr>SavePossibleDuplicates := True\<rparr>\<rparr>)
              pngRequest (exampleWorld\<lparr>disk := threeTaken\<rparr>)
            = Some (Returned (mDownloadStatus downloadSuccess []) wf)
          \<and> disk wf = threeTaken(''dl/2021-a-3.png'' := Present ''PNG'')
          \<and> disk wf ''dl/2021-a.png'' = Present ''old''
          \<and> length (database wf) = 1)"
proof -
  let ?col = "exampleCollaborators\<lparr>channelConfig := exampleChannel\<lparr>SavePossibleDuplicates := True\<rparr>\<rparr>"
  let ?d' = "pngRequest\<lparr>Path := ''dl/'', Filename := ''a.png''\<rparr>"
  let ?w = "exampleWorld\<lparr>disk := threeTaken\<rparr>"
  have ext: "filepathExtension ?col ''dl/2021-a.png'' = ''.png''"
    by (simp add: exampleCollaborators_def filepathExt_def osPathSeparator_def)
  have taken: "threeTaken ''dl/2021-a.png'' = Present ''old''"
    by (simp add: threeTaken_def)
  have keep: "SavePossibleDuplicates (channelConfig ?col)"
    "\<not> SavePossibleDuplicates (channelConfig exampleCollaborators)"
    by (simp_all add: exampleCollaborators_def exampleChannel_def)
  have len: "length (filepathExtension ?col ''dl/2021-a.png'') \<le> length ''dl/2021-a.png''"
    unfolding ext by simp
  have n: "(0::int) < 3 \<and> 3 \<le> maxInt"
    by (simp add: maxInt_def)
  have below: "\<forall>j. 0 < j \<and> j < 3 \<longrightarrow>
      threeTaken (suffixedPath ''dl/2021-a.png'' (filepathExtension ?col ''dl/2021-a.png'') j) \<noteq> Absent"
  proof (intro allI impI)
    fix j :: int assume "0 < j \<and> j < 3"
    then have "j = 1 \<or> j = 2" by arith
    then show "threeTaken (suffixedPath ''dl/2021-a.png'' (filepathExtension ?col ''dl/2021-a.png'') j) \<noteq> Absent"
      unfolding ext by (auto simp: example_suffixed threeTaken_def)
  qed
  have free: "threeTaken (suffixedPath ''dl/2021-a.png'' (filepathExtension ?col ''dl/2021-a.png'') 3) = Absent"
    unfolding ext by (simp add: example_suffixed threeTaken_def)
  have p: "disk ?w (Path ?d' @ [] @ timeFormat exampleLibraries (filenameDateFormat exampleCollaborators)
                     @ Filename ?d') = Present ''old''"
    by (simp add: pngRequest_def exampleLibraries_def threeTaken_def)
  have r1: "resolveCollision ?col threeTaken ''dl/2021-a.png''
     = Some (Continue (suffixedPath ''dl/2021-a.png'' (filepathExtension ?col ''dl/2021-a.png'') 3))"
    using collision_picks_first_free_suffix
      [of threeTaken "''dl/2021-a.png''" "''old''" ?col ?w ?d' "[]" exampleLibraries
          "''PNG''" 1 3 0 0 "''.png''" "''dl/2021-a-3.png''"]
      taken keep(1) len n below free by blast
  have r2: "place exampleLibraries exampleCollaborators ?d' ''PNG'' [] 1 ?w
     = Some (Returned (mDownloadStatus downloadSkippedDuplicate []) ?w)"
    using collision_picks_first_free_suffix
      [of threeTaken "''dl/2021-a.png''" "''old''" exampleCollaborators ?w ?d' "[]" exampleLibraries
          "''PNG''" 1 3 0 0 "''.png''" "''dl/2021-a-3.png''"]
      keep(2) p by blast
  have f: "threeTaken ''dl/2021-a-3.png'' = Absent"
    by (simp add: threeTaken_def)
  let ?d = "pngRequest\<lparr>Path := ''dl/''\<rparr>"
  let ?resp = "\<lparr>StatusCode = 200, responseBody = Inr ''PNG'',
        requestURL = ''https://example.com/a.png'', contentDisposition = None\<rparr>"
  let ?w' = "exampleWorld\<lparr>disk := threeTaken, cachedDownloadID := 1, imgStore := [(1, 3)]\<rparr>"
  have en: "stringInSlice (ChannelID (Message pngRequest)) (allChannels exampleCollaborators)
     \<or> EmojiCmd pngRequest \<or> ManualDownload pngRequest"
    by (rule example_enrolled) (simp add: exampleCollaborators_def)
  have cl: "classify exampleLibraries exampleCollaborators ?d ''PNG'' ?resp
     = Continue (?d', ''.png'', ''image'')"
    by (rule example_classify) (simp_all add: exampleCollaborators_def)
  have df: "duplicateImageFilter exampleCollaborators ''image'' ''.png'' ''PNG''
      (?w\<lparr>cachedDownloadID := cachedDownloadID ?w + 1\<rparr>) = Continue ?w'"
    by (simp add: duplicateImageFilter_def exampleCollaborators_def exampleWorld_def)
  have sf: "subfolders exampleLibraries exampleCollaborators ?d' ''image'' = Continue []"
    by (rule example_subfolders)
  have p': "disk ?w' (Path ?d' @ [] @ timeFormat exampleLibraries (filenameDateFormat exampleCollaborators)
                     @ Filename ?d') = Present ''old''"
    by (simp add: pngRequest_def exampleLibraries_def threeTaken_def)
  have r3: "tryDownload exampleLibraries exampleCollaborators pngRequest ?w
     = Some (Returned (mDownloadStatus downloadSkippedDuplicate []) ?w')"
    using collision_picks_first_free_suffix
      [of threeTaken "''dl/2021-a.png''" "''old''" exampleCollaborators ?w pngRequest "[]"
          exampleLibraries "''PNG''" 1 3 0 0 "''.png''" "''dl/2021-a-3.png''"
          ?d ?resp ?d' "''.png''" "''image''" ?w']
      en example_fetch cl df sf p' keep(2) by blast
  let ?item = "newDownloadItem ?col ?d' ''dl/2021-a-3.png''"
  let ?w2 = "?w'\<lparr>disk := (disk ?w')(''dl/2021-a-3.png'' := Present ''PNG''),
               database := database ?w' @ [?item]\<rparr>"
  have enK: "stringInSlice (ChannelID (Message pngRequest)) (allChannels ?col)
     \<or> EmojiCmd pngRequest \<or> ManualDownload pngRequest"
    by (rule example_enrolled) (simp add: exampleCollaborators_def)
  have clK: "classify exampleLibraries ?col ?d ''PNG'' ?resp = Continue (?d', ''.png'', ''image'')"
    by (simp add: classify_def chooseFilename_def exampleLibraries_def pngRequest_def
      filepathExt_def osPathSeparator_def contentTypePart0_def checkExtension_def
      extensionAborts_def checkDomain_def checkContentType_def fixContentType_def
      fixFilenameExtension_def thenFlow_def exampleChannel_def noFilters_def Let_def
      exampleCollaborators_def)
  have dfK: "duplicateImageFilter ?col ''image'' ''.png'' ''PNG''
      (?w\<lparr>cachedDownloadID := cachedDownloadID ?w + 1\<rparr>) = Continue ?w'"
    by (simp add: duplicateImageFilter_def exampleCollaborators_def exampleWorld_def)
  have sfK: "subfolders exampleLibraries ?col ?d' ''image'' = Continue []"
    by (rule example_subfolders)
  have cpK: "''dl/2021-a.png'' = Path ?d' @ [] @ timeFormat exampleLibraries (filenameDateFormat ?col)
                                   @ Filename ?d'"
    by (simp add: pngRequest_def exampleLibraries_def)
  have chK: "''dl/2021-a-3.png''
      = suffixedPath ''dl/2021-a.png'' (filepathExtension ?col ''dl/2021-a.png'') 3"
    unfolding ext by (simp add: example_suffixed)
  have takenK: "disk ?w' ''dl/2021-a.png'' = Present ''old''"
    by (simp add: threeTaken_def)
  have keepK: "SavePossibleDuplicates (channelConfig ?col)"
    by (simp add: exampleCollaborators_def exampleChannel_def)
  have lenK: "length (filepathExtension ?col ''dl/2021-a.png'') \<le> length ''dl/2021-a.png''"
    unfolding ext by simp
  have n1: "(0::int) < 3" and n2: "(3::int) \<le> maxInt"
    by (simp_all add: maxInt_def)
  have belowK: "\<forall>j. 0 < j \<and> j < 3 \<longrightarrow>
      disk ?w' (suffixedPath ''dl/2021-a.png'' (filepathExtension ?col ''dl/2021-a.png'') j) \<noteq> Absent"
  proof (intro allI impI)
    fix j :: int assume "0 < j \<and> j < 3"
    then have "j = 1 \<or> j = 2" by arith
    then show "disk ?w' (suffixedPath ''dl/2021-a.png'' (filepathExtension ?col ''dl/2021-a.png'') j) \<noteq> Absent"
      unfolding ext by (auto simp: example_suffixed threeTaken_def)
  qed
  have freeK: "disk ?w' ''dl/2021-a-3.png'' = Absent"
    by (simp add: threeTaken_def)
  have wfK: "writeFile exampleLibraries ''dl/2021-a-3.png'' = None"
    by (simp add: exampleLibraries_def)
  have dbK: "dbInsertDownload ?col ?item = None"
    by (simp add: exampleCollaborators_def)
  have reK: "react exampleLibraries ?col ?d' ?w2 = Some ?w2"
    by (simp add: react_def Let_def pngRequest_def)
  note T = collision_picks_first_free_suffix
      [where lib = exampleLibraries and col = ?col and download = pngRequest and d = ?d
         and bodyOfResp = "''PNG''" and response = ?resp and d' = ?d' and extension = "''.png''"
         and contentTypeFound = "''image''" and w = ?w and w' = ?w' and subfolder = "[]"
         and completePath = "''dl/2021-a.png''" and chosen = "''dl/2021-a-3.png''" and n = 3
         and old = "''old''" and ?w3.0 = ?w2,
       THEN conjunct2, THEN conjunct2, THEN conjunct2, THEN conjunct2,
       THEN conjunct2, THEN conjunct2, THEN conjunct2, THEN conjunct2, THEN mp]
  have r4: "tryDownload exampleLibraries ?col pngRequest ?w
           = Some (Returned (mDownloadStatus downloadSuccess [])
                     (finish ?col ?d' (cachedDownloadID ?w + 1) ?w2))
         \<and> disk (finish ?col ?d' (cachedDownloadID ?w + 1) ?w2)
             = (disk ?w)(''dl/2021-a-3.png'' := Present ''PNG'')
         \<and> database (finish ?col ?d' (cachedDownloadID ?w + 1) ?w2)
             = database ?w @ [?item]"
    by (rule T, intro conjI)
       (rule enK example_fetch clK dfK sfK cpK chK takenK keepK lenK n1 n2 belowK freeK wfK
          dbK reK)+
  have dw: "disk ?w = threeTaken" "database ?w = []"
    by (simp_all add: exampleWorld_def)
  have oldK: "threeTaken ''dl/2021-a.png'' = Present ''old''"
    by (simp add: threeTaken_def)
  have r4': "\<exists>wf. tryDownload exampleLibraries ?col pngRequest ?w
            = Some (Returned (mDownloadStatus downloadSuccess []) wf)
          \<and> disk wf = threeTaken(''dl/2021-a-3.png'' := Present ''PNG'')
          \<and> disk wf ''dl/2021-a.png'' = Present ''old''
          \<and> length (database wf) = 1"
    using r4 oldK unfolding dw
    by (intro exI [of _ "finish ?col ?d' (cachedDownloadID ?w + 1) ?w2"]) simp
  have r123: "resolveCollision ?col threeTaken ''dl/2021-a.png'' = Some (Continue ''dl/2021-a-3.png'')
      \<and> threeTaken ''dl/2021-a-3.png'' = Absent
      \<and> place exampleLibraries exampleCollaborators ?d' ''PNG'' [] 1 ?w
           = Some (Returned (mDownloadStatus downloadSkippedDuplicate []) ?w)
      \<and> tryDownload exampleLibraries exampleCollaborators pngRequest ?w
           = Some (Returned (mDownloadStatus downloadSkippedDuplicate []) ?w')"
    using r1 r2 r3 f unfolding ext example_suffixed by blast
  show ?thesis
    using r123 r4' by (intro conjI) (erule conjunct1 conjunct2 | assumption | blast)+
qed



section \<open>Properties of the reaction\<close>

lemma chooseReaction_never:
  assumes "ReactWhenDownloadedEmoji (channelConfig col) = []"
    and "GuildID (Message download) \<noteq> []"
    and "stateGuildEmojis col (GuildID (Message download)) = Inr emojis"
    and "1 < length emojis"
    and "\<forall>e \<in> set emojis. Animated e \<or> stringInSlice (APIName e) (BlacklistReactEmojis (channelConfig col))"
  shows "chooseReaction lib col download n = None"
proof -
  from assms(4) have "emojis \<noteq> []" by auto
  with assms(5) have "pickEmoji (randIntn lib) emojis (BlacklistReactEmojis (channelConfig col)) n = None"
    by (intro pickEmoji_never)
  with assms show ?thesis by (simp add: chooseReaction_def)
qed

lemma react_never:
  assumes "ReactWhenDownloaded (config col)"
    and "ReactWhenDownloadedChannel (channelConfig col) = None"
    and "ReactWhenDownloadedHistory (channelConfig col) = None"
    and "Author (Message download) \<noteq> None"
    and "\<forall>n. chooseReaction lib col download n = None"
  shows "react lib col download w = None"
  using assms by (simp add: react_def Let_def)

text \<open>
  C8. The claim says that the choice of a random guild emoji terminates for every
  guild emoji set and falls back to the default reaction when no emoji is eligible.
  In the source the fallback is taken only for a guild with at most one emoji; with
  two or more the loop draws until an eligible emoji comes up. For the guild whose two
  emojis are both animated, whatever numbers the random generator gives, the loop
  never ends: the choice of the reaction has no result, and neither has the call of
  \<^verbatim>\<open>tryDownload\<close> for a message of that guild, after the file and the record have
  been written.
\<close>

theorem reaction_choice_never_ends_without_eligible_emoji:
  "(\<forall>intn n. pickEmoji intn animatedPair [] n = None)
   \<and> (\<forall>lib n. chooseReaction lib animatedGuild authoredRequest n = None)
   \<and> (\<forall>lib w. react lib animatedGuild authoredRequest w = None)
   \<and> tryDownload exampleLibraries animatedGuild authoredRequest exampleWorld = None"
proof -
  let ?d = "authoredRequest\<lparr>Path := ''dl/''\<rparr>"
  let ?d' = "authoredRequest\<lparr>Path := ''dl/'', Filename := ''a.png''\<rparr>"
  let ?resp = "\<lparr>StatusCode = 200, responseBody = Inr ''PNG'',
        requestURL = ''https://example.com/a.png'', contentDisposition = None\<rparr>"
  let ?w' = "exampleWorld\<lparr>cachedDownloadID := 1, imgStore := [(1, 3)]\<rparr>"
  have inel: "\<forall>e \<in> set animatedPair. Animated e \<or> stringInSlice (APIName e) []"
    by (simp add: animatedPair_def)
  have ne: "animatedPair \<noteq> []"
    by (simp add: animatedPair_def)
  have a: "\<forall>intn n. pickEmoji intn animatedPair [] n = None"
    using pickEmoji_never [OF inel ne] by blast
  have cr: "chooseReaction lib animatedGuild (authoredRequest\<lparr>Path := pth, Filename := fn\<rparr>) n = None"
    for lib pth fn n
    by (rule chooseReaction_never [where emojis = animatedPair])
      (simp_all add: animatedGuild_def exampleCollaborators_def exampleChannel_def
        authoredRequest_def pngRequest_def animatedPair_def)
  have re: "react lib animatedGuild (authoredRequest\<lparr>Path := pth, Filename := fn\<rparr>) w = None"
    for lib pth fn and w :: "((int \<times> nat) list) world"
  proof (rule react_never)
    show "\<forall>n. chooseReaction lib animatedGuild (authoredRequest\<lparr>Path := pth, Filename := fn\<rparr>) n
            = None"
      using cr by blast
  qed (simp_all add: animatedGuild_def exampleCollaborators_def exampleChannel_def
        authoredRequest_def)
  have same: "authoredRequest\<lparr>Path := Path authoredRequest, Filename := Filename authoredRequest\<rparr>
      = authoredRequest"
    by simp
  have b: "\<forall>lib n. chooseReaction lib animatedGuild authoredRequest n = None"
    using cr [where pth = "Path authoredRequest" and fn = "Filename authoredRequest"]
    unfolding same by blast
  have c: "\<forall>lib w. react lib animatedGuild authoredRequest w = None"
    using re [where pth = "Path authoredRequest" and fn = "Filename authoredRequest"]
    unfolding same by blast
  have en: "stringInSlice (ChannelID (Message authoredRequest)) (allChannels animatedGuild)
     \<or> EmojiCmd authoredRequest \<or> ManualDownload authoredRequest"
    by (simp add: authoredRequest_def pngRequest_def animatedGuild_def exampleCollaborators_def)
  have f: "fetch exampleLibraries authoredRequest = Continue (?d, ''PNG'', ?resp)"
    by (simp add: fetch_def exampleLibraries_def authoredRequest_def pngRequest_def
        osPathSeparator_def Let_def suffix_to_prefix)
  have cl: "classify exampleLibraries animatedGuild ?d ''PNG'' ?resp
     = Continue (?d', ''.png'', ''image'')"
    by (simp add: classify_def chooseFilename_def exampleLibraries_def authoredRequest_def
      pngRequest_def filepathExt_def osPathSeparator_def contentTypePart0_def checkExtension_def
      extensionAborts_def checkDomain_def checkContentType_def fixContentType_def
      fixFilenameExtension_def thenFlow_def exampleChannel_def noFilters_def Let_def
      animatedGuild_def exampleCollaborators_def)
  have df: "duplicateImageFilter animatedGuild ''image'' ''.png'' ''PNG''
      (exampleWorld\<lparr>cachedDownloadID := cachedDownloadID exampleWorld + 1\<rparr>) = Continue ?w'"
    by (simp add: duplicateImageFilter_def animatedGuild_def exampleCollaborators_def
        exampleWorld_def)
  have sf: "subfolders exampleLibraries animatedGuild ?d' ''image'' = Continue []"
    by (simp add: subfolders_def authoredRequest_def pngRequest_def Let_def thenFlow_def
        animatedGuild_def exampleCollaborators_def exampleChannel_def)
  have t: "tryDownload exampleLibraries animatedGuild authoredRequest exampleWorld
     = place exampleLibraries animatedGuild ?d' ''PNG'' [] (cachedDownloadID exampleWorld + 1) ?w'"
    using en f cl df sf by (rule tryDownload_reaches_place)
  have p: "Path ?d' @ [] @ timeFormat exampleLibraries (filenameDateFormat animatedGuild)
             @ Filename ?d' = ''dl/2021-a.png''"
    by (simp add: authoredRequest_def pngRequest_def exampleLibraries_def)
  have rc: "resolveCollision animatedGuild (disk ?w') ''dl/2021-a.png''
     = Some (Continue ''dl/2021-a.png'')"
    by (simp add: resolveCollision_def exampleWorld_def)
  have wr: "fst (writeAndRecord exampleLibraries animatedGuild ?d' ''PNG'' ''dl/2021-a.png'' ?w')
     = Continue ()"
    by (simp add: writeAndRecord_def exampleLibraries_def animatedGuild_def
        exampleCollaborators_def Let_def)
  have pl: "place exampleLibraries animatedGuild ?d' ''PNG'' [] (cachedDownloadID exampleWorld + 1) ?w'
     = None"
    unfolding place_def Let_def p rc
    using wr re [where lib = exampleLibraries and pth = "''dl/''" and fn = "''a.png''"]
    by (auto simp add: ended_def split: prod.splits)
  show ?thesis
    using a b c t pl by simp
qed


section \<open>Properties of the resolver dispatch\<close>

lemma getDownloadLinks_resolved:
  "firstResolved (resolvers env) u = Some l \<Longrightarrow>
   getDownloadLinks env u = Some (trimDownloadedLinks env l, 0)"
  by (subst getDownloadLinks.simps) simp

lemma getDownloadLinks_emoji:
  "firstResolved (resolvers env) u = None \<Longrightarrow> prefix emojiPrefix u \<Longrightarrow>
   getDownloadLinks env u = Some ([], 0)"
  by (subst getDownloadLinks.simps) simp

lemma getDownloadLinks_fallback:
  "firstResolved (resolvers env) u = None \<Longrightarrow> \<not> prefix emojiPrefix u \<Longrightarrow>
   withoutQueries env u = None \<or> withoutQueries env u = Some u \<Longrightarrow>
   getDownloadLinks env u = Some (trimDownloadedLinks env [(u, [])], 0)"
  by (subst getDownloadLinks.simps) auto

lemma getDownloadLinks_recurse:
  "firstResolved (resolvers env) u = None \<Longrightarrow> \<not> prefix emojiPrefix u \<Longrightarrow>
   withoutQueries env u = Some v \<Longrightarrow> v \<noteq> u \<Longrightarrow>
   getDownloadLinks env u =
     Option.bind (getDownloadLinks env v) (\<lambda>r. Some (trimDownloadedLinks env (fst r), Suc (snd r)))"
  by (subst getDownloadLinks.simps) simp

lemma getDownloadLinks_stable:
  assumes "withoutQueries env v = None \<or> withoutQueries env v = Some v"
  shows "\<exists>l. getDownloadLinks env v = Some (l, 0)"
proof (cases "firstResolved (resolvers env) v")
  case (Some l)
  then show ?thesis by (simp add: getDownloadLinks_resolved)
next
  case None
  show ?thesis
  proof (cases "prefix emojiPrefix v")
    case True
    with None show ?thesis by (simp add: getDownloadLinks_emoji)
  next
    case False
    with None assms show ?thesis by (simp add: getDownloadLinks_fallback)
  qed
qed

text \<open>
  C9, as amended. Provided removing the query is idempotent (for a URL it returned,
  it fails or returns the URL unchanged), the dispatch returns for every URL, after
  at most one recursive call. When no site resolves the URL and the URL has not the
  emoji prefix: if removing the query fails or leaves the URL unchanged, the result
  is the fallback mapping of the URL, passed through \<^verbatim>\<open>trimDownloadedLinks\<close>; if it
  gives a different URL that no site resolves and that has not the emoji prefix, the
  result is the fallback mapping of that stripped URL, passed through
  \<^verbatim>\<open>trimDownloadedLinks\<close> twice, after one recursive call. When no site resolves
  the URL and it has the emoji prefix the result is empty.
\<close>

theorem dispatch_recurses_at_most_once:
  "(\<forall>u v. withoutQueries env u = Some v \<longrightarrow>
        withoutQueries env v = None \<or> withoutQueries env v = Some v)
   \<longrightarrow>
     (\<exists>result n. getDownloadLinks env inputURL = Some (result, n) \<and> n \<le> 1)
     \<and> (firstResolved (resolvers env) inputURL = None \<and> \<not> prefix emojiPrefix inputURL
          \<and> (withoutQueries env inputURL = None \<or> withoutQueries env inputURL = Some inputURL)
        \<longrightarrow> getDownloadLinks env inputURL
              = Some (trimDownloadedLinks env [(inputURL, [])], 0))
     \<and> (firstResolved (resolvers env) inputURL = None \<and> \<not> prefix emojiPrefix inputURL
          \<and> withoutQueries env inputURL = Some stripped \<and> stripped \<noteq> inputURL
          \<and> firstResolved (resolvers env) stripped = None \<and> \<not> prefix emojiPrefix stripped
        \<longrightarrow> getDownloadLinks env inputURL
              = Some (trimDownloadedLinks env (trimDownloadedLinks env [(stripped, [])]), 1))
     \<and> (firstResolved (resolvers env) inputURL = None \<and> prefix emojiPrefix inputURL
        \<longrightarrow> getDownloadLinks env inputURL = Some ([], 0))"
proof
  assume idem: "\<forall>u v. withoutQueries env u = Some v \<longrightarrow>
        withoutQueries env v = None \<or> withoutQueries env v = Some v"
  have a: "\<exists>result n. getDownloadLinks env inputURL = Some (result, n) \<and> n \<le> 1"
  proof (cases "firstResolved (resolvers env) inputURL = None \<and> \<not> prefix emojiPrefix inputURL
      \<and> (\<exists>v. withoutQueries env inputURL = Some v \<and> v \<noteq> inputURL)")
    case True
    then obtain v where v: "withoutQueries env inputURL = Some v" "v \<noteq> inputURL" by blast
    with idem have "withoutQueries env v = None \<or> withoutQueries env v = Some v" by blast
    then obtain l where "getDownloadLinks env v = Some (l, 0)"
      using getDownloadLinks_stable by blast
    with True v have "getDownloadLinks env inputURL = Some (trimDownloadedLinks env l, 1)"
      by (simp add: getDownloadLinks_recurse)
    then show ?thesis by simp
  next
    case False
    show ?thesis
    proof (cases "firstResolved (resolvers env) inputURL")
      case (Some l)
      then show ?thesis by (simp add: getDownloadLinks_resolved)
    next
      case None
      show ?thesis
      proof (cases "prefix emojiPrefix inputURL")
        case True
        with None show ?thesis by (simp add: getDownloadLinks_emoji)
      next
        case np: False
        with None False have "withoutQueries env inputURL = None
            \<or> withoutQueries env inputURL = Some inputURL"
          by (cases "withoutQueries env inputURL") auto
        with None np show ?thesis by (simp add: getDownloadLinks_fallback)
      qed
    qed
  qed
  have b: "firstResolved (resolvers env) inputURL = None \<and> \<not> prefix emojiPrefix inputURL
          \<and> (withoutQueries env inputURL = None \<or> withoutQueries env inputURL = Some inputURL)
        \<longrightarrow> getDownloadLinks env inputURL
              = Some (trimDownloadedLinks env [(inputURL, [])], 0)"
    using getDownloadLinks_fallback [of env inputURL] by blast
  have c: "firstResolved (resolvers env) inputURL = None \<and> \<not> prefix emojiPrefix inputURL
          \<and> withoutQueries env inputURL = Some stripped \<and> stripped \<noteq> inputURL
          \<and> firstResolved (resolvers env) stripped = None \<and> \<not> prefix emojiPrefix stripped
        \<longrightarrow> getDownloadLinks env inputURL
              = Some (trimDownloadedLinks env (trimDownloadedLinks env [(stripped, [])]), 1)"
  proof
    assume h: "firstResolved (resolvers env) inputURL = None \<and> \<not> prefix emojiPrefix inputURL
          \<and> withoutQueries env inputURL = Some stripped \<and> stripped \<noteq> inputURL
          \<and> firstResolved (resolvers env) stripped = None \<and> \<not> prefix emojiPrefix stripped"
    with idem have "withoutQueries env stripped = None \<or> withoutQueries env stripped = Some stripped"
      by blast
    with h have "getDownloadLinks env stripped = Some (trimDownloadedLinks env [(stripped, [])], 0)"
      by (simp add: getDownloadLinks_fallback)
    with h show "getDownloadLinks env inputURL
              = Some (trimDownloadedLinks env (trimDownloadedLinks env [(stripped, [])]), 1)"
      by (simp add: getDownloadLinks_recurse)
  qed
  have d: "firstResolved (resolvers env) inputURL = None \<and> prefix emojiPrefix inputURL
        \<longrightarrow> getDownloadLinks env inputURL = Some ([], 0)"
    using getDownloadLinks_emoji [of env inputURL] by blast
  show "(\<exists>result n. getDownloadLinks env inputURL = Some (result, n) \<and> n \<le> 1)
     \<and> (firstResolved (resolvers env) inputURL = None \<and> \<not> prefix emojiPrefix inputURL
          \<and> (withoutQueries env inputURL = None \<or> withoutQueries env inputURL = Some inputURL)
        \<longrightarrow> getDownloadLinks env inputURL
              = Some (trimDownloadedLinks env [(inputURL, [])], 0))
     \<and> (firstResolved (resolvers env) inputURL = None \<and> \<not> prefix emojiPrefix inputURL
          \<and> withoutQueries env inputURL = Some stripped \<and> stripped \<noteq> inputURL
          \<and> firstResolved (resolvers env) stripped = None \<and> \<not> prefix emojiPrefix stripped
        \<longrightarrow> getDownloadLinks env inputURL
              = Some (trimDownloadedLinks env (trimDownloadedLinks env [(stripped, [])]), 1))
     \<and> (firstResolved (resolvers env) inputURL = None \<and> prefix emojiPrefix inputURL
        \<longrightarrow> getDownloadLinks env inputURL = Some ([], 0))"
    by (intro conjI) (rule a b c d)+
qed

lemma plainDispatch_idem:
  "\<forall>u v. withoutQueries plainDispatch u = Some v \<longrightarrow>
        withoutQueries plainDispatch v = None \<or> withoutQueries plainDispatch v = Some v"
  by (auto simp: plainDispatch_def dest: set_takeWhileD)

lemma plainDispatch_query:
  "firstResolved (resolvers plainDispatch) u = None"
  "\<not> prefix emojiPrefix ''https://example.com/a.png?x=1''"
  "\<not> prefix emojiPrefix ''https://example.com/a.png''"
  "withoutQueries plainDispatch ''https://example.com/a.png?x=1'' = Some ''https://example.com/a.png''"
  "withoutQueries plainDispatch ''https://example.com/a.png'' = Some ''https://example.com/a.png''"
  by (simp_all add: plainDispatch_def emojiPrefix_def)

theorem dispatch_recurses_at_most_once_witness:
  "getDownloadLinks plainDispatch ''https://example.com/a.png?x=1''
     = Some ([(''https://example.com/a.png'', [])], 1)
   \<and> getDownloadLinks plainDispatch ''https://example.com/a.png''
     = Some ([(''https://example.com/a.png'', [])], 0)
   \<and> getDownloadLinks plainDispatch ''https://cdn.discordapp.com/emojis/1.png''
     = Some ([], 0)"
proof -
  have e: "firstResolved (resolvers plainDispatch) ''https://cdn.discordapp.com/emojis/1.png'' = None
      \<and> prefix emojiPrefix ''https://cdn.discordapp.com/emojis/1.png''"
    by (simp add: plainDispatch_def emojiPrefix_def)
  have t: "trimDownloadedLinks plainDispatch l = l" for l
    by (simp add: plainDispatch_def)
  have r1: "getDownloadLinks plainDispatch ''https://example.com/a.png?x=1''
     = Some (trimDownloadedLinks plainDispatch
               (trimDownloadedLinks plainDispatch [(''https://example.com/a.png'', [])]), 1)"
    using dispatch_recurses_at_most_once
      [of plainDispatch "''https://example.com/a.png?x=1''" "''https://example.com/a.png''"]
      plainDispatch_idem plainDispatch_query by simp
  have r2: "getDownloadLinks plainDispatch ''https://example.com/a.png''
     = Some (trimDownloadedLinks plainDispatch [(''https://example.com/a.png'', [])], 0)"
    using dispatch_recurses_at_most_once
      [of plainDispatch "''https://example.com/a.png''" "''https://example.com/a.png''"]
      plainDispatch_idem plainDispatch_query by simp
  have r3: "getDownloadLinks plainDispatch ''https://cdn.discordapp.com/emojis/1.png'' = Some ([], 0)"
    using dispatch_recurses_at_most_once
      [of plainDispatch "''https://cdn.discordapp.com/emojis/1.png''" "''https://example.com/a.png''"]
      plainDispatch_idem e by blast
  show ?thesis using r1 r2 r3 unfolding t by blast
qed

text \<open>
  The claim as stated fails: for a URL with a query that no site resolves, and that is
  not an emoji link, the result is not the fallback mapping of the input URL but that
  of the URL without its query.
\<close>

theorem dispatch_fallback_is_not_input_url:
  "firstResolved (resolvers plainDispatch) ''https://example.com/a.png?x=1'' = None
   \<and> \<not> prefix emojiPrefix ''https://example.com/a.png?x=1''
   \<and> getDownloadLinks plainDispatch ''https://example.com/a.png?x=1''
       = Some ([(''https://example.com/a.png'', [])], 1)
   \<and> fst (the (getDownloadLinks plainDispatch ''https://example.com/a.png?x=1''))
       \<noteq> [(''https://example.com/a.png?x=1'', [])]"
proof -
  have s: "getDownloadLinks plainDispatch ''https://example.com/a.png''
     = Some ([(''https://example.com/a.png'', [])], 0)"
    using getDownloadLinks_fallback [of plainDispatch "''https://example.com/a.png''"]
      plainDispatch_query by (simp add: plainDispatch_def)
  have r: "getDownloadLinks plainDispatch ''https://example.com/a.png?x=1''
       = Some ([(''https://example.com/a.png'', [])], 1)"
    using getDownloadLinks_recurse
      [of plainDispatch "''https://example.com/a.png?x=1''" "''https://example.com/a.png''"]
      plainDispatch_query s by (simp add: plainDispatch_def)
  show ?thesis using r plainDispatch_query by simp
qed


end
